theory Spec2Isabelle
  imports Main
begin

section \<open>Errors and results\<close>

text \<open>
  Every exception the module can raise is a value.  \<open>RuntimeError\<close> carries its message;
  \<open>KeyError\<close> carries the key that was looked up (\<open>None\<close> when the caller passed Python's
  \<open>None\<close> as the key).
\<close>

datatype error =
    RuntimeError string
  | NotImplementedError
  | KeyError "string option"
  | IndexError
  | ValueError
  | TypeError
  | AttributeError
  | UnboundLocalError

fun and_then :: "error + 'x \<Rightarrow> ('x \<Rightarrow> error + 'y) \<Rightarrow> error + 'y" where
  "and_then (Inl e) f = Inl e"
| "and_then (Inr x) f = f x"

section \<open>Tensors\<close>

text \<open>
  A tensor is its shape together with the element stored at every index.  The element
  function is read at indices inside the shape only; the element type is left open, since
  no operation of the module inspects a number.
\<close>

datatype 'a tensor = Tensor (shape: "nat list") (elem: "nat list \<Rightarrow> 'a")

type_synonym 'a kernel = "'a tensor \<Rightarrow> error + 'a tensor"

text \<open>Row-major position of an index inside a shape, and back.\<close>

fun ravel :: "nat list \<Rightarrow> nat list \<Rightarrow> nat" where
  "ravel (d # ds) (i # js) = i * prod_list ds + ravel ds js"
| "ravel ds js = 0"

fun unravel :: "nat list \<Rightarrow> nat \<Rightarrow> nat list" where
  "unravel [] k = []"
| "unravel (d # ds) k = (k div prod_list ds) # unravel ds (k mod prod_list ds)"

text \<open>\<^verbatim>\<open>t.flatten(n)\<close>: the dimensions from \<open>n\<close> on become one.\<close>

definition t_flatten :: "nat \<Rightarrow> 'a tensor \<Rightarrow> error + 'a tensor" where
  "t_flatten n t =
     (if n < length (shape t)
      then Inr (Tensor (take n (shape t) @ [prod_list (drop n (shape t))])
                  (\<lambda>idx. elem t (take n idx @ unravel (drop n (shape t)) (idx ! n))))
      else Inl IndexError)"

text \<open>\<^verbatim>\<open>t.permute(dims)\<close>, for \<open>dims\<close> a permutation of the dimensions of \<open>t\<close>.\<close>

definition position_of :: "nat \<Rightarrow> nat list \<Rightarrow> nat" where
  "position_of d dims = length (takeWhile (\<lambda>p. p \<noteq> d) dims)"

definition t_permute :: "nat list \<Rightarrow> 'a tensor \<Rightarrow> error + 'a tensor" where
  "t_permute dims t =
     (if length dims \<noteq> length (shape t)
      then Inl (RuntimeError ''permute: number of dims does not match'')
      else Inr (Tensor (map (\<lambda>p. shape t ! p) dims)
                  (\<lambda>idx. elem t (map (\<lambda>d. idx ! position_of d dims) [0..<length dims]))))"

text \<open>\<^verbatim>\<open>t.transpose(d1, d2)\<close>.\<close>

definition t_transpose :: "nat \<Rightarrow> nat \<Rightarrow> 'a tensor \<Rightarrow> error + 'a tensor" where
  "t_transpose d1 d2 t =
     (if d1 < length (shape t) \<and> d2 < length (shape t)
      then Inr (Tensor ((shape t)[d1 := shape t ! d2, d2 := shape t ! d1])
                  (\<lambda>idx. elem t (idx[d1 := idx ! d2, d2 := idx ! d1])))
      else Inl IndexError)"

text \<open>\<^verbatim>\<open>t.unsqueeze(d)\<close>: a new dimension of size 1 at position \<open>d\<close>.\<close>

definition t_unsqueeze :: "nat \<Rightarrow> 'a tensor \<Rightarrow> error + 'a tensor" where
  "t_unsqueeze d t =
     (if d \<le> length (shape t)
      then Inr (Tensor (take d (shape t) @ 1 # drop d (shape t))
                  (\<lambda>idx. elem t (take d idx @ drop (Suc d) idx)))
      else Inl IndexError)"

text \<open>
  \<^verbatim>\<open>t.repeat(*reps)\<close>: the tensor tiled \<open>reps\<close> times along each dimension; with more
  repeats than dimensions the tensor gets leading dimensions of size 1, with fewer the
  call raises.
\<close>

definition t_repeat :: "nat list \<Rightarrow> 'a tensor \<Rightarrow> error + 'a tensor" where
  "t_repeat reps t =
     (if length reps < length (shape t)
      then Inl (RuntimeError ''repeat: number of dims cannot be smaller than tensor dims'')
      else
        (let k = length reps - length (shape t);
             s = replicate k 1 @ shape t
         in Inr (Tensor (map2 (*) reps s)
                   (\<lambda>idx. elem t (drop k (map2 (\<lambda>i d. i mod d) idx s))))))"

text \<open>\<^verbatim>\<open>t.size(d)\<close>.\<close>

definition t_size :: "nat \<Rightarrow> 'a tensor \<Rightarrow> error + nat" where
  "t_size d t = (if d < length (shape t) then Inr (shape t ! d) else Inl IndexError)"

text \<open>
  A basic index with \<open>n\<close> subscripts, all of them \<^verbatim>\<open>:\<close> but subscript \<open>d\<close>, which is
  \<^verbatim>\<open>lo:hi\<close> (\<open>hi = None\<close> for \<^verbatim>\<open>lo:\<close>).  So \<^verbatim>\<open>t[k:]\<close> is \<open>t_slice 1 0 k None\<close> and
  \<^verbatim>\<open>t[:, :, k:, :]\<close> is \<open>t_slice 4 2 k None\<close>.  More subscripts than dimensions raise;
  bounds past the end are clipped, as Python slices are.
\<close>

definition t_slice :: "nat \<Rightarrow> nat \<Rightarrow> nat \<Rightarrow> nat option \<Rightarrow> 'a tensor \<Rightarrow> error + 'a tensor" where
  "t_slice n d lo hi t =
     (if length (shape t) < n then Inl IndexError
      else
        (let sz = shape t ! d;
             stop = (case hi of None \<Rightarrow> sz | Some h \<Rightarrow> min h sz);
             start = min lo sz
         in Inr (Tensor ((shape t)[d := stop - start])
                   (\<lambda>idx. elem t (idx[d := idx ! d + lo])))))"

text \<open>
  \<^verbatim>\<open>t[i]\<close> for \<open>i\<close> a Python integer or \<open>None\<close>.  A negative integer counts from the end,
  an integer out of range raises, and \<open>None\<close> inserts a new leading dimension.
\<close>

definition t_index0 :: "int option \<Rightarrow> 'a tensor \<Rightarrow> error + 'a tensor" where
  "t_index0 i t =
     (case i of
        None \<Rightarrow> t_unsqueeze 0 t
      | Some j \<Rightarrow>
          (case shape t of
             [] \<Rightarrow> Inl IndexError
           | n # s \<Rightarrow>
               if - int n \<le> j \<and> j < int n
               then Inr (Tensor s (\<lambda>idx. elem t (nat (j mod int n) # idx)))
               else Inl IndexError))"

text \<open>\<^verbatim>\<open>t.view(*new)\<close>: the same elements in row-major order under another shape.\<close>

definition t_view :: "nat list \<Rightarrow> 'a tensor \<Rightarrow> error + 'a tensor" where
  "t_view new t =
     (if prod_list new = prod_list (shape t)
      then Inr (Tensor new (\<lambda>idx. elem t (unravel (shape t) (ravel new idx))))
      else Inl (RuntimeError ''view: shape is invalid for input size''))"

text \<open>\<^verbatim>\<open>torch.zeros_like(t)\<close>, \<^verbatim>\<open>c * t\<close> for a scalar \<open>c\<close>, and \<^verbatim>\<open>t != v\<close>.\<close>

definition torch_zeros_like :: "'a::zero tensor \<Rightarrow> 'a tensor" where
  "torch_zeros_like t = Tensor (shape t) (\<lambda>idx. 0)"

definition t_scale :: "'a::times \<Rightarrow> 'a tensor \<Rightarrow> 'a tensor" where
  "t_scale c t = Tensor (shape t) (\<lambda>idx. c * elem t idx)"

definition t_ne :: "'b tensor \<Rightarrow> 'b \<Rightarrow> bool tensor" where
  "t_ne t v = Tensor (shape t) (\<lambda>idx. elem t idx \<noteq> v)"

text \<open>
  \<^verbatim>\<open>a + b\<close> with broadcasting: shapes are aligned at their last dimension, and two
  sizes are compatible when they are equal or one of them is 1.
\<close>

fun broadcast_rev :: "nat list \<Rightarrow> nat list \<Rightarrow> nat list option" where
  "broadcast_rev [] ys = Some ys"
| "broadcast_rev (x # xs) [] = Some (x # xs)"
| "broadcast_rev (x # xs) (y # ys) =
     (if x = y \<or> y = 1 then map_option ((#) x) (broadcast_rev xs ys)
      else if x = 1 then map_option ((#) y) (broadcast_rev xs ys)
      else None)"

definition broadcast_shapes :: "nat list \<Rightarrow> nat list \<Rightarrow> nat list option" where
  "broadcast_shapes s1 s2 = map_option rev (broadcast_rev (rev s1) (rev s2))"

definition broadcast_index :: "nat list \<Rightarrow> nat list \<Rightarrow> nat list" where
  "broadcast_index s idx =
     map2 (\<lambda>d i. if d = 1 then 0 else i) s (drop (length idx - length s) idx)"

definition t_add :: "'a::plus tensor \<Rightarrow> 'a tensor \<Rightarrow> error + 'a tensor" where
  "t_add a b =
     (case broadcast_shapes (shape a) (shape b) of
        None \<Rightarrow> Inl (RuntimeError ''The size of tensor a must match the size of tensor b'')
      | Some s \<Rightarrow>
          Inr (Tensor s (\<lambda>idx. elem a (broadcast_index (shape a) idx)
                                + elem b (broadcast_index (shape b) idx))))"

text \<open>
  \<^verbatim>\<open>torch.cat(ts, dim)\<close>: an empty list raises, and so do tensors that differ in rank or
  in a dimension other than \<open>dim\<close>.  (The legacy exemption of the library for empty
  one-dimensional tensors is left out: no tensor of this module has one dimension.)
\<close>

fun cat_elem :: "nat \<Rightarrow> 'a tensor \<Rightarrow> 'a tensor list \<Rightarrow> nat list \<Rightarrow> 'a" where
  "cat_elem d t [] idx = elem t idx"
| "cat_elem d t (u # us) idx =
     (if idx ! d < shape t ! d then elem t idx
      else cat_elem d u us (idx[d := idx ! d - shape t ! d]))"

definition torch_cat :: "'a tensor list \<Rightarrow> int \<Rightarrow> error + 'a tensor" where
  "torch_cat ts dim =
     (case ts of
        [] \<Rightarrow> Inl (RuntimeError ''torch.cat(): expected a non-empty list of Tensors'')
      | t # us \<Rightarrow>
          (let r = length (shape t);
               d = (if dim < 0 then dim + int r else dim)
           in if d < 0 \<or> int r \<le> d then Inl IndexError
              else if list_all (\<lambda>u. length (shape u) = r
                                   \<and> (shape u)[nat d := 0] = (shape t)[nat d := 0]) us
              then Inr (Tensor ((shape t)[nat d := sum_list (map (\<lambda>u. shape u ! nat d) ts)])
                          (cat_elem (nat d) t us))
              else Inl (RuntimeError ''Sizes of tensors must match except in the cat dimension'')))"

text \<open>\<^verbatim>\<open>torch.stack(ts)\<close>: a new leading dimension; the tensors must agree in shape.\<close>

definition torch_stack :: "'a tensor list \<Rightarrow> error + 'a tensor" where
  "torch_stack ts =
     (case ts of
        [] \<Rightarrow> Inl (RuntimeError ''stack expects a non-empty TensorList'')
      | t # us \<Rightarrow>
          if list_all (\<lambda>u. shape u = shape t) us
          then Inr (Tensor (length ts # shape t)
                      (\<lambda>idx. case idx of [] \<Rightarrow> elem t [] | i # rest \<Rightarrow> elem (ts ! i) rest))
          else Inl (RuntimeError ''stack expects each tensor to be equal size''))"

text \<open>\<^verbatim>\<open>t[i]\<close> for an index \<open>i\<close> inside the first dimension, as a value.\<close>

definition t_select0 :: "'a tensor \<Rightarrow> nat \<Rightarrow> 'a tensor" where
  "t_select0 t i = Tensor (tl (shape t)) (\<lambda>idx. elem t (i # idx))"

section \<open>The library the module is written against\<close>

text \<open>
  The attention, linear, normalisation and dropout kernels are used through their
  interfaces only.  A module instance is its forward function; a constructor of the
  library draws fresh parameters at every call, so each call names the instance it
  creates by its path in the module tree.  \<open>float_0_1\<close> is the literal \<^verbatim>\<open>0.1\<close>.
  An attention module maps query, key, value, \<^verbatim>\<open>attn_mask\<close> and \<^verbatim>\<open>key_padding_mask\<close> to
  component \<^verbatim>\<open>[0]\<close> of its result.
\<close>

type_synonym 'a attention =
  "'a tensor \<Rightarrow> 'a tensor \<Rightarrow> 'a tensor \<Rightarrow> bool tensor option \<Rightarrow> bool tensor option
     \<Rightarrow> error + 'a tensor"

record 'a torch =
  F_relu :: "'a kernel"
  F_gelu :: "'a kernel"
  F_glu :: "'a kernel"
  nn_MultiheadAttention :: "string list \<Rightarrow> nat \<Rightarrow> nat \<Rightarrow> 'a \<Rightarrow> 'a attention"
  nn_Linear :: "string list \<Rightarrow> nat \<Rightarrow> nat \<Rightarrow> 'a kernel"
  nn_LayerNorm :: "string list \<Rightarrow> nat \<Rightarrow> 'a kernel"
  nn_Dropout :: "string list \<Rightarrow> 'a \<Rightarrow> 'a kernel"
  nn_Embedding_weight :: "string list \<Rightarrow> nat \<Rightarrow> nat \<Rightarrow> nat list \<Rightarrow> 'a"
  float_0_1 :: 'a

text \<open>The weight of \<^verbatim>\<open>nn.Embedding(n, d)\<close> is an \<open>n \<times> d\<close> tensor.\<close>

definition nn_Embedding :: "'a torch \<Rightarrow> string list \<Rightarrow> nat \<Rightarrow> nat \<Rightarrow> 'a tensor" where
  "nn_Embedding T p n d = Tensor [n, d] (nn_Embedding_weight T p n d)"

text \<open>
  \<^verbatim>\<open>nn.Identity()\<close> returns its argument whatever it is, \<open>None\<close> included; a linear layer
  raises on \<open>None\<close>.
\<close>

datatype 'a proj = Identity | Linear "'a kernel"

fun proj_forward :: "'a proj \<Rightarrow> 'a kernel" where
  "proj_forward Identity t = Inr t"
| "proj_forward (Linear f) t = f t"

fun proj_forward_opt :: "'a proj \<Rightarrow> 'a tensor option \<Rightarrow> error + 'a tensor option" where
  "proj_forward_opt p (Some t) = and_then (proj_forward p t) (\<lambda>y. Inr (Some y))"
| "proj_forward_opt Identity None = Inr None"
| "proj_forward_opt (Linear f) None = Inl TypeError"

text \<open>A method call on a value that is \<open>None\<close> raises.\<close>

definition need :: "'x option \<Rightarrow> error + 'x" where
  "need x = (case x of None \<Rightarrow> Inl AttributeError | Some v \<Rightarrow> Inr v)"

section \<open>Activation functions\<close>

definition get_activation_fn :: "'a torch \<Rightarrow> string \<Rightarrow> error + 'a kernel" where
  "get_activation_fn T activation =
     (if activation = ''relu'' then Inr (F_relu T)
      else if activation = ''gelu'' then Inr (F_gelu T)
      else if activation = ''glu'' then Inr (F_glu T)
      else Inl (RuntimeError (''activation should be relu/gelu, not '' @ activation @ ''.'')))"

section \<open>Encoder and decoder layers\<close>

definition with_pos_embed :: "'a::plus tensor \<Rightarrow> 'a tensor option \<Rightarrow> error + 'a tensor" where
  "with_pos_embed t pos = (case pos of None \<Rightarrow> Inr t | Some p \<Rightarrow> t_add t p)"

record 'a TransformerEncoderLayer =
  enc_self_attn :: "'a attention"
  enc_linear1 :: "'a kernel"
  enc_dropout :: "'a kernel"
  enc_linear2 :: "'a kernel"
  enc_norm1 :: "'a kernel"
  enc_norm2 :: "'a kernel"
  enc_dropout1 :: "'a kernel"
  enc_dropout2 :: "'a kernel"
  enc_activation :: "'a kernel"
  enc_normalize_before :: bool

definition TransformerEncoderLayer_init ::
  "'a torch \<Rightarrow> string list \<Rightarrow> nat \<Rightarrow> nat \<Rightarrow> nat \<Rightarrow> 'a \<Rightarrow> string \<Rightarrow> bool
     \<Rightarrow> error + 'a TransformerEncoderLayer" where
  "TransformerEncoderLayer_init T p d_model nhead dim_feedforward dropout activation
       normalize_before =
     and_then (get_activation_fn T activation) (\<lambda>act.
       Inr \<lparr> enc_self_attn = nn_MultiheadAttention T (p @ [''self_attn'']) d_model nhead dropout,
             enc_linear1 = nn_Linear T (p @ [''linear1'']) d_model dim_feedforward,
             enc_dropout = nn_Dropout T (p @ [''dropout'']) dropout,
             enc_linear2 = nn_Linear T (p @ [''linear2'']) dim_feedforward d_model,
             enc_norm1 = nn_LayerNorm T (p @ [''norm1'']) d_model,
             enc_norm2 = nn_LayerNorm T (p @ [''norm2'']) d_model,
             enc_dropout1 = nn_Dropout T (p @ [''dropout1'']) dropout,
             enc_dropout2 = nn_Dropout T (p @ [''dropout2'']) dropout,
             enc_activation = act,
             enc_normalize_before = normalize_before \<rparr>)"

definition TransformerEncoderLayer_forward_post ::
  "'a::plus TransformerEncoderLayer \<Rightarrow> 'a tensor \<Rightarrow> bool tensor option \<Rightarrow> bool tensor option
     \<Rightarrow> 'a tensor option \<Rightarrow> error + 'a tensor" where
  "TransformerEncoderLayer_forward_post l src src_mask src_key_padding_mask pos =
     and_then (with_pos_embed src pos) (\<lambda>q.
     and_then (enc_self_attn l q q src src_mask src_key_padding_mask) (\<lambda>src2.
     and_then (enc_dropout1 l src2) (\<lambda>dropped.
     and_then (t_add src dropped) (\<lambda>src.
     and_then (enc_norm1 l src) (\<lambda>src.
     and_then (enc_linear1 l src) (\<lambda>h.
     and_then (enc_activation l h) (\<lambda>h.
     and_then (enc_dropout l h) (\<lambda>h.
     and_then (enc_linear2 l h) (\<lambda>src2.
     and_then (enc_dropout2 l src2) (\<lambda>dropped.
     and_then (t_add src dropped) (\<lambda>src.
     enc_norm2 l src)))))))))))"

definition TransformerEncoderLayer_forward_pre ::
  "'a::plus TransformerEncoderLayer \<Rightarrow> 'a tensor \<Rightarrow> bool tensor option \<Rightarrow> bool tensor option
     \<Rightarrow> 'a tensor option \<Rightarrow> error + 'a tensor" where
  "TransformerEncoderLayer_forward_pre l src src_mask src_key_padding_mask pos =
     and_then (enc_norm1 l src) (\<lambda>src2.
     and_then (with_pos_embed src2 pos) (\<lambda>q.
     and_then (enc_self_attn l q q src2 src_mask src_key_padding_mask) (\<lambda>src2.
     and_then (enc_dropout1 l src2) (\<lambda>dropped.
     and_then (t_add src dropped) (\<lambda>src.
     and_then (enc_norm2 l src) (\<lambda>src2.
     and_then (enc_linear1 l src2) (\<lambda>h.
     and_then (enc_activation l h) (\<lambda>h.
     and_then (enc_dropout l h) (\<lambda>h.
     and_then (enc_linear2 l h) (\<lambda>src2.
     and_then (enc_dropout2 l src2) (\<lambda>dropped.
     t_add src dropped)))))))))))"

definition TransformerEncoderLayer_forward ::
  "'a::plus TransformerEncoderLayer \<Rightarrow> 'a tensor \<Rightarrow> bool tensor option \<Rightarrow> bool tensor option
     \<Rightarrow> 'a tensor option \<Rightarrow> error + 'a tensor" where
  "TransformerEncoderLayer_forward l src src_mask src_key_padding_mask pos =
     (if enc_normalize_before l
      then TransformerEncoderLayer_forward_pre l src src_mask src_key_padding_mask pos
      else TransformerEncoderLayer_forward_post l src src_mask src_key_padding_mask pos)"

record 'a TransformerDecoderLayer =
  dec_self_attn :: "'a attention"
  dec_multihead_attn :: "'a attention"
  dec_linear1 :: "'a kernel"
  dec_dropout :: "'a kernel"
  dec_linear2 :: "'a kernel"
  dec_norm1 :: "'a kernel"
  dec_norm2 :: "'a kernel"
  dec_norm3 :: "'a kernel"
  dec_dropout1 :: "'a kernel"
  dec_dropout2 :: "'a kernel"
  dec_dropout3 :: "'a kernel"
  dec_activation :: "'a kernel"
  dec_normalize_before :: bool

definition TransformerDecoderLayer_init ::
  "'a torch \<Rightarrow> string list \<Rightarrow> nat \<Rightarrow> nat \<Rightarrow> nat \<Rightarrow> 'a \<Rightarrow> string \<Rightarrow> bool
     \<Rightarrow> error + 'a TransformerDecoderLayer" where
  "TransformerDecoderLayer_init T p d_model nhead dim_feedforward dropout activation
       normalize_before =
     and_then (get_activation_fn T activation) (\<lambda>act.
       Inr \<lparr> dec_self_attn = nn_MultiheadAttention T (p @ [''self_attn'']) d_model nhead dropout,
             dec_multihead_attn =
               nn_MultiheadAttention T (p @ [''multihead_attn'']) d_model nhead dropout,
             dec_linear1 = nn_Linear T (p @ [''linear1'']) d_model dim_feedforward,
             dec_dropout = nn_Dropout T (p @ [''dropout'']) dropout,
             dec_linear2 = nn_Linear T (p @ [''linear2'']) dim_feedforward d_model,
             dec_norm1 = nn_LayerNorm T (p @ [''norm1'']) d_model,
             dec_norm2 = nn_LayerNorm T (p @ [''norm2'']) d_model,
             dec_norm3 = nn_LayerNorm T (p @ [''norm3'']) d_model,
             dec_dropout1 = nn_Dropout T (p @ [''dropout1'']) dropout,
             dec_dropout2 = nn_Dropout T (p @ [''dropout2'']) dropout,
             dec_dropout3 = nn_Dropout T (p @ [''dropout3'']) dropout,
             dec_activation = act,
             dec_normalize_before = normalize_before \<rparr>)"

definition TransformerDecoderLayer_forward_post ::
  "'a::plus TransformerDecoderLayer \<Rightarrow> 'a tensor \<Rightarrow> 'a tensor \<Rightarrow> bool tensor option
     \<Rightarrow> bool tensor option \<Rightarrow> bool tensor option \<Rightarrow> bool tensor option
     \<Rightarrow> 'a tensor option \<Rightarrow> 'a tensor option \<Rightarrow> error + 'a tensor" where
  "TransformerDecoderLayer_forward_post l tgt memory tgt_mask memory_mask
       tgt_key_padding_mask memory_key_padding_mask pos query_pos =
     and_then (with_pos_embed tgt query_pos) (\<lambda>q.
     and_then (dec_self_attn l q q tgt tgt_mask tgt_key_padding_mask) (\<lambda>tgt2.
     and_then (dec_dropout1 l tgt2) (\<lambda>dropped.
     and_then (t_add tgt dropped) (\<lambda>tgt.
     and_then (dec_norm1 l tgt) (\<lambda>tgt.
     and_then (with_pos_embed tgt query_pos) (\<lambda>query.
     and_then (with_pos_embed memory pos) (\<lambda>key.
     and_then (dec_multihead_attn l query key memory memory_mask memory_key_padding_mask)
       (\<lambda>tgt2.
     and_then (dec_dropout2 l tgt2) (\<lambda>dropped.
     and_then (t_add tgt dropped) (\<lambda>tgt.
     and_then (dec_norm2 l tgt) (\<lambda>tgt.
     and_then (dec_linear1 l tgt) (\<lambda>h.
     and_then (dec_activation l h) (\<lambda>h.
     and_then (dec_dropout l h) (\<lambda>h.
     and_then (dec_linear2 l h) (\<lambda>tgt2.
     and_then (dec_dropout3 l tgt2) (\<lambda>dropped.
     and_then (t_add tgt dropped) (\<lambda>tgt.
     dec_norm3 l tgt)))))))))))))))))"

definition TransformerDecoderLayer_forward_pre ::
  "'a::plus TransformerDecoderLayer \<Rightarrow> 'a tensor \<Rightarrow> 'a tensor \<Rightarrow> bool tensor option
     \<Rightarrow> bool tensor option \<Rightarrow> bool tensor option \<Rightarrow> bool tensor option
     \<Rightarrow> 'a tensor option \<Rightarrow> 'a tensor option \<Rightarrow> error + 'a tensor" where
  "TransformerDecoderLayer_forward_pre l tgt memory tgt_mask memory_mask
       tgt_key_padding_mask memory_key_padding_mask pos query_pos =
     and_then (dec_norm1 l tgt) (\<lambda>tgt2.
     and_then (with_pos_embed tgt2 query_pos) (\<lambda>q.
     and_then (dec_self_attn l q q tgt2 tgt_mask tgt_key_padding_mask) (\<lambda>tgt2.
     and_then (dec_dropout1 l tgt2) (\<lambda>dropped.
     and_then (t_add tgt dropped) (\<lambda>tgt.
     and_then (dec_norm2 l tgt) (\<lambda>tgt2.
     and_then (with_pos_embed tgt2 query_pos) (\<lambda>query.
     and_then (with_pos_embed memory pos) (\<lambda>key.
     and_then (dec_multihead_attn l query key memory memory_mask memory_key_padding_mask)
       (\<lambda>tgt2.
     and_then (dec_dropout2 l tgt2) (\<lambda>dropped.
     and_then (t_add tgt dropped) (\<lambda>tgt.
     and_then (dec_norm3 l tgt) (\<lambda>tgt2.
     and_then (dec_linear1 l tgt2) (\<lambda>h.
     and_then (dec_activation l h) (\<lambda>h.
     and_then (dec_dropout l h) (\<lambda>h.
     and_then (dec_linear2 l h) (\<lambda>tgt2.
     and_then (dec_dropout3 l tgt2) (\<lambda>dropped.
     t_add tgt dropped)))))))))))))))))"

definition TransformerDecoderLayer_forward ::
  "'a::plus TransformerDecoderLayer \<Rightarrow> 'a tensor \<Rightarrow> 'a tensor \<Rightarrow> bool tensor option
     \<Rightarrow> bool tensor option \<Rightarrow> bool tensor option \<Rightarrow> bool tensor option
     \<Rightarrow> 'a tensor option \<Rightarrow> 'a tensor option \<Rightarrow> error + 'a tensor" where
  "TransformerDecoderLayer_forward l tgt memory tgt_mask memory_mask
       tgt_key_padding_mask memory_key_padding_mask pos query_pos =
     (if dec_normalize_before l
      then TransformerDecoderLayer_forward_pre l tgt memory tgt_mask memory_mask
             tgt_key_padding_mask memory_key_padding_mask pos query_pos
      else TransformerDecoderLayer_forward_post l tgt memory tgt_mask memory_mask
             tgt_key_padding_mask memory_key_padding_mask pos query_pos)"

section \<open>Encoder and decoder stacks\<close>

text \<open>\<^verbatim>\<open>_get_clones\<close>: \<open>N\<close> deep copies of one module.\<close>

definition get_clones :: "'m \<Rightarrow> nat \<Rightarrow> 'm list" where
  "get_clones module N = replicate N module"

text \<open>The loop \<^verbatim>\<open>for layer in self.layers: output = layer(output, ...)\<close>.\<close>

fun run_layers :: "('m \<Rightarrow> 'a tensor \<Rightarrow> error + 'a tensor) \<Rightarrow> 'm list \<Rightarrow> 'a tensor
     \<Rightarrow> error + 'a tensor" where
  "run_layers call [] output = Inr output"
| "run_layers call (layer # rest) output =
     and_then (call layer output) (run_layers call rest)"

record 'a TransformerEncoder =
  encoder_layers :: "'a TransformerEncoderLayer list"
  encoder_num_layers :: nat
  encoder_norm :: "'a kernel option"

definition TransformerEncoder_init ::
  "'a TransformerEncoderLayer \<Rightarrow> nat \<Rightarrow> 'a kernel option \<Rightarrow> 'a TransformerEncoder" where
  "TransformerEncoder_init encoder_layer num_layers norm =
     \<lparr> encoder_layers = get_clones encoder_layer num_layers,
       encoder_num_layers = num_layers,
       encoder_norm = norm \<rparr>"

definition TransformerEncoder_forward ::
  "'a::plus TransformerEncoder \<Rightarrow> 'a tensor \<Rightarrow> bool tensor option \<Rightarrow> bool tensor option
     \<Rightarrow> 'a tensor option \<Rightarrow> error + 'a tensor" where
  "TransformerEncoder_forward e src src_mask src_key_padding_mask pos =
     and_then
       (run_layers
          (\<lambda>layer output.
             TransformerEncoderLayer_forward layer output src_mask src_key_padding_mask pos)
          (encoder_layers e) src)
       (\<lambda>output. case encoder_norm e of None \<Rightarrow> Inr output | Some nf \<Rightarrow> nf output)"

record 'a TransformerDecoder =
  decoder_layers :: "'a TransformerDecoderLayer list"
  decoder_num_layers :: nat
  decoder_norm :: "'a kernel option"
  return_intermediate :: bool

definition TransformerDecoder_init ::
  "'a TransformerDecoderLayer \<Rightarrow> nat \<Rightarrow> 'a kernel option \<Rightarrow> bool \<Rightarrow> 'a TransformerDecoder" where
  "TransformerDecoder_init decoder_layer num_layers norm ri =
     \<lparr> decoder_layers = get_clones decoder_layer num_layers,
       decoder_num_layers = num_layers,
       decoder_norm = norm,
       return_intermediate = ri \<rparr>"

text \<open>
  The decoder's loop.  With \<^verbatim>\<open>return_intermediate\<close> set it normalises every layer's
  output and appends it to \<^verbatim>\<open>intermediate\<close>; calling a norm that is \<open>None\<close> raises.
\<close>

fun decoder_loop :: "('m \<Rightarrow> 'a tensor \<Rightarrow> error + 'a tensor) \<Rightarrow> 'a kernel option \<Rightarrow> bool
     \<Rightarrow> 'm list \<Rightarrow> 'a tensor \<Rightarrow> 'a tensor list \<Rightarrow> error + ('a tensor \<times> 'a tensor list)" where
  "decoder_loop call norm ri [] output intermediate = Inr (output, intermediate)"
| "decoder_loop call norm ri (layer # rest) output intermediate =
     and_then (call layer output) (\<lambda>output.
       if ri
       then (case norm of
               None \<Rightarrow> Inl TypeError
             | Some nf \<Rightarrow>
                 and_then (nf output) (\<lambda>normed.
                   decoder_loop call norm ri rest output (intermediate @ [normed])))
       else decoder_loop call norm ri rest output intermediate)"

text \<open>One decoder layer applied to the running output, the other arguments fixed.\<close>

definition decoder_layer_call ::
  "'a tensor \<Rightarrow> bool tensor option \<Rightarrow> bool tensor option \<Rightarrow> bool tensor option
     \<Rightarrow> bool tensor option \<Rightarrow> 'a tensor option \<Rightarrow> 'a tensor option
     \<Rightarrow> 'a::plus TransformerDecoderLayer \<Rightarrow> 'a tensor \<Rightarrow> error + 'a tensor" where
  "decoder_layer_call memory tgt_mask memory_mask tgt_key_padding_mask
       memory_key_padding_mask pos query_pos layer output =
     TransformerDecoderLayer_forward layer output memory tgt_mask memory_mask
       tgt_key_padding_mask memory_key_padding_mask pos query_pos"

definition TransformerDecoder_forward ::
  "'a::plus TransformerDecoder \<Rightarrow> 'a tensor \<Rightarrow> 'a tensor \<Rightarrow> bool tensor option
     \<Rightarrow> bool tensor option \<Rightarrow> bool tensor option \<Rightarrow> bool tensor option
     \<Rightarrow> 'a tensor option \<Rightarrow> 'a tensor option \<Rightarrow> error + 'a tensor" where
  "TransformerDecoder_forward d tgt memory tgt_mask memory_mask tgt_key_padding_mask
       memory_key_padding_mask pos query_pos =
     and_then
       (decoder_loop
          (decoder_layer_call memory tgt_mask memory_mask tgt_key_padding_mask
             memory_key_padding_mask pos query_pos)
          (decoder_norm d) (return_intermediate d) (decoder_layers d) tgt [])
       (\<lambda>(output, intermediate).
          and_then
            (case decoder_norm d of
               None \<Rightarrow> Inr (output, intermediate)
             | Some nf \<Rightarrow>
                 and_then (nf output) (\<lambda>output.
                   if return_intermediate d
                   then (if intermediate = [] then Inl IndexError
                         else Inr (output, butlast intermediate @ [output]))
                   else Inr (output, intermediate)))
            (\<lambda>(output, intermediate).
               if return_intermediate d then torch_stack intermediate else Inr output))"

section \<open>The transformer\<close>

text \<open>
  The configuration object.  \<open>num_queries\<close> is a dictionary from task to a dictionary
  from dataset to a number; only its keys are read, in their order.
\<close>

record 'a args =
  num_queries :: "(string \<times> (string \<times> nat) list) list"
  use_task_embedding_in_encoder :: bool
  use_task_embedding_in_decoder :: bool
  residual_in_encoder :: bool
  encoder_hidden_dim :: nat
  decoder_hidden_dim :: nat
  args_dropout :: 'a
  nheads :: nat
  args_dim_feedforward :: nat
  enc_layers :: nat
  dec_layers :: nat
  pre_norm :: bool
  args_pass_pos_and_query :: bool
  args_share_decoders :: bool

text \<open>
  The fields of \<^verbatim>\<open>Transformer\<close>, each \<^verbatim>\<open>self.x\<close> as \<open>self_x\<close>.  \<^verbatim>\<open>self.decoder\<close> is optional:
  the subclass sets it to \<open>None\<close> when it builds decoders of its own.
\<close>

record 'a Transformer =
  self_args :: "'a args"
  self_pass_pos_and_query :: bool
  self_encoder :: "'a TransformerEncoder"
  self_enc2dec_proj :: "'a proj"
  self_pos_embed_proj :: "'a proj"
  self_decoder :: "'a TransformerDecoder option"
  self_d_model_enc :: nat
  self_d_model_dec :: nat
  self_nhead :: nat

text \<open>
  \<^verbatim>\<open>Transformer.__init__\<close>.  (\<^verbatim>\<open>_reset_parameters\<close> redraws parameters the library has
  drawn already; the kernels of \<open>T\<close> stand for the parameters construction ends with.)
\<close>

definition Transformer_init ::
  "'a torch \<Rightarrow> 'a args \<Rightarrow> nat \<Rightarrow> nat \<Rightarrow> nat \<Rightarrow> nat \<Rightarrow> nat \<Rightarrow> nat \<Rightarrow> 'a \<Rightarrow> string \<Rightarrow> bool \<Rightarrow> bool
     \<Rightarrow> bool \<Rightarrow> bool \<Rightarrow> error + 'a Transformer" where
  "Transformer_init T args d_model_enc d_model_dec nhead num_encoder_layers num_decoder_layers
       dim_feedforward dropout activation normalize_before return_intermediate_dec
       pass_pos_and_query share_decoders =
     and_then
       (TransformerEncoderLayer_init T [''encoder'', ''layers''] d_model_enc nhead
          dim_feedforward dropout activation normalize_before) (\<lambda>encoder_layer.
     and_then
       (TransformerDecoderLayer_init T [''decoder'', ''layers''] d_model_dec nhead
          dim_feedforward dropout activation normalize_before) (\<lambda>decoder_layer.
       Inr \<lparr> self_args = args,
             self_pass_pos_and_query = pass_pos_and_query,
             self_encoder =
               TransformerEncoder_init encoder_layer num_encoder_layers
                 (if normalize_before
                  then Some (nn_LayerNorm T [''encoder'', ''norm''] d_model_enc) else None),
             self_enc2dec_proj =
               (if d_model_dec \<noteq> d_model_enc
                then Linear (nn_Linear T [''enc2dec_proj''] d_model_enc d_model_dec)
                else Identity),
             self_pos_embed_proj =
               (if d_model_dec \<noteq> d_model_enc
                then Linear (nn_Linear T [''pos_embed_proj''] d_model_enc d_model_dec)
                else Identity),
             self_decoder =
               Some (TransformerDecoder_init decoder_layer num_decoder_layers
                       (Some (nn_LayerNorm T [''decoder'', ''norm''] d_model_dec))
                       return_intermediate_dec),
             self_d_model_enc = d_model_enc,
             self_d_model_dec = d_model_dec,
             self_nhead = nhead \<rparr>))"

text \<open>\<^verbatim>\<open>bs, c, h, w = t.shape\<close>.\<close>

definition unpack4 :: "'b tensor \<Rightarrow> error + (nat \<times> nat \<times> nat \<times> nat)" where
  "unpack4 t = (case shape t of [bs, c, h, w] \<Rightarrow> Inr (bs, c, h, w) | _ \<Rightarrow> Inl ValueError)"

text \<open>Calling \<^verbatim>\<open>self.decoder\<close>, which may be \<open>None\<close>.\<close>

definition call_decoder ::
  "'a::plus TransformerDecoder option \<Rightarrow> 'a tensor \<Rightarrow> 'a tensor \<Rightarrow> bool tensor option
     \<Rightarrow> 'a tensor option \<Rightarrow> 'a tensor option \<Rightarrow> error + 'a tensor" where
  "call_decoder decoder tgt memory memory_key_padding_mask pos query_pos =
     (case decoder of
        None \<Rightarrow> Inl TypeError
      | Some d \<Rightarrow>
          TransformerDecoder_forward d tgt memory None None None memory_key_padding_mask
            pos query_pos)"

text \<open>
  \<^verbatim>\<open>Transformer.forward\<close>.  The source returns a triple whose third component is always
  \<open>None\<close>; the model returns the first two.
\<close>

definition Transformer_forward ::
  "'a::{zero,plus,times} torch \<Rightarrow> ('a, 'z) Transformer_scheme \<Rightarrow> 'a tensor \<Rightarrow> bool tensor
     \<Rightarrow> 'a tensor \<Rightarrow> 'a tensor \<Rightarrow> error + ('a tensor \<times> 'a tensor)" where
  "Transformer_forward T self src src_mask query_embed pos_embed =
     and_then (unpack4 src) (\<lambda>(bs, c, h, w).
     and_then (and_then (t_flatten 2 src) (t_permute [2, 0, 1])) (\<lambda>src.
     and_then (and_then (t_flatten 2 pos_embed) (t_permute [2, 0, 1])) (\<lambda>pos_embed.
     and_then (and_then (t_unsqueeze 1 query_embed) (t_repeat [1, bs, 1])) (\<lambda>query_embed.
     and_then (t_flatten 1 src_mask) (\<lambda>src_mask.
     and_then
       (if self_pass_pos_and_query self
        then Inr (src, torch_zeros_like query_embed, Some query_embed, Some pos_embed)
        else and_then (t_add src (t_scale (float_0_1 T) pos_embed)) (\<lambda>src.
               Inr (src, query_embed, None, None)))
       (\<lambda>(src, tgt, query_embed, pos_embed).
     and_then (TransformerEncoder_forward (self_encoder self) src None (Some src_mask) pos_embed)
       (\<lambda>memory.
     and_then (if residual_in_encoder (self_args self) then t_add src memory else Inr memory)
       (\<lambda>memory.
     and_then (proj_forward (self_enc2dec_proj self) memory) (\<lambda>memory.
     and_then (proj_forward_opt (self_pos_embed_proj self) pos_embed) (\<lambda>pos_embed.
     and_then (call_decoder (self_decoder self) tgt memory (Some src_mask) pos_embed query_embed)
       (\<lambda>hs.
     and_then (t_transpose 1 2 hs) (\<lambda>hs.
     and_then (and_then (t_permute [1, 2, 0] memory) (t_view [bs, c, h, w])) (\<lambda>memory.
     Inr (hs, memory))))))))))))))"

section \<open>The multi-task transformer\<close>

record 'a MTTransformer = "'a Transformer" +
  self_share_decoders :: bool
  self_decoders :: "string \<Rightarrow> (string \<Rightarrow> 'a TransformerDecoder option option) option"
  self_task_embeddings_enc :: "'a tensor option"
  self_task_embeddings_dec :: "'a tensor option"
  self_mem_out_begin_idx :: nat
  self_hs_out_begin_idx :: nat

definition build_decoder_layer ::
  "'a torch \<Rightarrow> string list \<Rightarrow> nat \<Rightarrow> nat \<Rightarrow> nat \<Rightarrow> nat \<Rightarrow> 'a \<Rightarrow> string \<Rightarrow> bool \<Rightarrow> bool
     \<Rightarrow> error + 'a TransformerDecoder" where
  "build_decoder_layer T p d_model_dec nhead num_decoder_layers dim_feedforward dropout
       activation normalize_before return_intermediate_dec =
     and_then
       (TransformerDecoderLayer_init T (p @ [''layers'']) d_model_dec nhead dim_feedforward
          dropout activation normalize_before) (\<lambda>decoder_layer.
       Inr (TransformerDecoder_init decoder_layer num_decoder_layers
              (Some (nn_LayerNorm T (p @ [''norm'']) d_model_dec)) return_intermediate_dec))"

text \<open>
  The two loops that fill \<^verbatim>\<open>self.decoders\<close>.  \<open>build\<close> is the call of
  \<^verbatim>\<open>self.build_decoder_layer\<close> with the constructor's arguments; the state is
  \<^verbatim>\<open>self.decoder\<close> and the dictionary under construction.
\<close>

fun build_task_dict ::
  "(string list \<Rightarrow> error + 'a TransformerDecoder) \<Rightarrow> bool \<Rightarrow> string \<Rightarrow> (string \<times> nat) list
     \<Rightarrow> 'a TransformerDecoder option \<Rightarrow> (string \<Rightarrow> 'a TransformerDecoder option option)
     \<Rightarrow> error + ('a TransformerDecoder option
                  \<times> (string \<Rightarrow> 'a TransformerDecoder option option))" where
  "build_task_dict build share_decoders task [] decoder task_dict = Inr (decoder, task_dict)"
| "build_task_dict build share_decoders task ((dataset, n) # rest) decoder task_dict =
     (if share_decoders
      then build_task_dict build share_decoders task rest decoder
             (task_dict(dataset \<mapsto> decoder))
      else and_then (build [''decoders'', task, dataset]) (\<lambda>built.
             build_task_dict build share_decoders task rest None
               (task_dict(dataset \<mapsto> Some built))))"

fun build_decoders ::
  "(string list \<Rightarrow> error + 'a TransformerDecoder) \<Rightarrow> bool \<Rightarrow> (string \<times> (string \<times> nat) list) list
     \<Rightarrow> 'a TransformerDecoder option
     \<Rightarrow> (string \<Rightarrow> (string \<Rightarrow> 'a TransformerDecoder option option) option)
     \<Rightarrow> error + ('a TransformerDecoder option
                  \<times> (string \<Rightarrow> (string \<Rightarrow> 'a TransformerDecoder option option) option))" where
  "build_decoders build share_decoders [] decoder decoders = Inr (decoder, decoders)"
| "build_decoders build share_decoders ((task, datasets) # rest) decoder decoders =
     and_then (build_task_dict build share_decoders task datasets decoder Map.empty)
       (\<lambda>(decoder, task_dict).
          build_decoders build share_decoders rest decoder (decoders(task \<mapsto> task_dict)))"

definition MAX_TASK_NUM :: nat where
  "MAX_TASK_NUM = 256"

definition MTTransformer_init ::
  "'a torch \<Rightarrow> 'a args \<Rightarrow> nat \<Rightarrow> nat \<Rightarrow> nat \<Rightarrow> nat \<Rightarrow> nat \<Rightarrow> nat \<Rightarrow> 'a \<Rightarrow> string \<Rightarrow> bool \<Rightarrow> bool
     \<Rightarrow> bool \<Rightarrow> bool \<Rightarrow> error + 'a MTTransformer" where
  "MTTransformer_init T args d_model_enc d_model_dec nhead num_encoder_layers
       num_decoder_layers dim_feedforward dropout activation normalize_before
       return_intermediate_dec pass_pos_and_query share_decoders =
     and_then
       (Transformer_init T args d_model_enc d_model_dec nhead num_encoder_layers
          num_decoder_layers dim_feedforward dropout activation normalize_before
          return_intermediate_dec pass_pos_and_query False) (\<lambda>base.
     and_then
       (build_decoders
          (\<lambda>p. build_decoder_layer T p d_model_dec nhead num_decoder_layers dim_feedforward
                 dropout activation normalize_before return_intermediate_dec)
          share_decoders (num_queries args) (self_decoder base) Map.empty)
       (\<lambda>(decoder, decoders).
       Inr \<lparr> self_args = args,
             self_pass_pos_and_query = self_pass_pos_and_query base,
             self_encoder = self_encoder base,
             self_enc2dec_proj = self_enc2dec_proj base,
             self_pos_embed_proj = self_pos_embed_proj base,
             self_decoder = decoder,
             self_d_model_enc = self_d_model_enc base,
             self_d_model_dec = self_d_model_dec base,
             self_nhead = self_nhead base,
             self_share_decoders = share_decoders,
             self_decoders = decoders,
             self_task_embeddings_enc =
               (if use_task_embedding_in_encoder args
                then Some (nn_Embedding T [''task_embeddings_enc''] MAX_TASK_NUM d_model_enc)
                else None),
             self_task_embeddings_dec =
               (if use_task_embedding_in_decoder args
                then Some (nn_Embedding T [''task_embeddings_dec''] MAX_TASK_NUM d_model_dec)
                else None),
             self_mem_out_begin_idx = (if use_task_embedding_in_encoder args then 1 else 0),
             self_hs_out_begin_idx = (if use_task_embedding_in_decoder args then 1 else 0) \<rparr>))"

definition build_transformer :: "'a torch \<Rightarrow> 'a args \<Rightarrow> error + 'a MTTransformer" where
  "build_transformer T args =
     MTTransformer_init T args (encoder_hidden_dim args) (decoder_hidden_dim args) (nheads args)
       (enc_layers args) (dec_layers args) (args_dim_feedforward args) (args_dropout args)
       ''relu'' (pre_norm args) True (args_pass_pos_and_query args) (args_share_decoders args)"

text \<open>\<^verbatim>\<open>_prefix_task_embedding_to_query_embed\<close>.\<close>

definition prefix_task_embedding_to_query_embed ::
  "'a MTTransformer \<Rightarrow> 'a tensor \<Rightarrow> int option \<Rightarrow> error + 'a tensor" where
  "prefix_task_embedding_to_query_embed self query_embed task_idx =
     (if \<not> use_task_embedding_in_decoder (self_args self) then Inr query_embed
      else
        and_then (t_size 1 query_embed) (\<lambda>bs.
        and_then (and_then (need (self_task_embeddings_dec self)) (t_index0 task_idx))
          (\<lambda>task_embed.
        and_then
          (and_then (and_then (t_unsqueeze 0 task_embed) (t_unsqueeze 0)) (t_repeat [1, bs, 1]))
          (\<lambda>task_embed.
        torch_cat [task_embed, query_embed] 0))))"

text \<open>
  \<^verbatim>\<open>_prefix_task_embedding_to_encoder_inputs\<close>.  The positional embedding can be \<open>None\<close>
  here, and subscripting \<open>None\<close> raises.  A zero of the mask is \<open>False\<close>: not padding.
\<close>

definition mask_zeros_like :: "bool tensor \<Rightarrow> bool tensor" where
  "mask_zeros_like t = Tensor (shape t) (\<lambda>idx. False)"

definition subscript_opt ::
  "('a tensor \<Rightarrow> error + 'a tensor) \<Rightarrow> 'a tensor option \<Rightarrow> error + 'a tensor" where
  "subscript_opt f t = (case t of None \<Rightarrow> Inl TypeError | Some u \<Rightarrow> f u)"

definition prefix_task_embedding_to_encoder_inputs ::
  "'a::zero MTTransformer \<Rightarrow> 'a tensor \<Rightarrow> bool tensor \<Rightarrow> 'a tensor option \<Rightarrow> int option
     \<Rightarrow> error + ('a tensor \<times> bool tensor \<times> 'a tensor option)" where
  "prefix_task_embedding_to_encoder_inputs self img_src img_mask img_pos task_idx =
     (if \<not> use_task_embedding_in_encoder (self_args self) then Inr (img_src, img_mask, img_pos)
      else
        and_then (t_size 1 img_src) (\<lambda>bs.
        and_then (and_then (need (self_task_embeddings_enc self)) (t_index0 task_idx))
          (\<lambda>task_embed.
        and_then
          (and_then (and_then (t_unsqueeze 0 task_embed) (t_unsqueeze 0)) (t_repeat [1, bs, 1]))
          (\<lambda>task_embed.
        and_then (torch_cat [task_embed, img_src] 0) (\<lambda>img_src.
        and_then (t_slice 2 1 0 (Some 1) img_mask) (\<lambda>first_column.
        and_then (torch_cat [mask_zeros_like first_column, img_mask] 1) (\<lambda>img_mask.
        and_then (subscript_opt (t_slice 1 0 0 (Some 1)) img_pos) (\<lambda>first_row.
        and_then (subscript_opt (\<lambda>p. torch_cat [torch_zeros_like first_row, p] 0) img_pos)
          (\<lambda>img_pos.
        Inr (img_src, img_mask, Some img_pos))))))))))"

text \<open>
  The local variables of \<^verbatim>\<open>MTTransformer.forward\<close> that outlive a branch.  \<open>loc_tgt\<close> is
  \<open>None\<close> while \<^verbatim>\<open>tgt\<close> is unbound.  An entry \<open>None\<close> of \<open>loc_pos_embeds\<close> is Python's
  \<open>None\<close>; an entry \<open>None\<close> of \<open>loc_masks\<close> is the Python boolean that
  \<^verbatim>\<open>text_mask != 1\<close> is when \<^verbatim>\<open>text_mask\<close> is \<open>None\<close>.  Neither is a tensor.
\<close>

record 'a locals =
  loc_memories :: "'a tensor list"
  loc_pos_embeds :: "'a tensor option list"
  loc_masks :: "bool tensor option list"
  loc_query_embed :: "'a tensor option"
  loc_tgt :: "'a tensor option"

text \<open>
  The branch \<^verbatim>\<open>if img_src is not None\<close>, in three parts: the statements before the encoder
  is called, which prepare its inputs; the call; and the statements after it.
  \<open>text_absent\<close> is \<^verbatim>\<open>text_src is None\<close>.
\<close>

definition forward_image_inputs ::
  "'a::{zero,plus,times} torch \<Rightarrow> 'a MTTransformer \<Rightarrow> 'a tensor \<Rightarrow> bool tensor option
     \<Rightarrow> 'a tensor option \<Rightarrow> bool \<Rightarrow> int option \<Rightarrow> 'a locals
     \<Rightarrow> error + ('a tensor \<times> bool tensor \<times> 'a tensor option
                  \<times> 'a tensor option \<times> 'a tensor option)" where
  "forward_image_inputs T self img_src img_mask img_pos text_absent task_idx loc =
     and_then (unpack4 img_src) (\<lambda>(bs, c, h, w).
     and_then (and_then (t_flatten 2 img_src) (t_permute [2, 0, 1])) (\<lambda>img_src.
     and_then (and_then (and_then (need img_pos) (t_flatten 2)) (t_permute [2, 0, 1]))
       (\<lambda>img_pos.
     and_then (and_then (need img_mask) (t_flatten 1)) (\<lambda>img_mask.
     and_then
       (if text_absent
        then
          and_then
            (and_then (and_then (need (loc_query_embed loc)) (t_unsqueeze 1))
               (t_repeat [1, bs, 1])) (\<lambda>query_embed.
          and_then (prefix_task_embedding_to_query_embed self query_embed task_idx)
            (\<lambda>query_embed.
          if self_pass_pos_and_query self
          then Inr (img_src, Some (torch_zeros_like query_embed), Some query_embed,
                    Some img_pos)
          else and_then (t_add img_src (t_scale (float_0_1 T) img_pos)) (\<lambda>img_src.
                 Inr (img_src, Some query_embed, None, None))))
        else Inr (img_src, loc_tgt loc, loc_query_embed loc, Some img_pos))
       (\<lambda>(img_src, tgt, query_embed, img_pos).
     and_then (prefix_task_embedding_to_encoder_inputs self img_src img_mask img_pos task_idx)
       (\<lambda>(img_src, img_mask, img_pos).
     Inr (img_src, img_mask, img_pos, tgt, query_embed)))))))"

definition forward_image_memory ::
  "'a::plus MTTransformer \<Rightarrow> 'a tensor \<Rightarrow> bool tensor \<Rightarrow> 'a tensor option \<Rightarrow> 'a tensor
     \<Rightarrow> error + ('a tensor \<times> 'a tensor option \<times> bool tensor)" where
  "forward_image_memory self img_src img_mask img_pos memory =
     and_then
       (if self_mem_out_begin_idx self \<noteq> 0
        then
          and_then (t_slice 1 0 (self_mem_out_begin_idx self) None img_src) (\<lambda>img_src.
          and_then (subscript_opt (t_slice 1 0 (self_mem_out_begin_idx self) None) img_pos)
            (\<lambda>img_pos.
          and_then (t_slice 2 1 (self_mem_out_begin_idx self) None img_mask) (\<lambda>img_mask.
          and_then (t_slice 1 0 (self_mem_out_begin_idx self) None memory) (\<lambda>memory.
          Inr (img_src, Some img_pos, img_mask, memory)))))
        else Inr (img_src, img_pos, img_mask, memory))
       (\<lambda>(img_src, img_pos, img_mask, memory).
     and_then
       (if residual_in_encoder (self_args self) then t_add img_src memory else Inr memory)
       (\<lambda>memory.
     and_then (proj_forward (self_enc2dec_proj self) memory) (\<lambda>memory.
     and_then (proj_forward_opt (self_pos_embed_proj self) img_pos) (\<lambda>img_pos.
     Inr (memory, img_pos, img_mask)))))"

definition forward_image ::
  "'a::{zero,plus,times} torch \<Rightarrow> 'a MTTransformer \<Rightarrow> 'a tensor \<Rightarrow> bool tensor option
     \<Rightarrow> 'a tensor option \<Rightarrow> bool \<Rightarrow> int option \<Rightarrow> 'a locals \<Rightarrow> error + 'a locals" where
  "forward_image T self img_src img_mask img_pos text_absent task_idx loc =
     and_then (forward_image_inputs T self img_src img_mask img_pos text_absent task_idx loc)
       (\<lambda>(img_src, img_mask, img_pos, tgt, query_embed).
     and_then
       (TransformerEncoder_forward (self_encoder self) img_src None (Some img_mask) img_pos)
       (\<lambda>memory.
     and_then (forward_image_memory self img_src img_mask img_pos memory)
       (\<lambda>(memory, img_pos, img_mask).
     Inr \<lparr> loc_memories = loc_memories loc @ [memory],
           loc_pos_embeds = loc_pos_embeds loc @ [img_pos],
           loc_masks = loc_masks loc @ [Some img_mask],
           loc_query_embed = query_embed,
           loc_tgt = tgt \<rparr>)))"

text \<open>The branch \<^verbatim>\<open>if text_src is not None\<close>.\<close>

definition forward_text ::
  "'a::zero MTTransformer \<Rightarrow> 'a tensor \<Rightarrow> int tensor option \<Rightarrow> 'a tensor option \<Rightarrow> int option
     \<Rightarrow> 'a locals \<Rightarrow> error + 'a locals" where
  "forward_text self text_src text_mask text_pos task_idx loc =
     and_then (t_permute [1, 0, 2] text_src) (\<lambda>text_src.
     and_then (and_then (need text_pos) (t_unsqueeze 1)) (\<lambda>text_pos.
     and_then (t_size 1 text_src) (\<lambda>n.
     and_then (t_repeat [1, n, 1] text_pos) (\<lambda>text_pos.
     and_then (and_then (need (loc_query_embed loc)) (t_unsqueeze 1)) (\<lambda>query_embed.
     and_then (t_size 1 text_src) (\<lambda>n.
     and_then (t_repeat [1, n, 1] query_embed) (\<lambda>query_embed.
     and_then (prefix_task_embedding_to_query_embed self query_embed task_idx)
       (\<lambda>query_embed.
     if self_pass_pos_and_query self
     then Inr \<lparr> loc_memories = loc_memories loc @ [text_src],
                loc_pos_embeds = loc_pos_embeds loc @ [Some text_pos],
                loc_masks = loc_masks loc @ [map_option (\<lambda>m. t_ne m 1) text_mask],
                loc_query_embed = Some query_embed,
                loc_tgt = Some (torch_zeros_like query_embed) \<rparr>
     else Inl NotImplementedError))))))))"

text \<open>\<^verbatim>\<open>self.decoders[task_type][dataset_name]\<close>.\<close>

definition lookup_decoder ::
  "'a MTTransformer \<Rightarrow> string option \<Rightarrow> string option \<Rightarrow> error + 'a TransformerDecoder option"
  where
  "lookup_decoder self task_type dataset_name =
     (case task_type of
        None \<Rightarrow> Inl (KeyError None)
      | Some task \<Rightarrow>
          (case self_decoders self task of
             None \<Rightarrow> Inl (KeyError (Some task))
           | Some task_dict \<Rightarrow>
               (case dataset_name of
                  None \<Rightarrow> Inl (KeyError None)
                | Some dataset \<Rightarrow>
                    (case task_dict dataset of
                       None \<Rightarrow> Inl (KeyError (Some dataset))
                     | Some decoder \<Rightarrow> Inr decoder))))"

text \<open>\<^verbatim>\<open>torch.cat\<close> of a list that may hold values that are no tensors.\<close>

definition torch_cat_opt :: "'b tensor option list \<Rightarrow> int \<Rightarrow> error + 'b tensor" where
  "torch_cat_opt ts dim =
     (case those ts of None \<Rightarrow> Inl TypeError | Some us \<Rightarrow> torch_cat us dim)"

text \<open>
  \<^verbatim>\<open>MTTransformer.forward\<close>, in three parts: the two branches, which fill the lists of
  the streams that are present; the selection of the decoder and the concatenation of the
  lists, which end in the arguments of the decoder's call (the record \<open>fused\<close>); and the
  call with what follows it.
\<close>

record 'a fused =
  fused_decoder :: "'a TransformerDecoder option"
  fused_tgt :: "'a tensor option"
  fused_memories :: "'a tensor"
  fused_masks :: "bool tensor"
  fused_pos_embeds :: "'a tensor"
  fused_query_embed :: "'a tensor option"

definition forward_streams ::
  "'a::{zero,plus,times} torch \<Rightarrow> 'a MTTransformer \<Rightarrow> 'a tensor option \<Rightarrow> bool tensor option
     \<Rightarrow> 'a tensor option \<Rightarrow> 'a tensor option \<Rightarrow> int tensor option \<Rightarrow> 'a tensor option
     \<Rightarrow> 'a tensor option \<Rightarrow> int option \<Rightarrow> error + 'a locals" where
  "forward_streams T self img_src img_mask img_pos text_src text_mask text_pos query_embed
       task_idx =
     and_then
       (case img_src of
          None \<Rightarrow>
            Inr \<lparr> loc_memories = [], loc_pos_embeds = [], loc_masks = [],
                  loc_query_embed = query_embed, loc_tgt = None \<rparr>
        | Some img \<Rightarrow>
            forward_image T self img img_mask img_pos (text_src = None) task_idx
              \<lparr> loc_memories = [], loc_pos_embeds = [], loc_masks = [],
                loc_query_embed = query_embed, loc_tgt = None \<rparr>) (\<lambda>loc.
       case text_src of
         None \<Rightarrow> Inr loc
       | Some txt \<Rightarrow> forward_text self txt text_mask text_pos task_idx loc)"

definition MTTransformer_forward_fuse ::
  "'a::{zero,plus,times} torch \<Rightarrow> 'a MTTransformer \<Rightarrow> 'a tensor option \<Rightarrow> bool tensor option
     \<Rightarrow> 'a tensor option \<Rightarrow> 'a tensor option \<Rightarrow> int tensor option \<Rightarrow> 'a tensor option
     \<Rightarrow> 'a tensor option \<Rightarrow> string option \<Rightarrow> string option \<Rightarrow> int option
     \<Rightarrow> error + 'a fused" where
  "MTTransformer_forward_fuse T self img_src img_mask img_pos text_src text_mask text_pos
       query_embed task_type dataset_name task_idx =
     and_then
       (forward_streams T self img_src img_mask img_pos text_src text_mask text_pos query_embed
          task_idx) (\<lambda>loc.
     and_then (lookup_decoder self task_type dataset_name) (\<lambda>decoder.
     and_then (torch_cat (loc_memories loc) 0) (\<lambda>memories.
     and_then (torch_cat_opt (loc_masks loc) (- 1)) (\<lambda>masks.
     and_then (torch_cat_opt (loc_pos_embeds loc) 0) (\<lambda>pos_embeds.
     Inr \<lparr> fused_decoder = decoder,
           fused_tgt = loc_tgt loc,
           fused_memories = memories,
           fused_masks = masks,
           fused_pos_embeds = pos_embeds,
           fused_query_embed = loc_query_embed loc \<rparr>)))))"

definition MTTransformer_forward ::
  "'a::{zero,plus,times} torch \<Rightarrow> 'a MTTransformer \<Rightarrow> 'a tensor option \<Rightarrow> bool tensor option
     \<Rightarrow> 'a tensor option \<Rightarrow> 'a tensor option \<Rightarrow> int tensor option \<Rightarrow> 'a tensor option
     \<Rightarrow> 'a tensor option \<Rightarrow> string option \<Rightarrow> string option \<Rightarrow> int option
     \<Rightarrow> error + ('a tensor \<times> 'a tensor)" where
  "MTTransformer_forward T self img_src img_mask img_pos text_src text_mask text_pos
       query_embed task_type dataset_name task_idx =
     and_then
       (MTTransformer_forward_fuse T self img_src img_mask img_pos text_src text_mask text_pos
          query_embed task_type dataset_name task_idx) (\<lambda>f.
     and_then
       (case fused_tgt f of
          None \<Rightarrow> Inl UnboundLocalError
        | Some tgt \<Rightarrow>
            call_decoder (fused_decoder f) tgt (fused_memories f) (Some (fused_masks f))
              (Some (fused_pos_embeds f)) (fused_query_embed f)) (\<lambda>hs.
     and_then (t_transpose 1 2 hs) (\<lambda>hs.
     and_then (t_slice 4 2 (self_hs_out_begin_idx self) None hs) (\<lambda>hs.
     and_then (t_permute [1, 2, 0] (fused_memories f)) (\<lambda>memory.
     Inr (hs, memory))))))"

section \<open>What the claims speak of\<close>

text \<open>
  A pair is registered when the configuration lists the dataset under the task.  (A
  dictionary holds a key once; were a task listed twice, the later entry would replace the
  earlier one, as the assignment \<^verbatim>\<open>self.decoders[task] = task_dict\<close> does.)
\<close>

definition registered :: "'a args \<Rightarrow> string \<Rightarrow> string \<Rightarrow> bool" where
  "registered args task dataset =
     (case map_of (rev (num_queries args)) task of
        None \<Rightarrow> False
      | Some datasets \<Rightarrow> dataset \<in> set (map fst datasets))"

text \<open>
  What construction leaves in the fields the forward call reads: the two offsets follow
  the two flags, and an embedding table of \<open>MAX_TASK_NUM\<close> rows exists for each flag that
  is set.  A task index is usable when it addresses a row of the tables that exist.
\<close>

definition well_built :: "'a MTTransformer \<Rightarrow> nat \<Rightarrow> nat \<Rightarrow> bool" where
  "well_built m d_enc d_dec \<longleftrightarrow>
     self_mem_out_begin_idx m = (if use_task_embedding_in_encoder (self_args m) then 1 else 0)
   \<and> self_hs_out_begin_idx m = (if use_task_embedding_in_decoder (self_args m) then 1 else 0)
   \<and> (use_task_embedding_in_encoder (self_args m) \<longrightarrow>
        (\<exists>w. self_task_embeddings_enc m = Some w \<and> shape w = [MAX_TASK_NUM, d_enc]))
   \<and> (use_task_embedding_in_decoder (self_args m) \<longrightarrow>
        (\<exists>w. self_task_embeddings_dec m = Some w \<and> shape w = [MAX_TASK_NUM, d_dec]))"

definition task_idx_in_range :: "int option \<Rightarrow> bool" where
  "task_idx_in_range task_idx \<longleftrightarrow>
     (\<exists>i. task_idx = Some i \<and> - int MAX_TASK_NUM \<le> i \<and> i < int MAX_TASK_NUM)"

definition task_idx_ok :: "'a MTTransformer \<Rightarrow> int option \<Rightarrow> bool" where
  "task_idx_ok m task_idx \<longleftrightarrow>
     (use_task_embedding_in_encoder (self_args m) \<or> use_task_embedding_in_decoder (self_args m)
        \<longrightarrow> task_idx_in_range task_idx)"

text \<open>
  Position 0 of a sequence \<open>t\<close> of width \<open>d\<close> holds the task embedding when, for every
  batch entry, it is the row of the embedding table that the task index selects (a
  negative index counts from the end, as Python's do).
\<close>

definition task_row :: "'a tensor option \<Rightarrow> int option \<Rightarrow> nat \<Rightarrow> 'a tensor \<Rightarrow> bool" where
  "task_row table task_idx d t \<longleftrightarrow>
     (\<exists>W i. table = Some W \<and> task_idx = Some i
        \<and> (\<forall>n k. k < d \<longrightarrow> elem t [0, n, k] = elem W [nat (i mod int MAX_TASK_NUM), k]))"

text \<open>The number of positions the task embedding adds to a sequence: one or none.\<close>

definition enc_prefix :: "'a MTTransformer \<Rightarrow> nat" where
  "enc_prefix m = (if use_task_embedding_in_encoder (self_args m) then 1 else 0)"

definition dec_prefix :: "'a MTTransformer \<Rightarrow> nat" where
  "dec_prefix m = (if use_task_embedding_in_decoder (self_args m) then 1 else 0)"

text \<open>
  The kernels are used through their interfaces: a normalisation returns a tensor of the
  shape it was given and a projection maps one shape to another.  A layer of the encoder,
  given a sequence of \<open>L\<close> positions, a key-padding mask of one row for each of the \<open>bs\<close>
  batch entries and one column for each position, and a positional embedding of the
  sequence's shape, returns a sequence of the same shape.  A layer of the decoder, given
  \<open>Q\<close> queries, a memory of \<open>S\<close> positions with its key-padding mask and positional
  embedding, and a query embedding of the queries' shape, returns the queries' shape.
  Nothing is asked of a kernel on arguments of other shapes, which a library may reject.
\<close>

definition keeps_shape :: "'a kernel \<Rightarrow> nat list \<Rightarrow> bool" where
  "keeps_shape f s \<longleftrightarrow> (\<forall>x. shape x = s \<longrightarrow> (\<exists>y. f x = Inr y \<and> shape y = s))"

definition maps_shape :: "'a kernel \<Rightarrow> nat list \<Rightarrow> nat list \<Rightarrow> bool" where
  "maps_shape f s s' \<longleftrightarrow> (\<forall>x. shape x = s \<longrightarrow> (\<exists>y. f x = Inr y \<and> shape y = s'))"

definition encoder_keeps_shape ::
  "'a::plus TransformerEncoder \<Rightarrow> nat \<Rightarrow> nat \<Rightarrow> nat \<Rightarrow> bool" where
  "encoder_keeps_shape e L bs c \<longleftrightarrow>
     (\<forall>l \<in> set (encoder_layers e). \<forall>x k p.
        shape x = [L, bs, c] \<and> shape k = [bs, L] \<and> shape p = [L, bs, c] \<longrightarrow>
        (\<exists>y. TransformerEncoderLayer_forward l x None (Some k) (Some p) = Inr y
           \<and> shape y = [L, bs, c]))
   \<and> (\<forall>nf. encoder_norm e = Some nf \<longrightarrow> keeps_shape nf [L, bs, c])"

definition decoder_keeps_shape ::
  "'a::plus TransformerDecoder \<Rightarrow> nat \<Rightarrow> nat \<Rightarrow> nat \<Rightarrow> nat \<Rightarrow> bool" where
  "decoder_keeps_shape d Q S bs c \<longleftrightarrow>
     (\<forall>l \<in> set (decoder_layers d). \<forall>x mem k p qp.
        shape x = [Q, bs, c] \<and> shape mem = [S, bs, c] \<and> shape k = [bs, S]
          \<and> shape p = [S, bs, c] \<and> shape qp = [Q, bs, c] \<longrightarrow>
        (\<exists>y. TransformerDecoderLayer_forward l x mem None None None (Some k) (Some p) (Some qp)
               = Inr y
           \<and> shape y = [Q, bs, c]))
   \<and> (\<forall>nf. decoder_norm d = Some nf \<longrightarrow> keeps_shape nf [Q, bs, c])"

text \<open>
  The inputs of a forward call, when a stream is present and well formed: an image of
  \<open>bs\<close> feature maps of \<open>c\<close> channels and \<open>h \<times> w\<close> positions, with a mask and a
  positional embedding to match, and a text of \<open>bs\<close> sequences of \<open>Lt\<close> tokens of width
  \<open>d\<close>, with a mask and a positional embedding to match.
\<close>

definition image_stream ::
  "'a tensor option \<Rightarrow> bool tensor option \<Rightarrow> 'a tensor option \<Rightarrow> nat \<Rightarrow> nat \<Rightarrow> nat \<Rightarrow> nat
     \<Rightarrow> bool" where
  "image_stream img_src img_mask img_pos bs c h w \<longleftrightarrow>
     (\<exists>x mk p. img_src = Some x \<and> img_mask = Some mk \<and> img_pos = Some p
        \<and> shape x = [bs, c, h, w] \<and> shape mk = [bs, h, w] \<and> shape p = [bs, c, h, w]
        \<and> 0 < h * w)"

definition text_stream ::
  "'a tensor option \<Rightarrow> int tensor option \<Rightarrow> 'a tensor option \<Rightarrow> nat \<Rightarrow> nat \<Rightarrow> nat \<Rightarrow> bool"
  where
  "text_stream text_src text_mask text_pos bs Lt d \<longleftrightarrow>
     (\<exists>tx tm tp. text_src = Some tx \<and> text_mask = Some tm \<and> text_pos = Some tp
        \<and> shape tx = [bs, Lt, d] \<and> shape tm = [bs, Lt] \<and> shape tp = [Lt, d])"

text \<open>
  The encoder and the two projections keep their contracts on an image sequence of
  length \<open>L\<close>.
\<close>

definition image_kernels_ok :: "'a::plus MTTransformer \<Rightarrow> nat \<Rightarrow> nat \<Rightarrow> nat \<Rightarrow> nat \<Rightarrow> bool" where
  "image_kernels_ok m L bs c d \<longleftrightarrow>
     encoder_keeps_shape (self_encoder m) (L + enc_prefix m) bs c
   \<and> maps_shape (proj_forward (self_enc2dec_proj m)) [L, bs, c] [L, bs, d]
   \<and> maps_shape (proj_forward (self_pos_embed_proj m)) [L, bs, c] [L, bs, d]"

text \<open>The shapes of the two tensors a forward call returns.\<close>

definition result_shapes :: "error + ('a tensor \<times> 'a tensor) \<Rightarrow> error + (nat list \<times> nat list)" where
  "result_shapes r = (case r of Inl e \<Rightarrow> Inl e | Inr (hs, memory) \<Rightarrow> Inr (shape hs, shape memory))"

section \<open>Concrete instances\<close>

text \<open>
  A library whose kernels pass their input on (attention returns its query), over the
  integers, and the modules built from it.
\<close>

definition attention0 :: "int attention" where
  "attention0 q k v attn_mask key_padding_mask = Inr q"

definition torch0 :: "int torch" where
  "torch0 =
     \<lparr> F_relu = Inr, F_gelu = Inr, F_glu = Inr,
       nn_MultiheadAttention = (\<lambda>p d_model nhead dropout. attention0),
       nn_Linear = (\<lambda>p n_in n_out. Inr),
       nn_LayerNorm = (\<lambda>p d_model. Inr),
       nn_Dropout = (\<lambda>p dropout. Inr),
       nn_Embedding_weight = (\<lambda>p n d idx. 0),
       float_0_1 = 0 \<rparr>"

definition encoder_layer0 :: "int TransformerEncoderLayer" where
  "encoder_layer0 =
     \<lparr> enc_self_attn = attention0,
       enc_linear1 = Inr, enc_dropout = Inr, enc_linear2 = Inr,
       enc_norm1 = Inr, enc_norm2 = Inr, enc_dropout1 = Inr, enc_dropout2 = Inr,
       enc_activation = Inr, enc_normalize_before = False \<rparr>"

definition decoder_layer0 :: "int TransformerDecoderLayer" where
  "decoder_layer0 =
     \<lparr> dec_self_attn = attention0, dec_multihead_attn = attention0,
       dec_linear1 = Inr, dec_dropout = Inr, dec_linear2 = Inr,
       dec_norm1 = Inr, dec_norm2 = Inr, dec_norm3 = Inr,
       dec_dropout1 = Inr, dec_dropout2 = Inr, dec_dropout3 = Inr,
       dec_activation = Inr, dec_normalize_before = False \<rparr>"

definition decoder0 :: "int TransformerDecoder" where
  "decoder0 = TransformerDecoder_init decoder_layer0 2 (Some Inr) True"

definition ones :: "nat list \<Rightarrow> int tensor" where
  "ones s = Tensor s (\<lambda>idx. 1)"

definition no_padding :: "nat list \<Rightarrow> bool tensor" where
  "no_padding s = Tensor s (\<lambda>idx. False)"

text \<open>
  Configurations: the scenario of one task and one dataset; one with two tasks, three
  pairs and every option set; and the scenario with \<^verbatim>\<open>pass_pos_and_query\<close> unset.  The
  models are what \<^verbatim>\<open>build_transformer\<close> returns for them.
\<close>

definition args_scenario :: "int args" where
  "args_scenario =
     \<lparr> num_queries = [(''detection'', [(''coco'', 100)])],
       use_task_embedding_in_encoder = False,
       use_task_embedding_in_decoder = False,
       residual_in_encoder = False,
       encoder_hidden_dim = 8,
       decoder_hidden_dim = 8,
       args_dropout = 0,
       nheads = 2,
       args_dim_feedforward = 16,
       enc_layers = 2,
       dec_layers = 2,
       pre_norm = False,
       args_pass_pos_and_query = True,
       args_share_decoders = True \<rparr>"

definition args_multi :: "int args" where
  "args_multi =
     args_scenario
       \<lparr> num_queries := [(''detection'', [(''coco'', 100), (''visual_genome'', 100)]),
                         (''vqa'', [(''vqa2'', 25)])],
         use_task_embedding_in_encoder := True,
         use_task_embedding_in_decoder := True,
         residual_in_encoder := True \<rparr>"

definition args_nopass :: "int args" where
  "args_nopass = args_scenario \<lparr> args_pass_pos_and_query := False \<rparr>"

definition mt_scenario :: "int MTTransformer" where
  "mt_scenario = projr (build_transformer torch0 args_scenario)"

definition mt_multi :: "int MTTransformer" where
  "mt_multi = projr (build_transformer torch0 args_multi)"

definition mt_nopass :: "int MTTransformer" where
  "mt_nopass = projr (build_transformer torch0 args_nopass)"

text \<open>
  A second library, whose attention checks its arguments as \<^verbatim>\<open>nn.MultiheadAttention\<close>
  does: query, key and value of rank three that agree in batch size and width, key and
  value of one shape, an attention mask of one row per query and one column per key, and
  a key-padding mask of one row per batch entry and one column per key.  Anything else
  is refused.  Its embedding tables hold the number 7.  The modules and the models built
  from it follow.
\<close>

definition attention1 :: "int attention" where
  "attention1 q k v attn_mask key_padding_mask =
     (if length (shape q) = 3 \<and> length (shape k) = 3
         \<and> shape k ! 1 = shape q ! 1 \<and> shape k ! 2 = shape q ! 2 \<and> shape v = shape k
         \<and> (case attn_mask of None \<Rightarrow> True | Some a \<Rightarrow> shape a = [shape q ! 0, shape k ! 0])
         \<and> (case key_padding_mask of
               None \<Rightarrow> True
             | Some m \<Rightarrow> shape m = [shape q ! 1, shape k ! 0])
      then Inr q
      else Inl (RuntimeError ''attention: the shapes of the arguments do not agree''))"

definition torch1 :: "int torch" where
  "torch1 =
     torch0 \<lparr> nn_MultiheadAttention := (\<lambda>p d_model nhead dropout. attention1),
              nn_Embedding_weight := (\<lambda>p n d idx. 7) \<rparr>"

definition encoder_layer1 :: "int TransformerEncoderLayer" where
  "encoder_layer1 = encoder_layer0 \<lparr> enc_self_attn := attention1 \<rparr>"

definition decoder_layer1 :: "int TransformerDecoderLayer" where
  "decoder_layer1 =
     decoder_layer0 \<lparr> dec_self_attn := attention1, dec_multihead_attn := attention1 \<rparr>"

definition decoder1 :: "int TransformerDecoder" where
  "decoder1 = TransformerDecoder_init decoder_layer1 2 (Some Inr) True"

definition mt_scenario1 :: "int MTTransformer" where
  "mt_scenario1 = projr (build_transformer torch1 args_scenario)"

definition mt_multi1 :: "int MTTransformer" where
  "mt_multi1 = projr (build_transformer torch1 args_multi)"

section \<open>The decoder stack\<close>

lemma decoder_loop_plain:
  "decoder_loop call nrm False ls out acc = and_then (run_layers call ls out) (\<lambda>y. Inr (y, acc))"
proof (induction ls arbitrary: out)
  case Nil
  show ?case by simp
next
  case (Cons l ls)
  show ?case by (cases "call l out") (simp_all add: Cons.IH)
qed

lemma decoder_loop_collects:
  assumes "decoder_loop call (Some nf) True ls out acc = Inr (out', acc')"
  shows "run_layers call ls out = Inr out'
         \<and> length acc' = length acc + length ls
         \<and> (ls \<noteq> [] \<longrightarrow> nf out' = Inr (last acc'))"
  using assms
proof (induction ls arbitrary: out acc)
  case Nil
  then show ?case by simp
next
  case (Cons l ls)
  from Cons.prems obtain y where y: "call l out = Inr y"
    by (cases "call l out") simp_all
  with Cons.prems obtain n where n: "nf y = Inr n"
    by (cases "nf y") simp_all
  from Cons.prems y n
  have rest: "decoder_loop call (Some nf) True ls y (acc @ [n]) = Inr (out', acc')"
    by simp
  note ih = Cons.IH [OF rest]
  show ?case
  proof (cases ls)
    case Nil
    with rest y n show ?thesis by auto
  next
    case (Cons l' ls')
    with ih y show ?thesis by simp
  qed
qed

lemma run_layers_shape:
  assumes "\<forall>l \<in> set ls. \<forall>x. shape x = s \<longrightarrow> (\<exists>y. call l x = Inr y \<and> shape y = s)"
    and "shape out = s"
  shows "\<exists>y. run_layers call ls out = Inr y \<and> shape y = s"
  using assms
proof (induction ls arbitrary: out)
  case Nil
  then show ?case by simp
next
  case (Cons l ls)
  from Cons.prems obtain y where y: "call l out = Inr y" "shape y = s"
    by (metis list.set_intros(1))
  from Cons.prems have "\<forall>l \<in> set ls. \<forall>x. shape x = s \<longrightarrow> (\<exists>y. call l x = Inr y \<and> shape y = s)"
    by simp
  from Cons.IH [OF this y(2)] y(1) show ?case by simp
qed

lemma decoder_loop_succeeds:
  assumes "\<forall>l \<in> set ls. \<forall>x. shape x = s \<longrightarrow> (\<exists>y. call l x = Inr y \<and> shape y = s)"
    and "\<forall>x. shape x = s \<longrightarrow> (\<exists>y. nf x = Inr y \<and> shape y = s)"
    and "shape out = s"
    and "list_all (\<lambda>u. shape u = s) acc"
  shows "\<exists>out' acc'. decoder_loop call (Some nf) True ls out acc = Inr (out', acc')
           \<and> shape out' = s \<and> list_all (\<lambda>u. shape u = s) acc'"
  using assms
proof (induction ls arbitrary: out acc)
  case Nil
  then show ?case by simp
next
  case (Cons l ls)
  from Cons.prems(1,3) obtain y where y: "call l out = Inr y" "shape y = s"
    by (metis list.set_intros(1))
  from Cons.prems(2) y(2) obtain n where n: "nf y = Inr n" "shape n = s"
    by blast
  from Cons.prems(1) have ls: "\<forall>l \<in> set ls. \<forall>x. shape x = s \<longrightarrow> (\<exists>y. call l x = Inr y \<and> shape y = s)"
    by simp
  from Cons.prems(4) n(2) have acc: "list_all (\<lambda>u. shape u = s) (acc @ [n])"
    by simp
  from Cons.IH [OF ls Cons.prems(2) y(2) acc] y(1) n(1) show ?case by simp
qed

lemma torch_stack_same:
  assumes "ts \<noteq> []" and "list_all (\<lambda>u. shape u = s) ts"
  shows "torch_stack ts = Inr (Tensor (length ts # s)
           (\<lambda>idx. case idx of [] \<Rightarrow> elem (hd ts) [] | i # rest \<Rightarrow> elem (ts ! i) rest))"
  using assms by (cases ts) (auto simp: torch_stack_def list_all_iff)

lemma torch_stack_Inr:
  assumes "torch_stack ts = Inr r"
  shows "shape r = length ts # shape (hd ts) \<and> ts \<noteq> [] \<and> (\<forall>i < length ts. t_select0 r i = ts ! i)"
proof -
  from assms obtain t us where ts: "ts = t # us"
    by (cases ts) (simp_all add: torch_stack_def)
  with assms have same: "list_all (\<lambda>u. shape u = shape t) us"
    by (simp add: torch_stack_def split: if_splits)
  with assms ts have r: "r = Tensor (length ts # shape t)
      (\<lambda>idx. case idx of [] \<Rightarrow> elem t [] | i # rest \<Rightarrow> elem (ts ! i) rest)"
    by (auto simp: torch_stack_def)
  have "t_select0 r i = ts ! i" if "i < length ts" for i
  proof -
    from that same ts have "shape (ts ! i) = shape t"
      by (cases i) (auto simp: list_all_length)
    then show ?thesis
      by (simp add: r t_select0_def tensor.expand)
  qed
  with r ts show ?thesis by simp
qed

text \<open>A decoder that collects its layers' outputs returns one entry per layer.\<close>

lemma TransformerDecoder_forward_stack:
  fixes d :: "'a::plus TransformerDecoder"
  assumes nrm: "decoder_norm d = Some nf"
    and ri: "return_intermediate d"
    and ne: "decoder_layers d \<noteq> []"
    and layers_ok: "\<forall>l \<in> set (decoder_layers d). \<forall>x. shape x = shape tgt \<longrightarrow>
          (\<exists>y. decoder_layer_call memory tm mm tk mk pos qp l x = Inr y \<and> shape y = shape tgt)"
    and norm_ok: "\<forall>x. shape x = shape tgt \<longrightarrow> (\<exists>y. nf x = Inr y \<and> shape y = shape tgt)"
  shows "\<exists>r. TransformerDecoder_forward d tgt memory tm mm tk mk pos qp = Inr r
           \<and> shape r = length (decoder_layers d) # shape tgt"
proof -
  let ?call = "decoder_layer_call memory tm mm tk mk pos qp"
  let ?ls = "decoder_layers d"
  from decoder_loop_succeeds [OF layers_ok norm_ok refl, of "[]"]
  obtain out acc where
    loop: "decoder_loop ?call (Some nf) True ?ls tgt [] = Inr (out, acc)"
    and out: "shape out = shape tgt" and acc: "list_all (\<lambda>u. shape u = shape tgt) acc"
    by auto
  from decoder_loop_collects [OF loop] ne
  have len: "length acc = length ?ls" and lst: "nf out = Inr (last acc)"
    by simp_all
  from len ne have acc_ne: "acc \<noteq> []" by auto
  then have fin: "butlast acc @ [last acc] = acc" by simp
  from torch_stack_same [OF acc_ne acc] len
  obtain r where st: "torch_stack acc = Inr r" and sh: "shape r = length ?ls # shape tgt"
    by simp
  from ri nrm loop lst acc_ne fin st
  have "TransformerDecoder_forward d tgt memory tm mm tk mk pos qp = Inr r"
    by (simp add: TransformerDecoder_forward_def)
  with sh show ?thesis by blast
qed

text \<open>
  Claim C1.  Let a decoder have a final normalisation, as every decoder this module builds
  has.  With \<^verbatim>\<open>return_intermediate\<close> set and at least one layer, a forward call that
  returns, returns a stack with one entry per layer, and the last entry is the
  normalisation of the last layer's output (\<open>run_layers\<close> is that output); and the call
  does return, with the shape of \<^verbatim>\<open>tgt\<close> under the new leading dimension, when the layers
  and the normalisation return tensors of the shape of \<^verbatim>\<open>tgt\<close>.  With
  \<^verbatim>\<open>return_intermediate\<close> unset the call returns the normalisation of the last layer's
  output and nothing else.
\<close>

theorem decoder_returns_normalised_stack:
  fixes d :: "'a::plus TransformerDecoder"
  assumes nrm: "decoder_norm d = Some nf"
  shows "(return_intermediate d \<and> decoder_layers d \<noteq> [] \<longrightarrow>
            (\<forall>r. TransformerDecoder_forward d tgt memory tm mm tk mk pos qp = Inr r \<longrightarrow>
               (\<exists>out. run_layers (decoder_layer_call memory tm mm tk mk pos qp)
                         (decoder_layers d) tgt = Inr out
                  \<and> shape r \<noteq> [] \<and> hd (shape r) = length (decoder_layers d)
                  \<and> nf out = Inr (t_select0 r (length (decoder_layers d) - 1)))))
       \<and> (return_intermediate d \<and> decoder_layers d \<noteq> []
            \<and> (\<forall>l \<in> set (decoder_layers d). \<forall>x. shape x = shape tgt \<longrightarrow>
                  (\<exists>y. decoder_layer_call memory tm mm tk mk pos qp l x = Inr y
                     \<and> shape y = shape tgt))
            \<and> (\<forall>x. shape x = shape tgt \<longrightarrow> (\<exists>y. nf x = Inr y \<and> shape y = shape tgt)) \<longrightarrow>
            (\<exists>r. TransformerDecoder_forward d tgt memory tm mm tk mk pos qp = Inr r
               \<and> shape r = length (decoder_layers d) # shape tgt))
       \<and> (\<not> return_intermediate d \<longrightarrow>
            TransformerDecoder_forward d tgt memory tm mm tk mk pos qp
              = and_then (run_layers (decoder_layer_call memory tm mm tk mk pos qp)
                           (decoder_layers d) tgt) nf)"
proof (intro conjI impI allI)
  let ?call = "decoder_layer_call memory tm mm tk mk pos qp"
  let ?ls = "decoder_layers d"
  let ?fwd = "TransformerDecoder_forward d tgt memory tm mm tk mk pos qp"
  {
    fix r
    assume ri: "return_intermediate d \<and> ?ls \<noteq> []" and r: "?fwd = Inr r"
    from r ri nrm obtain out acc where
      loop: "decoder_loop ?call (Some nf) True ?ls tgt [] = Inr (out, acc)"
      by (cases "decoder_loop ?call (Some nf) True ?ls tgt []")
         (auto simp: TransformerDecoder_forward_def)
    from decoder_loop_collects [OF loop] ri
    have run: "run_layers ?call ?ls tgt = Inr out" and len: "length acc = length ?ls"
      and lst: "nf out = Inr (last acc)"
      by simp_all
    from len ri have acc: "acc \<noteq> []" by auto
    from lst acc have fin: "butlast acc @ [last acc] = acc" by simp
    from r ri nrm loop lst acc fin have st: "torch_stack acc = Inr r"
      by (simp add: TransformerDecoder_forward_def)
    note props = torch_stack_Inr [OF st]
    from ri have "length ?ls - 1 < length ?ls"
      by (cases ?ls) simp_all
    with props acc len have "t_select0 r (length ?ls - 1) = last acc"
      by (simp add: last_conv_nth)
    with run props len lst
    show "\<exists>out. run_layers ?call ?ls tgt = Inr out \<and> shape r \<noteq> []
            \<and> hd (shape r) = length ?ls
            \<and> nf out = Inr (t_select0 r (length ?ls - 1))"
      by simp
  }
  {
    assume h: "return_intermediate d \<and> ?ls \<noteq> []
            \<and> (\<forall>l \<in> set ?ls. \<forall>x. shape x = shape tgt \<longrightarrow>
                  (\<exists>y. ?call l x = Inr y \<and> shape y = shape tgt))
            \<and> (\<forall>x. shape x = shape tgt \<longrightarrow> (\<exists>y. nf x = Inr y \<and> shape y = shape tgt))"
    then show "\<exists>r. ?fwd = Inr r \<and> shape r = length ?ls # shape tgt"
      using TransformerDecoder_forward_stack [OF nrm, of tgt memory tm mm tk mk pos qp]
      by blast
  }
  {
    assume nri: "\<not> return_intermediate d"
    show "?fwd = and_then (run_layers ?call ?ls tgt) nf"
    proof (cases "run_layers ?call ?ls tgt")
      case (Inl e)
      with nri nrm show ?thesis
        by (simp add: TransformerDecoder_forward_def decoder_loop_plain)
    next
      case (Inr out)
      with nri nrm show ?thesis
        by (cases "nf out") (simp_all add: TransformerDecoder_forward_def decoder_loop_plain)
    qed
  }
qed

lemma and_then_eq_Inr: "and_then m f = Inr r \<longleftrightarrow> (\<exists>x. m = Inr x \<and> f x = Inr r)"
  by (cases m) simp_all

lemma and_then_eq_Inl: "and_then m f = Inl e \<longleftrightarrow> m = Inl e \<or> (\<exists>x. m = Inr x \<and> f x = Inl e)"
  by (cases m) simp_all

lemma get_activation_fn_cases:
  "get_activation_fn T activation = Inr a \<Longrightarrow> activation \<in> {''relu'', ''gelu'', ''glu''}"
  by (simp add: get_activation_fn_def split: if_splits)

section \<open>The registry of decoders\<close>

lemma build_task_dict_shared:
  "build_task_dict build True task ds dec td
     = Inr (dec, \<lambda>d. if d \<in> set (map fst ds) then Some dec else td d)"
proof (induction ds arbitrary: td)
  case Nil
  show ?case by simp
next
  case (Cons a ds)
  obtain dataset n where a: "a = (dataset, n)" by (cases a)
  show ?case
    by (simp add: a Cons.IH fun_eq_iff)
qed

lemma build_task_dict_fresh:
  assumes "\<And>p. \<exists>d. build p = Inr d"
  shows "\<exists>dec' td'. build_task_dict build False task ds dec td = Inr (dec', td')
           \<and> (\<forall>d. d \<in> set (map fst ds) \<longrightarrow> (\<exists>b. td' d = Some (Some b)))
           \<and> (\<forall>d. d \<notin> set (map fst ds) \<longrightarrow> td' d = td d)"
proof (induction ds arbitrary: dec td)
  case Nil
  show ?case by simp
next
  case (Cons a ds)
  obtain dataset n where a: "a = (dataset, n)" by (cases a)
  from assms obtain b where b: "build [''decoders'', task, dataset] = Inr b" by blast
  from Cons.IH [of None "td(dataset \<mapsto> Some b)"]
  obtain dec' td' where r: "build_task_dict build False task ds None (td(dataset \<mapsto> Some b))
        = Inr (dec', td')"
    and inn: "\<forall>d. d \<in> set (map fst ds) \<longrightarrow> (\<exists>b. td' d = Some (Some b))"
    and out: "\<forall>d. d \<notin> set (map fst ds) \<longrightarrow> td' d = (td(dataset \<mapsto> Some b)) d"
    by blast
  have "build_task_dict build False task (a # ds) dec td = Inr (dec', td')"
    by (simp add: a b r)
  moreover have "\<forall>d. d \<in> set (map fst (a # ds)) \<longrightarrow> (\<exists>b. td' d = Some (Some b))"
    using inn out a by (metis fun_upd_same list.simps(9) fst_conv set_ConsD)
  moreover have "\<forall>d. d \<notin> set (map fst (a # ds)) \<longrightarrow> td' d = td d"
    using out a by simp
  ultimately show ?case by blast
qed

text \<open>What the registry holds for a pair: shared, the one decoder; otherwise some decoder.\<close>

lemma build_decoders_shared:
  "build_decoders build True nq dec decoders
     = Inr (dec, \<lambda>t. case map_of (rev nq) t of
                        None \<Rightarrow> decoders t
                      | Some ds \<Rightarrow> Some (\<lambda>d. if d \<in> set (map fst ds) then Some dec else None))"
proof (induction nq arbitrary: decoders)
  case Nil
  show ?case by simp
next
  case (Cons a nq)
  obtain task ds where a: "a = (task, ds)" by (cases a)
  show ?case
    by (simp add: a build_task_dict_shared Cons.IH fun_eq_iff map_add_def split: option.splits)
qed

lemma build_decoders_fresh:
  assumes "\<And>p. \<exists>d. build p = Inr d"
  shows "\<exists>dec' decoders'. build_decoders build False nq dec decoders = Inr (dec', decoders')
           \<and> (\<forall>t. case map_of (rev nq) t of
                     None \<Rightarrow> decoders' t = decoders t
                   | Some ds \<Rightarrow> (\<exists>td. decoders' t = Some td
                        \<and> (\<forall>d. d \<in> set (map fst ds) \<longrightarrow> (\<exists>b. td d = Some (Some b)))
                        \<and> (\<forall>d. d \<notin> set (map fst ds) \<longrightarrow> td d = None)))"
proof (induction nq arbitrary: dec decoders)
  case Nil
  show ?case by simp
next
  case (Cons a nq)
  obtain task ds where a: "a = (task, ds)" by (cases a)
  from build_task_dict_fresh [of build task ds dec Map.empty, OF assms]
  obtain dec1 td1 where t1: "build_task_dict build False task ds dec Map.empty = Inr (dec1, td1)"
    and inn: "\<forall>d. d \<in> set (map fst ds) \<longrightarrow> (\<exists>b. td1 d = Some (Some b))"
    and out: "\<forall>d. d \<notin> set (map fst ds) \<longrightarrow> td1 d = None"
    by auto
  from Cons.IH [of dec1 "decoders(task \<mapsto> td1)"]
  obtain dec' decoders' where
    r: "build_decoders build False nq dec1 (decoders(task \<mapsto> td1)) = Inr (dec', decoders')"
    and p: "\<forall>t. case map_of (rev nq) t of
                     None \<Rightarrow> decoders' t = (decoders(task \<mapsto> td1)) t
                   | Some ds \<Rightarrow> (\<exists>td. decoders' t = Some td
                        \<and> (\<forall>d. d \<in> set (map fst ds) \<longrightarrow> (\<exists>b. td d = Some (Some b)))
                        \<and> (\<forall>d. d \<notin> set (map fst ds) \<longrightarrow> td d = None))"
    by blast
  have "build_decoders build False (a # nq) dec decoders = Inr (dec', decoders')"
    by (simp add: a t1 r)
  moreover have "\<forall>t. case map_of (rev (a # nq)) t of
                     None \<Rightarrow> decoders' t = decoders t
                   | Some ds \<Rightarrow> (\<exists>td. decoders' t = Some td
                        \<and> (\<forall>d. d \<in> set (map fst ds) \<longrightarrow> (\<exists>b. td d = Some (Some b)))
                        \<and> (\<forall>d. d \<notin> set (map fst ds) \<longrightarrow> td d = None))"
  proof
    fix t
    from p have pt: "case map_of (rev nq) t of
                     None \<Rightarrow> decoders' t = (decoders(task \<mapsto> td1)) t
                   | Some ds \<Rightarrow> (\<exists>td. decoders' t = Some td
                        \<and> (\<forall>d. d \<in> set (map fst ds) \<longrightarrow> (\<exists>b. td d = Some (Some b)))
                        \<and> (\<forall>d. d \<notin> set (map fst ds) \<longrightarrow> td d = None))" ..
    show "case map_of (rev (a # nq)) t of
                     None \<Rightarrow> decoders' t = decoders t
                   | Some ds \<Rightarrow> (\<exists>td. decoders' t = Some td
                        \<and> (\<forall>d. d \<in> set (map fst ds) \<longrightarrow> (\<exists>b. td d = Some (Some b)))
                        \<and> (\<forall>d. d \<notin> set (map fst ds) \<longrightarrow> td d = None))"
    proof (cases "map_of (rev nq) t")
      case (Some ds')
      with pt show ?thesis by (simp add: a map_add_def)
    next
      case None
      with pt inn out show ?thesis
        by (cases "t = task") (simp_all add: a map_add_def)
    qed
  qed
  ultimately show ?case by blast
qed

section \<open>Tensor operations at the shapes the module uses\<close>

lemma upt_3: "[0..<3] = [0, 1, 2]"
  by (simp add: upt_rec)

lemma t_permute_201:
  "shape t = [a, b, c] \<Longrightarrow>
     t_permute [2, 0, Suc 0] t = Inr (Tensor [c, a, b] (\<lambda>idx. elem t [idx ! 1, idx ! 2, idx ! 0]))"
  by (simp add: t_permute_def position_of_def upt_3 numeral_2_eq_2)

lemma t_permute_102:
  "shape t = [a, b, c] \<Longrightarrow>
     t_permute [Suc 0, 0, 2] t = Inr (Tensor [b, a, c] (\<lambda>idx. elem t [idx ! 1, idx ! 0, idx ! 2]))"
  by (simp add: t_permute_def position_of_def upt_3 numeral_2_eq_2)

lemma t_permute_120:
  "shape t = [a, b, c] \<Longrightarrow>
     t_permute [Suc 0, 2, 0] t = Inr (Tensor [b, c, a] (\<lambda>idx. elem t [idx ! 2, idx ! 0, idx ! 1]))"
  by (simp add: t_permute_def position_of_def upt_3 numeral_2_eq_2)

lemma t_flatten_2:
  "shape t = [a, b, c, d] \<Longrightarrow>
     t_flatten 2 t = Inr (Tensor [a, b, c * d]
       (\<lambda>idx. elem t (take 2 idx @ [idx ! 2 div d, idx ! 2 mod d])))"
  by (simp add: t_flatten_def)

lemma t_flatten_1:
  "shape t = [a, c, d] \<Longrightarrow>
     t_flatten (Suc 0) t = Inr (Tensor [a, c * d]
       (\<lambda>idx. elem t (take 1 idx @ [idx ! 1 div d, idx ! 1 mod d])))"
  by (simp add: t_flatten_def)

lemma t_unsqueeze_1:
  "shape t = [a, b] \<Longrightarrow>
     t_unsqueeze (Suc 0) t = Inr (Tensor [a, 1, b] (\<lambda>idx. elem t (take 1 idx @ drop 2 idx)))"
  by (simp add: t_unsqueeze_def numeral_2_eq_2)

lemma t_unsqueeze_0:
  "t_unsqueeze 0 t = Inr (Tensor (1 # shape t) (\<lambda>idx. elem t (drop 1 idx)))"
  by (simp add: t_unsqueeze_def)

lemma t_repeat_3:
  "shape t = [a, b, c] \<Longrightarrow>
     t_repeat [i, j, k] t = Inr (Tensor [i * a, j * b, k * c]
       (\<lambda>idx. elem t (map2 (\<lambda>i d. i mod d) idx [a, b, c])))"
  by (simp add: t_repeat_def)

lemma t_size_1: "shape t = a # b # s \<Longrightarrow> t_size (Suc 0) t = Inr b"
  by (simp add: t_size_def)

lemma t_index0_row:
  "shape t = [n, d] \<Longrightarrow> - int n \<le> j \<Longrightarrow> j < int n \<Longrightarrow>
     t_index0 (Some j) t = Inr (Tensor [d] (\<lambda>idx. elem t (nat (j mod int n) # idx)))"
  by (simp add: t_index0_def)

lemma torch_cat_2_dim0:
  "shape a = m # s \<Longrightarrow> shape b = n # s \<Longrightarrow>
     torch_cat [a, b] 0 = Inr (Tensor ((m + n) # s) (cat_elem 0 a [b]))"
  by (simp add: torch_cat_def)

lemma torch_cat_2_dim1:
  "shape a = [k, m] \<Longrightarrow> shape b = [k, n] \<Longrightarrow>
     torch_cat [a, b] 1 = Inr (Tensor [k, m + n] (cat_elem 1 a [b]))"
  by (simp add: torch_cat_def)

lemma torch_cat_2_last:
  "shape a = [k, m] \<Longrightarrow> shape b = [k, n] \<Longrightarrow>
     torch_cat [a, b] (- 1) = Inr (Tensor [k, m + n] (cat_elem 1 a [b]))"
  by (simp add: torch_cat_def)

lemma torch_cat_1_dim0:
  "shape a = m # s \<Longrightarrow> torch_cat [a] 0 = Inr (Tensor (m # s) (elem a))"
  by (simp add: torch_cat_def fun_eq_iff)

lemma torch_cat_1_last:
  "shape a = [k, m] \<Longrightarrow> torch_cat [a] (- 1) = Inr (Tensor [k, m] (elem a))"
  by (simp add: torch_cat_def fun_eq_iff)

lemma t_slice_rows:
  "shape t = n # s \<Longrightarrow>
     t_slice (Suc 0) 0 k None t = Inr (Tensor ((n - min k n) # s) (\<lambda>idx. elem t (idx[0 := idx ! 0 + k])))"
  by (simp add: t_slice_def)

lemma t_slice_first_row:
  "shape t = n # s \<Longrightarrow>
     t_slice (Suc 0) 0 0 (Some (Suc 0)) t = Inr (Tensor (min 1 n # s) (\<lambda>idx. elem t (idx[0 := idx ! 0 + 0])))"
  by (simp add: t_slice_def)

lemma t_slice_cols:
  "shape t = [a, n] \<Longrightarrow>
     t_slice 2 (Suc 0) k None t = Inr (Tensor [a, n - min k n] (\<lambda>idx. elem t (idx[1 := idx ! 1 + k])))"
  by (simp add: t_slice_def)

lemma t_slice_first_col:
  "shape t = [a, n] \<Longrightarrow>
     t_slice 2 (Suc 0) 0 (Some (Suc 0)) t = Inr (Tensor [a, min 1 n] (\<lambda>idx. elem t (idx[1 := idx ! 1 + 0])))"
  by (simp add: t_slice_def)

lemma t_slice_queries:
  "shape t = [a, b, n, d] \<Longrightarrow>
     t_slice 4 2 k None t
       = Inr (Tensor [a, b, n - min k n, d] (\<lambda>idx. elem t (idx[2 := idx ! 2 + k])))"
  by (simp add: t_slice_def numeral_2_eq_2)

lemma t_transpose_12:
  "shape t = [a, b, c, d] \<Longrightarrow>
     t_transpose (Suc 0) 2 t
       = Inr (Tensor [a, c, b, d] (\<lambda>idx. elem t (idx[1 := idx ! 2, 2 := idx ! 1])))"
  by (simp add: t_transpose_def numeral_2_eq_2)

lemma broadcast_rev_same: "broadcast_rev xs xs = Some xs"
  by (induction xs) simp_all

lemma t_add_same:
  "shape a = shape b \<Longrightarrow>
     t_add a b = Inr (Tensor (shape a)
       (\<lambda>idx. elem a (broadcast_index (shape a) idx) + elem b (broadcast_index (shape a) idx)))"
  by (simp add: t_add_def broadcast_shapes_def broadcast_rev_same)

lemma unpack4_shape: "shape t = [bs, c, h, w] \<Longrightarrow> unpack4 t = Inr (bs, c, h, w)"
  by (simp add: unpack4_def)

section \<open>The task embedding\<close>

lemma prefix_query_shape:
  assumes wb: "well_built m d_enc d"
    and idx: "use_task_embedding_in_decoder (self_args m) \<longrightarrow> task_idx_in_range task_idx"
    and qe: "shape qe = [Q, bs, d]"
  shows "\<exists>y. prefix_task_embedding_to_query_embed m qe task_idx = Inr y
           \<and> shape y = [Q + dec_prefix m, bs, d]
           \<and> (\<forall>j n k. elem y [j + dec_prefix m, n, k] = elem qe [j, n, k])
           \<and> (use_task_embedding_in_decoder (self_args m) \<longrightarrow>
                 task_row (self_task_embeddings_dec m) task_idx d y)"
proof (cases "use_task_embedding_in_decoder (self_args m)")
  case False
  with qe show ?thesis
    by (simp add: prefix_task_embedding_to_query_embed_def dec_prefix_def)
next
  case True
  with wb obtain w where w: "self_task_embeddings_dec m = Some w" "shape w = [MAX_TASK_NUM, d]"
    by (auto simp: well_built_def)
  from True idx obtain i where i: "task_idx = Some i" "- int MAX_TASK_NUM \<le> i" "i < int MAX_TASK_NUM"
    by (auto simp: task_idx_in_range_def)
  show ?thesis
    using True qe w i
    by (simp add: prefix_task_embedding_to_query_embed_def dec_prefix_def need_def task_row_def
        t_size_1 t_index0_row t_unsqueeze_0 t_repeat_3 torch_cat_2_dim0)
qed

lemma prefix_encoder_shape:
  assumes wb: "well_built m c d_dec"
    and idx: "use_task_embedding_in_encoder (self_args m) \<longrightarrow> task_idx_in_range task_idx"
    and x: "shape x = [L, bs, c]"
    and mk: "shape mk = [bs, L]"
    and p: "shape p = [L, bs, c]"
    and L: "0 < L"
  shows "\<exists>x' mk' p'. prefix_task_embedding_to_encoder_inputs m x mk (Some p) task_idx
             = Inr (x', mk', Some p')
           \<and> shape x' = [L + enc_prefix m, bs, c]
           \<and> shape mk' = [bs, L + enc_prefix m]
           \<and> shape p' = [L + enc_prefix m, bs, c]
           \<and> (\<forall>n l. elem mk' [n, l + enc_prefix m] = elem mk [n, l])
           \<and> (\<forall>l n k. elem x' [l + enc_prefix m, n, k] = elem x [l, n, k])
           \<and> (use_task_embedding_in_encoder (self_args m) \<longrightarrow>
                 task_row (self_task_embeddings_enc m) task_idx c x'
               \<and> (\<forall>n. \<not> elem mk' [n, 0]))"
proof (cases "use_task_embedding_in_encoder (self_args m)")
  case False
  with x mk p show ?thesis
    by (simp add: prefix_task_embedding_to_encoder_inputs_def enc_prefix_def)
next
  case True
  with wb obtain w where w: "self_task_embeddings_enc m = Some w" "shape w = [MAX_TASK_NUM, c]"
    by (auto simp: well_built_def)
  from True idx obtain i where i: "task_idx = Some i" "- int MAX_TASK_NUM \<le> i" "i < int MAX_TASK_NUM"
    by (auto simp: task_idx_in_range_def)
  from L have one: "min 1 L = 1" by simp
  show ?thesis
    using True x mk p w i one
    by (simp add: prefix_task_embedding_to_encoder_inputs_def enc_prefix_def need_def
        subscript_opt_def mask_zeros_like_def torch_zeros_like_def task_row_def
        t_size_1 t_index0_row t_unsqueeze_0 t_repeat_3 torch_cat_2_dim0 torch_cat_2_dim1
        t_slice_first_col t_slice_first_row)
qed

section \<open>Shapes through the stacks and the branches\<close>

lemma TransformerEncoder_forward_shape:
  fixes e :: "'a::plus TransformerEncoder"
  assumes ok: "encoder_keeps_shape e L bs c"
    and x: "shape x = [L, bs, c]" and k: "shape k = [bs, L]" and p: "shape p = [L, bs, c]"
  shows "\<exists>y. TransformerEncoder_forward e x None (Some k) (Some p) = Inr y
           \<and> shape y = [L, bs, c]"
proof -
  let ?call = "\<lambda>layer output. TransformerEncoderLayer_forward layer output None (Some k) (Some p)"
  from ok k p have "\<forall>l \<in> set (encoder_layers e). \<forall>x. shape x = [L, bs, c] \<longrightarrow>
      (\<exists>y. ?call l x = Inr y \<and> shape y = [L, bs, c])"
    by (simp add: encoder_keeps_shape_def)
  from run_layers_shape [OF this x]
  obtain y where y: "run_layers ?call (encoder_layers e) x = Inr y" "shape y = [L, bs, c]"
    by blast
  show ?thesis
  proof (cases "encoder_norm e")
    case None
    with y show ?thesis by (simp add: TransformerEncoder_forward_def)
  next
    case (Some nf)
    with ok y(2) obtain z where "nf y = Inr z" "shape z = [L, bs, c]"
      by (auto simp: encoder_keeps_shape_def keeps_shape_def)
    with y Some show ?thesis by (simp add: TransformerEncoder_forward_def)
  qed
qed

lemma TransformerDecoder_forward_shape:
  fixes d :: "'a::plus TransformerDecoder"
  assumes ok: "decoder_keeps_shape d Q S bs c"
    and nrm: "decoder_norm d \<noteq> None"
    and ri: "return_intermediate d"
    and ne: "decoder_layers d \<noteq> []"
    and tgt: "shape tgt = [Q, bs, c]" and mem: "shape memory = [S, bs, c]"
    and k: "shape k = [bs, S]"
    and p: "shape p = [S, bs, c]" and qp: "shape qp = [Q, bs, c]"
  shows "\<exists>r. TransformerDecoder_forward d tgt memory None None None (Some k) (Some p) (Some qp)
             = Inr r
           \<and> shape r = [length (decoder_layers d), Q, bs, c]"
proof -
  from nrm obtain nf where nf: "decoder_norm d = Some nf" by blast
  from ok tgt mem k p qp
  have layers_ok: "\<forall>l \<in> set (decoder_layers d). \<forall>x. shape x = shape tgt \<longrightarrow>
          (\<exists>y. decoder_layer_call memory None None None (Some k) (Some p) (Some qp) l x = Inr y
             \<and> shape y = shape tgt)"
    by (simp add: decoder_keeps_shape_def decoder_layer_call_def)
  from ok nf tgt have norm_ok: "\<forall>x. shape x = shape tgt \<longrightarrow> (\<exists>y. nf x = Inr y \<and> shape y = shape tgt)"
    by (simp add: decoder_keeps_shape_def keeps_shape_def)
  from TransformerDecoder_forward_stack [OF nf ri ne layers_ok norm_ok] tgt
  show ?thesis by simp
qed

lemma unsqueeze_repeat:
  "shape t = [a, b] \<Longrightarrow>
     \<exists>y. and_then (t_unsqueeze (Suc 0) t) (t_repeat [Suc 0, n, Suc 0]) = Inr y
        \<and> shape y = [a, n, b]
        \<and> (\<forall>j i k. j < a \<and> k < b \<longrightarrow> elem y [j, i, k] = elem t [j, k])"
  by (simp add: t_unsqueeze_1 t_repeat_3)

lemma forward_text_never_returns:
  "\<not> self_pass_pos_and_query m \<Longrightarrow> forward_text m tx tmask tpos task_idx loc \<noteq> Inr r"
  by (auto simp: forward_text_def and_then_eq_Inr)

lemma forward_text_not_implemented:
  assumes wb: "well_built m d_enc d"
    and idx: "use_task_embedding_in_decoder (self_args m) \<longrightarrow> task_idx_in_range task_idx"
    and pass: "\<not> self_pass_pos_and_query m"
    and tx: "shape tx = [bs, Lt, c]"
    and tp: "shape tp = [Lp, cp]"
    and q: "loc_query_embed loc = Some qe" "shape qe = [Q, d]"
  shows "forward_text m tx tmask (Some tp) task_idx loc = Inl NotImplementedError"
proof -
  from unsqueeze_repeat [OF q(2), of bs]
  obtain q1 where q1: "and_then (t_unsqueeze (Suc 0) qe) (t_repeat [Suc 0, bs, Suc 0]) = Inr q1"
    "shape q1 = [Q, bs, d]"
    by blast
  from prefix_query_shape [OF wb idx q1(2)]
  obtain q2 where q2: "prefix_task_embedding_to_query_embed m q1 task_idx = Inr q2"
    by blast
  from q1(1) obtain qu where qu: "t_unsqueeze (Suc 0) qe = Inr qu" "t_repeat [Suc 0, bs, Suc 0] qu = Inr q1"
    by (auto simp: and_then_eq_Inr)
  show ?thesis
    using pass tx tp q(1) qu q2
    by (simp add: forward_text_def need_def t_permute_102 t_unsqueeze_1 t_size_1 t_repeat_3)
qed

lemma forward_text_shapes:
  assumes wb: "well_built m d_enc d"
    and idx: "use_task_embedding_in_decoder (self_args m) \<longrightarrow> task_idx_in_range task_idx"
    and pass: "self_pass_pos_and_query m"
    and tx: "shape tx = [bs, Lt, d]"
    and tp: "shape tp = [Lt, d]"
    and q: "loc_query_embed loc = Some qe" "shape qe = [Q, d]"
  shows "\<exists>tperm tpos q.
           forward_text m tx tmask (Some tp) task_idx loc
             = Inr \<lparr> loc_memories = loc_memories loc @ [tperm],
                     loc_pos_embeds = loc_pos_embeds loc @ [Some tpos],
                     loc_masks = loc_masks loc @ [map_option (\<lambda>m. t_ne m 1) tmask],
                     loc_query_embed = Some q,
                     loc_tgt = Some (torch_zeros_like q) \<rparr>
         \<and> shape tperm = [Lt, bs, d]
         \<and> (\<forall>l n c. elem tperm [l, n, c] = elem tx [n, l, c])
         \<and> shape tpos = [Lt, bs, d]
         \<and> shape q = [Q + dec_prefix m, bs, d]
         \<and> (\<forall>j n k. j < Q \<and> k < d \<longrightarrow> elem q [j + dec_prefix m, n, k] = elem qe [j, k])
         \<and> (use_task_embedding_in_decoder (self_args m) \<longrightarrow>
               task_row (self_task_embeddings_dec m) task_idx d q)"
proof -
  from unsqueeze_repeat [OF q(2), of bs]
  obtain q1 where q1: "and_then (t_unsqueeze (Suc 0) qe) (t_repeat [Suc 0, bs, Suc 0]) = Inr q1"
    "shape q1 = [Q, bs, d]"
    "\<forall>j i k. j < Q \<and> k < d \<longrightarrow> elem q1 [j, i, k] = elem qe [j, k]"
    by blast
  from prefix_query_shape [OF wb idx q1(2)]
  obtain q2 where q2: "prefix_task_embedding_to_query_embed m q1 task_idx = Inr q2"
    "shape q2 = [Q + dec_prefix m, bs, d]"
    "\<forall>j n k. elem q2 [j + dec_prefix m, n, k] = elem q1 [j, n, k]"
    "use_task_embedding_in_decoder (self_args m) \<longrightarrow>
       task_row (self_task_embeddings_dec m) task_idx d q2"
    by blast
  from q1(1) obtain qu where qu: "t_unsqueeze (Suc 0) qe = Inr qu" "t_repeat [Suc 0, bs, Suc 0] qu = Inr q1"
    by (auto simp: and_then_eq_Inr)
  show ?thesis
    using pass tx tp q(1) qu q2 q1(3)
    by (simp add: forward_text_def need_def t_permute_102 t_unsqueeze_1 t_size_1 t_repeat_3)
qed

lemma decoder_layer0_shape:
  assumes "shape x = s" and "qp = None \<or> (\<exists>q. qp = Some q \<and> shape q = s)"
    and "pos = None \<or> (\<exists>p. pos = Some p \<and> shape p = shape memory)"
  shows "\<exists>y. TransformerDecoderLayer_forward decoder_layer0 x memory tm mm tk mk pos qp = Inr y
       \<and> shape y = s"
  using assms
  by (auto simp: TransformerDecoderLayer_forward_def TransformerDecoderLayer_forward_post_def
      decoder_layer0_def with_pos_embed_def attention0_def t_add_same)

lemma decoder0_fields:
  "decoder_norm decoder0 = Some Inr" "return_intermediate decoder0"
  "decoder_layers decoder0 = [decoder_layer0, decoder_layer0]"
  by (simp_all add: decoder0_def TransformerDecoder_init_def get_clones_def numeral_2_eq_2)

theorem decoder_returns_normalised_stack_witness:
  "\<exists>r. TransformerDecoder_forward decoder0 (ones [3, 1, 8]) (ones [4, 1, 8])
          None None None None None None = Inr r
      \<and> shape r = [2, 3, 1, 8]"
proof -
  have ok: "\<forall>l \<in> set (decoder_layers decoder0). \<forall>x. shape x = shape (ones [3, 1, 8]) \<longrightarrow>
      (\<exists>y. decoder_layer_call (ones [4, 1, 8]) None None None None None None l x = Inr y
         \<and> shape y = shape (ones [3, 1, 8]))"
    using decoder_layer0_shape by (simp add: decoder0_fields decoder_layer_call_def)
  have nf: "\<forall>x. shape x = shape (ones [3, 1, 8]) \<longrightarrow>
      (\<exists>y. (Inr :: int kernel) x = Inr y \<and> shape y = shape (ones [3, 1, 8]))"
    by simp
  have len: "length (decoder_layers decoder0) = 2" and ne: "decoder_layers decoder0 \<noteq> []"
    by (simp_all add: decoder0_fields)
  from decoder_returns_normalised_stack [OF decoder0_fields(1), of "ones [3, 1, 8]"
      "ones [4, 1, 8]" None None None None None None, THEN conjunct2, THEN conjunct1]
    decoder0_fields(2) ne ok nf
  have "\<exists>r. TransformerDecoder_forward decoder0 (ones [3, 1, 8]) (ones [4, 1, 8])
          None None None None None None = Inr r
      \<and> shape r = length (decoder_layers decoder0) # shape (ones [3, 1, 8])"
    by blast
  then show ?thesis by (simp add: len ones_def)
qed

section \<open>Construction\<close>

lemma layer_inits:
  assumes "get_activation_fn T act = Inr a"
  shows "\<exists>el. TransformerEncoderLayer_init T p d nh dff dr act nb = Inr el"
    and "\<exists>dl. TransformerDecoderLayer_init T p d nh dff dr act nb = Inr dl"
  using assms by (simp_all add: TransformerEncoderLayer_init_def TransformerDecoderLayer_init_def)

lemma layer_init_activation:
  "TransformerDecoderLayer_init T p d nh dff dr act nb = Inr dl \<Longrightarrow>
     \<exists>a. get_activation_fn T act = Inr a"
  by (auto simp: TransformerDecoderLayer_init_def and_then_eq_Inr)

lemma build_decoder_layer_succeeds:
  assumes "get_activation_fn T act = Inr a"
  shows "\<exists>d. build_decoder_layer T p dd nh Nd dff dr act nb ri = Inr d"
  using layer_inits(2) [OF assms, of "p @ [''layers'']" dd nh dff dr nb]
  by (auto simp: build_decoder_layer_def)

text \<open>What construction returns, field by field.\<close>

lemma MTTransformer_init_Inr:
  assumes "MTTransformer_init T args de dd nh Ne Nd dff dr act nb ri pass share = Inr m"
  obtains el dl dec decoders where
    "TransformerEncoderLayer_init T [''encoder'', ''layers''] de nh dff dr act nb = Inr el"
    "TransformerDecoderLayer_init T [''decoder'', ''layers''] dd nh dff dr act nb = Inr dl"
    "build_decoders (\<lambda>p. build_decoder_layer T p dd nh Nd dff dr act nb ri) share
       (num_queries args)
       (Some (TransformerDecoder_init dl Nd (Some (nn_LayerNorm T [''decoder'', ''norm''] dd)) ri))
       Map.empty = Inr (dec, decoders)"
    "self_args m = args"
    "self_pass_pos_and_query m = pass"
    "self_encoder m = TransformerEncoder_init el Ne
       (if nb then Some (nn_LayerNorm T [''encoder'', ''norm''] de) else None)"
    "self_enc2dec_proj m
       = (if dd \<noteq> de then Linear (nn_Linear T [''enc2dec_proj''] de dd) else Identity)"
    "self_pos_embed_proj m
       = (if dd \<noteq> de then Linear (nn_Linear T [''pos_embed_proj''] de dd) else Identity)"
    "self_decoder m = dec"
    "self_decoders m = decoders"
    "well_built m de dd"
  using assms
  by (auto simp: MTTransformer_init_def Transformer_init_def and_then_eq_Inr well_built_def
      nn_Embedding_def)

lemma MTTransformer_init_succeeds:
  assumes "get_activation_fn T act = Inr a"
  shows "\<exists>m. MTTransformer_init T args de dd nh Ne Nd dff dr act nb ri pass share = Inr m"
proof -
  from layer_inits [OF assms]
  obtain el dl where
    el: "TransformerEncoderLayer_init T [''encoder'', ''layers''] de nh dff dr act nb = Inr el"
    and dl: "TransformerDecoderLayer_init T [''decoder'', ''layers''] dd nh dff dr act nb = Inr dl"
    by blast
  let ?build = "\<lambda>p. build_decoder_layer T p dd nh Nd dff dr act nb ri"
  have "\<exists>r. build_decoders ?build share (num_queries args)
       (Some (TransformerDecoder_init dl Nd (Some (nn_LayerNorm T [''decoder'', ''norm''] dd)) ri))
       Map.empty = Inr r"
  proof (cases share)
    case True
    then show ?thesis by (simp add: build_decoders_shared)
  next
    case False
    have "\<And>p. \<exists>d. ?build p = Inr d"
      by (rule build_decoder_layer_succeeds [OF assms])
    from build_decoders_fresh [of ?build, OF this, of "num_queries args"
        "Some (TransformerDecoder_init dl Nd (Some (nn_LayerNorm T [''decoder'', ''norm''] dd)) ri)"
        Map.empty]
    obtain dec' decoders' where "build_decoders ?build False (num_queries args)
       (Some (TransformerDecoder_init dl Nd (Some (nn_LayerNorm T [''decoder'', ''norm''] dd)) ri))
       Map.empty = Inr (dec', decoders')"
      by blast
    with False show ?thesis by simp
  qed
  then obtain r where r: "build_decoders ?build share (num_queries args)
       (Some (TransformerDecoder_init dl Nd (Some (nn_LayerNorm T [''decoder'', ''norm''] dd)) ri))
       Map.empty = Inr r" ..
  obtain dec decoders where "r = (dec, decoders)"
    by (cases r)
  with r el dl show ?thesis
    by (simp add: MTTransformer_init_def Transformer_init_def)
qed

lemma lookup_decoder_error:
  "lookup_decoder m task_type dataset_name = Inl e \<Longrightarrow> \<exists>k. e = KeyError k"
  by (auto simp: lookup_decoder_def split: option.splits)

lemma lookup_decoder_built:
  assumes init: "MTTransformer_init T args de dd nh Ne Nd dff dr act nb ri pass share = Inr m"
  shows "(registered args t d \<longrightarrow>
            (\<exists>dec. lookup_decoder m (Some t) (Some d) = Inr (Some dec)
               \<and> (share \<longrightarrow> self_decoder m = Some dec)))
       \<and> (\<not> registered args t d \<longrightarrow>
            (\<exists>k. lookup_decoder m (Some t) (Some d) = Inl (KeyError (Some k)) \<and> (k = t \<or> k = d)))"
proof -
  from init obtain dl dec decoders where
    dl: "TransformerDecoderLayer_init T [''decoder'', ''layers''] dd nh dff dr act nb = Inr dl"
    and b: "build_decoders (\<lambda>p. build_decoder_layer T p dd nh Nd dff dr act nb ri) share
       (num_queries args)
       (Some (TransformerDecoder_init dl Nd (Some (nn_LayerNorm T [''decoder'', ''norm''] dd)) ri))
       Map.empty = Inr (dec, decoders)"
    and m: "self_decoder m = dec" "self_decoders m = decoders"
    by (rule MTTransformer_init_Inr)
  let ?build = "\<lambda>p. build_decoder_layer T p dd nh Nd dff dr act nb ri"
  show ?thesis
  proof (cases share)
    case True
    let ?d0 = "TransformerDecoder_init dl Nd (Some (nn_LayerNorm T [''decoder'', ''norm''] dd)) ri"
    from b True have dec: "dec = Some ?d0"
      and decoders: "decoders = (\<lambda>t. case map_of (rev (num_queries args)) t of
                        None \<Rightarrow> None
                      | Some ds \<Rightarrow> Some (\<lambda>d. if d \<in> set (map fst ds) then Some (Some ?d0) else None))"
      by (simp_all add: build_decoders_shared)
    show ?thesis
    proof (cases "map_of (rev (num_queries args)) t")
      case None
      then show ?thesis
        by (simp add: lookup_decoder_def registered_def m decoders)
    next
      case (Some ds)
      then show ?thesis
        by (simp add: lookup_decoder_def registered_def m decoders dec)
    qed
  next
    case False
    from layer_init_activation [OF dl] obtain a where a: "get_activation_fn T act = Inr a" ..
    have "\<And>p. \<exists>d. ?build p = Inr d"
      by (rule build_decoder_layer_succeeds [OF a])
    from build_decoders_fresh [of ?build, OF this, of "num_queries args"
        "Some (TransformerDecoder_init dl Nd (Some (nn_LayerNorm T [''decoder'', ''norm''] dd)) ri)"
        Map.empty] b False
    have p: "\<forall>t. case map_of (rev (num_queries args)) t of
                     None \<Rightarrow> decoders t = None
                   | Some ds \<Rightarrow> (\<exists>td. decoders t = Some td
                        \<and> (\<forall>d. d \<in> set (map fst ds) \<longrightarrow> (\<exists>b. td d = Some (Some b)))
                        \<and> (\<forall>d. d \<notin> set (map fst ds) \<longrightarrow> td d = None))"
      by auto
    from p have pt: "case map_of (rev (num_queries args)) t of
                     None \<Rightarrow> decoders t = None
                   | Some ds \<Rightarrow> (\<exists>td. decoders t = Some td
                        \<and> (\<forall>d. d \<in> set (map fst ds) \<longrightarrow> (\<exists>b. td d = Some (Some b)))
                        \<and> (\<forall>d. d \<notin> set (map fst ds) \<longrightarrow> td d = None))" ..
    show ?thesis
    proof (cases "map_of (rev (num_queries args)) t")
      case None
      with pt have "decoders t = None" by simp
      with None m False show ?thesis
        by (simp add: lookup_decoder_def registered_def)
    next
      case (Some ds)
      with pt have "\<exists>td. decoders t = Some td
          \<and> (\<forall>d. d \<in> set (map fst ds) \<longrightarrow> (\<exists>b. td d = Some (Some b)))
          \<and> (\<forall>d. d \<notin> set (map fst ds) \<longrightarrow> td d = None)"
        by simp
      then obtain td where td: "decoders t = Some td"
        "\<forall>d. d \<in> set (map fst ds) \<longrightarrow> (\<exists>b. td d = Some (Some b))"
        "\<forall>d. d \<notin> set (map fst ds) \<longrightarrow> td d = None"
        by blast
      show ?thesis
      proof (cases "d \<in> set (map fst ds)")
        case True
        with td obtain b where "td d = Some (Some b)" by blast
        with td(1) Some True m False show ?thesis
          by (simp add: lookup_decoder_def registered_def)
      next
        case nin: False
        with td have "td d = None" by blast
        with td(1) Some nin m False show ?thesis
          by (simp add: lookup_decoder_def registered_def)
      qed
    qed
  qed
qed

lemma get_activation_fn_relu: "get_activation_fn T ''relu'' = Inr (F_relu T)"
  by (simp add: get_activation_fn_def)

lemma build_transformer_Inr:
  "\<exists>m. build_transformer T args = Inr m"
  unfolding build_transformer_def
  by (rule MTTransformer_init_succeeds [OF get_activation_fn_relu])

lemma built_fixtures:
  "build_transformer torch0 args_scenario = Inr mt_scenario"
  "build_transformer torch0 args_multi = Inr mt_multi"
  "build_transformer torch0 args_nopass = Inr mt_nopass"
  using build_transformer_Inr [of torch0 args_scenario]
    build_transformer_Inr [of torch0 args_multi]
    build_transformer_Inr [of torch0 args_nopass]
  by (auto simp: mt_scenario_def mt_multi_def mt_nopass_def)

lemma fixture_inits:
  "MTTransformer_init torch0 args_scenario 8 8 2 2 2 16 0 ''relu'' False True True True
     = Inr mt_scenario"
  "MTTransformer_init torch0 args_multi 8 8 2 2 2 16 0 ''relu'' False True True True
     = Inr mt_multi"
  "MTTransformer_init torch0 args_nopass 8 8 2 2 2 16 0 ''relu'' False True False True
     = Inr mt_nopass"
  using built_fixtures
  by (simp_all add: build_transformer_def args_scenario_def args_multi_def args_nopass_def)

lemma build_task_dict_all:
  assumes b: "\<And>p d. build p = Inr d \<Longrightarrow> P d"
    and r: "build_task_dict build share task ds decoder td = Inr (decoder', td')"
    and td: "\<forall>d dec. td d = Some (Some dec) \<longrightarrow> P dec"
    and d0: "\<forall>dec. decoder = Some dec \<longrightarrow> P dec"
  shows "(\<forall>d dec. td' d = Some (Some dec) \<longrightarrow> P dec) \<and> (\<forall>dec. decoder' = Some dec \<longrightarrow> P dec)"
  using r td d0
proof (induction ds arbitrary: decoder td)
  case Nil
  then show ?case by simp
next
  case (Cons a ds)
  obtain dataset n where a: "a = (dataset, n)" by (cases a)
  show ?case
  proof (cases share)
    case True
    with Cons.prems(1) a
    have r': "build_task_dict build share task ds decoder (td(dataset \<mapsto> decoder))
        = Inr (decoder', td')"
      by simp
    from Cons.prems(2,3)
    have "\<forall>d dec. (td(dataset \<mapsto> decoder)) d = Some (Some dec) \<longrightarrow> P dec"
      by simp
    from Cons.IH [OF r' this Cons.prems(3)] show ?thesis .
  next
    case False
    with Cons.prems(1) a obtain built where
      bl: "build [''decoders'', task, dataset] = Inr built"
      and r': "build_task_dict build share task ds None (td(dataset \<mapsto> Some built))
        = Inr (decoder', td')"
      by (auto simp: and_then_eq_Inr)
    from b [OF bl] Cons.prems(2)
    have "\<forall>d dec. (td(dataset \<mapsto> Some built)) d = Some (Some dec) \<longrightarrow> P dec"
      by simp
    from Cons.IH [OF r' this] show ?thesis by simp
  qed
qed

lemma build_decoders_all:
  assumes b: "\<And>p d. build p = Inr d \<Longrightarrow> P d"
    and r: "build_decoders build share nq decoder decoders = Inr (decoder', decoders')"
    and ds: "\<forall>t td d dec. decoders t = Some td \<and> td d = Some (Some dec) \<longrightarrow> P dec"
    and d0: "\<forall>dec. decoder = Some dec \<longrightarrow> P dec"
  shows "\<forall>t td d dec. decoders' t = Some td \<and> td d = Some (Some dec) \<longrightarrow> P dec"
  using r ds d0
proof (induction nq arbitrary: decoder decoders)
  case Nil
  then show ?case by simp
next
  case (Cons a nq)
  obtain task datasets where a: "a = (task, datasets)" by (cases a)
  from Cons.prems(1) a obtain dec1 td1 where
    t1: "build_task_dict build share task datasets decoder Map.empty = Inr (dec1, td1)"
    and r': "build_decoders build share nq dec1 (decoders(task \<mapsto> td1)) = Inr (decoder', decoders')"
    by (auto simp: and_then_eq_Inr)
  from build_task_dict_all [of build P, OF b t1 _ Cons.prems(3)]
  have p1: "\<forall>d dec. td1 d = Some (Some dec) \<longrightarrow> P dec" and p2: "\<forall>dec. dec1 = Some dec \<longrightarrow> P dec"
    by simp_all
  from p1 Cons.prems(2)
  have "\<forall>t td d dec. (decoders(task \<mapsto> td1)) t = Some td \<and> td d = Some (Some dec) \<longrightarrow> P dec"
    by auto
  from Cons.IH [OF r' this p2] show ?case .
qed

text \<open>Every decoder of the registry is built as the constructor's arguments say.\<close>

lemma lookup_decoder_props:
  assumes init: "MTTransformer_init T args de dd nh Ne Nd dff dr act nb ri pass share = Inr m"
    and look: "lookup_decoder m task_type dataset_name = Inr (Some dec)"
  shows "decoder_norm dec \<noteq> None \<and> return_intermediate dec = ri
       \<and> length (decoder_layers dec) = Nd"
proof -
  let ?P = "\<lambda>dec :: 'a TransformerDecoder. decoder_norm dec \<noteq> None
      \<and> return_intermediate dec = ri \<and> length (decoder_layers dec) = Nd"
  let ?build = "\<lambda>p. build_decoder_layer T p dd nh Nd dff dr act nb ri"
  from init obtain dl dec0 decoders where
    b: "build_decoders ?build share (num_queries args)
       (Some (TransformerDecoder_init dl Nd (Some (nn_LayerNorm T [''decoder'', ''norm''] dd)) ri))
       Map.empty = Inr (dec0, decoders)"
    and m: "self_decoders m = decoders"
    by (rule MTTransformer_init_Inr)
  have built: "\<And>p d. ?build p = Inr d \<Longrightarrow> ?P d"
    by (auto simp: build_decoder_layer_def and_then_eq_Inr TransformerDecoder_init_def
        get_clones_def)
  have "\<forall>t td d dec. decoders t = Some td \<and> td d = Some (Some dec) \<longrightarrow> ?P dec"
    by (rule build_decoders_all [of ?build ?P, OF built b])
       (simp_all add: TransformerDecoder_init_def get_clones_def)
  moreover from look m obtain t td d where "decoders t = Some td" "td d = Some (Some dec)"
    by (auto simp: lookup_decoder_def split: option.splits)
  ultimately show ?thesis by blast
qed

section \<open>Activation names\<close>

text \<open>
  Claim C8.  A name outside relu, gelu and glu makes construction fail at once with a
  \<^verbatim>\<open>RuntimeError\<close>, and a name inside binds its function.  The message names relu and
  gelu as the valid activations and leaves glu out, although glu is accepted: evaluated
  here at the name tanh.
\<close>

theorem activation_message_omits_glu:
  "get_activation_fn torch0 ''tanh''
     = Inl (RuntimeError ''activation should be relu/gelu, not tanh.'')
   \<and> MTTransformer_init torch0 args_scenario 8 8 2 2 2 16 0 ''tanh'' False True True True
     = Inl (RuntimeError ''activation should be relu/gelu, not tanh.'')
   \<and> get_activation_fn torch0 ''glu'' = Inr (F_glu torch0)"
  by (simp add: get_activation_fn_def MTTransformer_init_def Transformer_init_def
      TransformerEncoderLayer_init_def)

lemma get_activation_fn_unknown:
  "activation \<notin> {''relu'', ''gelu'', ''glu''} \<Longrightarrow>
     get_activation_fn T activation
       = Inl (RuntimeError (''activation should be relu/gelu, not '' @ activation @ ''.''))"
  by (simp add: get_activation_fn_def)

lemma construction_fails_on_unknown_activation:
  "activation \<notin> {''relu'', ''gelu'', ''glu''} \<Longrightarrow>
     MTTransformer_init T args de dd nh Ne Nd dff dr activation nb ri pass share
       = Inl (RuntimeError (''activation should be relu/gelu, not '' @ activation @ ''.''))"
  by (simp add: get_activation_fn_unknown MTTransformer_init_def Transformer_init_def
      TransformerEncoderLayer_init_def)

lemma get_activation_fn_known:
  "get_activation_fn T ''relu'' = Inr (F_relu T)"
  "get_activation_fn T ''gelu'' = Inr (F_gelu T)"
  "get_activation_fn T ''glu'' = Inr (F_glu T)"
  by (simp_all add: get_activation_fn_def)

section \<open>Failures\<close>

lemma forward_streams_absent:
  "forward_streams T self None img_mask img_pos None text_mask text_pos query_embed task_idx
     = Inr \<lparr> loc_memories = [], loc_pos_embeds = [], loc_masks = [],
             loc_query_embed = query_embed, loc_tgt = None \<rparr>"
  by (simp add: forward_streams_def)

text \<open>
  Claim C9.  With neither an image nor a text input the call fails: with the registry's
  \<^verbatim>\<open>KeyError\<close> when the pair is not registered, and otherwise with the error
  \<^verbatim>\<open>torch.cat\<close> raises on the empty list of memories.  It never returns a result.
\<close>

theorem forward_without_inputs_fails:
  fixes T :: "'a::{zero,plus,times} torch"
  shows "MTTransformer_forward T self None img_mask img_pos None text_mask text_pos query_embed
           task_type dataset_name task_idx
         = (case lookup_decoder self task_type dataset_name of
              Inl e \<Rightarrow> Inl e
            | Inr decoder \<Rightarrow>
                Inl (RuntimeError ''torch.cat(): expected a non-empty list of Tensors''))
       \<and> (\<exists>e. MTTransformer_forward T self None img_mask img_pos None text_mask text_pos
                 query_embed task_type dataset_name task_idx = Inl e
              \<and> (e = RuntimeError ''torch.cat(): expected a non-empty list of Tensors''
                   \<or> (\<exists>k. e = KeyError k)))"
proof (cases "lookup_decoder self task_type dataset_name")
  case (Inl e)
  moreover from Inl obtain k where "e = KeyError k"
    using lookup_decoder_error by blast
  ultimately show ?thesis
    by (simp add: MTTransformer_forward_def MTTransformer_forward_fuse_def forward_streams_absent)
next
  case (Inr decoder)
  then show ?thesis
    by (simp add: MTTransformer_forward_def MTTransformer_forward_fuse_def forward_streams_absent
        torch_cat_def)
qed

theorem forward_without_inputs_fails_witness:
  "MTTransformer_forward torch0 mt_scenario None None None None None None (Some (ones [5, 8]))
     (Some ''detection'') (Some ''coco'') None
   = Inl (RuntimeError ''torch.cat(): expected a non-empty list of Tensors'')"
proof -
  from lookup_decoder_built [OF fixture_inits(1), of "''detection''" "''coco''"]
  obtain dec where "lookup_decoder mt_scenario (Some ''detection'') (Some ''coco'') = Inr (Some dec)"
    by (auto simp: registered_def args_scenario_def)
  with forward_without_inputs_fails [of torch0 mt_scenario None None None None
      "Some (ones [5, 8])" "Some ''detection''" "Some ''coco''" None]
  show ?thesis by simp
qed

lemma forward_after_failed_lookup:
  fixes T :: "'a::{zero,plus,times} torch"
  assumes "lookup_decoder self task_type dataset_name = Inl e"
  shows "MTTransformer_forward T self img_src img_mask img_pos text_src text_mask text_pos
           query_embed task_type dataset_name task_idx
         = and_then
             (forward_streams T self img_src img_mask img_pos text_src text_mask text_pos
                query_embed task_idx) (\<lambda>loc. Inl e)"
  using assms
  by (cases "forward_streams T self img_src img_mask img_pos text_src text_mask text_pos
                query_embed task_idx")
     (simp_all add: MTTransformer_forward_def MTTransformer_forward_fuse_def)

lemma forward_image_keeps_query:
  assumes "forward_image T m img img_mask img_pos False task_idx loc = Inr loc'"
  shows "loc_query_embed loc' = loc_query_embed loc"
  using assms
  by (auto simp: forward_image_def forward_image_inputs_def and_then_eq_Inr)

lemma forward_streams_text_without_pass:
  fixes T :: "'a::{zero,plus,times} torch"
  assumes "\<not> self_pass_pos_and_query m"
  shows "forward_streams T m img_src img_mask img_pos (Some tx) text_mask text_pos query_embed
           task_idx \<noteq> Inr loc"
  using assms forward_text_never_returns [of m tx text_mask text_pos task_idx]
  by (auto simp: forward_streams_def and_then_eq_Inr)

lemma forward_text_without_pass:
  fixes T :: "'a::{zero,plus,times} torch"
  assumes "\<not> self_pass_pos_and_query m"
  shows "MTTransformer_forward T m img_src img_mask img_pos (Some tx) text_mask text_pos
           query_embed task_type dataset_name task_idx \<noteq> Inr r"
  using forward_streams_text_without_pass [OF assms]
  by (auto simp: MTTransformer_forward_def MTTransformer_forward_fuse_def and_then_eq_Inr)

lemma forward_streams_not_implemented:
  fixes T :: "'a::{zero,plus,times} torch"
  assumes wb: "well_built m d_enc d"
    and idx: "use_task_embedding_in_decoder (self_args m) \<longrightarrow> task_idx_in_range task_idx"
    and pass: "\<not> self_pass_pos_and_query m"
    and tx: "shape tx = [bs, Lt, c]"
    and tp: "shape tp = [Lp, cp]"
    and q: "shape qe = [Q, d]"
    and img: "img_src = None \<or>
       (\<exists>img loc. img_src = Some img
          \<and> forward_image T m img img_mask img_pos False task_idx
               \<lparr> loc_memories = [], loc_pos_embeds = [], loc_masks = [],
                 loc_query_embed = Some qe, loc_tgt = None \<rparr> = Inr loc)"
  shows "forward_streams T m img_src img_mask img_pos (Some tx) text_mask (Some tp) (Some qe)
           task_idx = Inl NotImplementedError"
proof -
  let ?loc0 = "\<lparr> loc_memories = [], loc_pos_embeds = [], loc_masks = [],
                 loc_query_embed = Some qe, loc_tgt = None \<rparr> :: 'a locals"
  from img show ?thesis
  proof
    assume "img_src = None"
    moreover have "forward_text m tx text_mask (Some tp) task_idx ?loc0 = Inl NotImplementedError"
      by (rule forward_text_not_implemented [OF wb idx pass tx tp _ q]) simp
    ultimately show ?thesis by (simp add: forward_streams_def)
  next
    assume "\<exists>img loc. img_src = Some img
          \<and> forward_image T m img img_mask img_pos False task_idx ?loc0 = Inr loc"
    then obtain img loc where i: "img_src = Some img"
      and l: "forward_image T m img img_mask img_pos False task_idx ?loc0 = Inr loc"
      by blast
    from forward_image_keeps_query [OF l] have "loc_query_embed loc = Some qe" by simp
    from forward_text_not_implemented [OF wb idx pass tx tp this q]
    have "forward_text m tx text_mask (Some tp) task_idx loc = Inl NotImplementedError" .
    with i l show ?thesis by (simp add: forward_streams_def)
  qed
qed

text \<open>
  Claim C7.  In a model constructed with \<^verbatim>\<open>pass_pos_and_query\<close> unset, a forward call
  with a text input and no image input never returns a result, and it raises
  \<^verbatim>\<open>NotImplementedError\<close> when the text input is well formed: the text of three
  dimensions, its positional embedding and the queries of two, the queries of the
  decoder's width, and the task index inside the embedding table when the decoder-side task
  embedding is in use.
\<close>

theorem text_only_without_pass_not_implemented:
  fixes T :: "'a::{zero,plus,times} torch"
  assumes init: "MTTransformer_init T args de dd nh Ne Nd dff dr act nb ri False share = Inr self"
  shows "(\<forall>r. MTTransformer_forward T self None img_mask img_pos (Some text_src) text_mask
                text_pos query_embed task_type dataset_name task_idx \<noteq> Inr r)
       \<and> (shape text_src = [bs, Lt, c]
            \<and> (\<exists>tp Lp cp. text_pos = Some tp \<and> shape tp = [Lp, cp])
            \<and> (\<exists>qe Q. query_embed = Some qe \<and> shape qe = [Q, dd])
            \<and> (use_task_embedding_in_decoder args \<longrightarrow> task_idx_in_range task_idx)
          \<longrightarrow> MTTransformer_forward T self None img_mask img_pos (Some text_src) text_mask
                text_pos query_embed task_type dataset_name task_idx
              = Inl NotImplementedError)"
proof (intro conjI allI impI)
  from init have a: "self_args self = args" and p: "\<not> self_pass_pos_and_query self"
    and wb: "well_built self de dd"
    by (auto elim: MTTransformer_init_Inr)
  fix r
  show "MTTransformer_forward T self None img_mask img_pos (Some text_src) text_mask
          text_pos query_embed task_type dataset_name task_idx \<noteq> Inr r"
    by (rule forward_text_without_pass [OF p])
next
  from init have a: "self_args self = args" and p: "\<not> self_pass_pos_and_query self"
    and wb: "well_built self de dd"
    by (auto elim: MTTransformer_init_Inr)
  assume h: "shape text_src = [bs, Lt, c]
            \<and> (\<exists>tp Lp cp. text_pos = Some tp \<and> shape tp = [Lp, cp])
            \<and> (\<exists>qe Q. query_embed = Some qe \<and> shape qe = [Q, dd])
            \<and> (use_task_embedding_in_decoder args \<longrightarrow> task_idx_in_range task_idx)"
  then obtain tp Lp cp qe Q where tp: "text_pos = Some tp" "shape tp = [Lp, cp]"
    and qe: "query_embed = Some qe" "shape qe = [Q, dd]"
    by blast
  from h a have idx: "use_task_embedding_in_decoder (self_args self) \<longrightarrow> task_idx_in_range task_idx"
    by simp
  from h have tx: "shape text_src = [bs, Lt, c]" by simp
  have "forward_streams T self None img_mask img_pos (Some text_src) text_mask (Some tp) (Some qe)
           task_idx = Inl NotImplementedError"
    by (rule forward_streams_not_implemented [OF wb idx p tx tp(2) qe(2)]) simp
  with tp qe show "MTTransformer_forward T self None img_mask img_pos (Some text_src) text_mask
                text_pos query_embed task_type dataset_name task_idx = Inl NotImplementedError"
    by (simp add: MTTransformer_forward_def MTTransformer_forward_fuse_def)
qed

theorem text_only_without_pass_not_implemented_witness:
  "MTTransformer_forward torch0 mt_nopass None None None (Some (ones [1, 3, 8]))
     (Some (ones [1, 3])) (Some (ones [3, 8])) (Some (ones [5, 8]))
     (Some ''detection'') (Some ''coco'') None
   = Inl NotImplementedError"
proof -
  have "shape (ones [1, 3, 8]) = [1, 3, 8]
      \<and> (\<exists>tp Lp cp. Some (ones [3, 8]) = Some tp \<and> shape tp = [Lp, cp])
      \<and> (\<exists>qe Q. Some (ones [5, 8]) = Some qe \<and> shape qe = [Q, 8])
      \<and> (use_task_embedding_in_decoder args_nopass \<longrightarrow> task_idx_in_range None)"
    by (simp add: ones_def args_nopass_def args_scenario_def)
  with text_only_without_pass_not_implemented [OF fixture_inits(3), THEN conjunct2,
      of "ones [1, 3, 8]" 1 3 8 "Some (ones [3, 8])" "Some (ones [5, 8])" None]
  show ?thesis by blast
qed

text \<open>
  Claim C6, amended.  In a constructed model the lookup of a pair that is not registered
  raises \<^verbatim>\<open>KeyError\<close> for the task or the dataset, and no other decoder is taken in its
  place.  The forward call then fails: with that \<^verbatim>\<open>KeyError\<close> when the two branches that
  come before the lookup complete, and with the branches' own error otherwise.  The lookup
  of a registered pair succeeds.
\<close>

theorem unregistered_pair_fails:
  fixes T :: "'a::{zero,plus,times} torch"
  assumes init: "MTTransformer_init T args de dd nh Ne Nd dff dr act nb ri pass share = Inr self"
  shows "(\<not> registered args task dataset \<longrightarrow>
            (\<exists>k. lookup_decoder self (Some task) (Some dataset) = Inl (KeyError (Some k))
               \<and> (k = task \<or> k = dataset)
               \<and> MTTransformer_forward T self img_src img_mask img_pos text_src text_mask
                    text_pos query_embed (Some task) (Some dataset) task_idx
                  = and_then
                      (forward_streams T self img_src img_mask img_pos text_src text_mask
                         text_pos query_embed task_idx)
                      (\<lambda>loc. Inl (KeyError (Some k)))))
       \<and> (registered args task dataset \<longrightarrow>
            (\<exists>decoder. lookup_decoder self (Some task) (Some dataset) = Inr (Some decoder)))"
proof (intro conjI impI)
  assume "\<not> registered args task dataset"
  with lookup_decoder_built [OF init, of task dataset]
  obtain k where k: "lookup_decoder self (Some task) (Some dataset) = Inl (KeyError (Some k))"
    "k = task \<or> k = dataset"
    by blast
  from forward_after_failed_lookup [OF k(1)] k
  show "\<exists>k. lookup_decoder self (Some task) (Some dataset) = Inl (KeyError (Some k))
               \<and> (k = task \<or> k = dataset)
               \<and> MTTransformer_forward T self img_src img_mask img_pos text_src text_mask
                    text_pos query_embed (Some task) (Some dataset) task_idx
                  = and_then
                      (forward_streams T self img_src img_mask img_pos text_src text_mask
                         text_pos query_embed task_idx)
                      (\<lambda>loc. Inl (KeyError (Some k)))"
    by blast
next
  assume "registered args task dataset"
  with lookup_decoder_built [OF init, of task dataset]
  show "\<exists>decoder. lookup_decoder self (Some task) (Some dataset) = Inr (Some decoder)"
    by blast
qed

theorem unregistered_pair_fails_witness:
  "\<exists>k. MTTransformer_forward torch0 mt_scenario None None None None None None None
          (Some ''vqa'') (Some ''coco'') None = Inl (KeyError (Some k))
      \<and> lookup_decoder mt_scenario (Some ''vqa'') (Some ''coco'') = Inl (KeyError (Some k))"
proof -
  have "\<not> registered args_scenario ''vqa'' ''coco''"
    by (simp add: registered_def args_scenario_def)
  with unregistered_pair_fails [OF fixture_inits(1), THEN conjunct1, of "''vqa''" "''coco''"
      None None None None None None None None]
  show ?thesis
    by (auto simp: forward_streams_absent)
qed

theorem unregistered_pair_not_implemented_counterexample:
  "MTTransformer_forward torch0 mt_nopass None None None (Some (ones [1, 3, 8]))
     (Some (ones [1, 3])) (Some (ones [3, 8])) (Some (ones [5, 8]))
     (Some ''vqa'') (Some ''vqa2'') None
   = Inl NotImplementedError
   \<and> \<not> registered args_nopass ''vqa'' ''vqa2''"
proof -
  from fixture_inits(3) have a: "self_args mt_nopass = args_nopass"
    and p: "\<not> self_pass_pos_and_query mt_nopass"
    and wb: "well_built mt_nopass 8 8"
    by (auto elim: MTTransformer_init_Inr)
  have idx: "use_task_embedding_in_decoder (self_args mt_nopass) \<longrightarrow> task_idx_in_range None"
    by (simp add: a args_nopass_def args_scenario_def)
  have "forward_streams torch0 mt_nopass None None None (Some (ones [1, 3, 8]))
     (Some (ones [1, 3])) (Some (ones [3, 8])) (Some (ones [5, 8])) None
     = Inl NotImplementedError"
    by (rule forward_streams_not_implemented [OF wb idx p, of _ 1 3 8 _ 3 8 _ 5])
       (simp_all add: ones_def)
  then have "MTTransformer_forward torch0 mt_nopass None None None (Some (ones [1, 3, 8]))
     (Some (ones [1, 3])) (Some (ones [3, 8])) (Some (ones [5, 8]))
     (Some ''vqa'') (Some ''vqa2'') None = Inl NotImplementedError"
    by (simp add: MTTransformer_forward_def MTTransformer_forward_fuse_def)
  moreover have "\<not> registered args_nopass ''vqa'' ''vqa2''"
    by (simp add: registered_def args_nopass_def args_scenario_def)
  ultimately show ?thesis by simp
qed

text \<open>
  Claim C10.  In a model constructed with \<^verbatim>\<open>pass_pos_and_query\<close> unset, a forward call
  with a text input never returns a result, with or without an image input; and it raises
  \<^verbatim>\<open>NotImplementedError\<close> when the text input is well formed and the image branch, if
  there is an image, completes.
\<close>

theorem text_without_pass_not_implemented:
  fixes T :: "'a::{zero,plus,times} torch"
  assumes init: "MTTransformer_init T args de dd nh Ne Nd dff dr act nb ri False share = Inr self"
  shows "(\<forall>r. MTTransformer_forward T self img_src img_mask img_pos (Some text_src) text_mask
                text_pos query_embed task_type dataset_name task_idx \<noteq> Inr r)
       \<and> (shape text_src = [bs, Lt, c]
            \<and> (\<exists>tp Lp cp. text_pos = Some tp \<and> shape tp = [Lp, cp])
            \<and> (\<exists>qe Q. query_embed = Some qe \<and> shape qe = [Q, dd])
            \<and> (use_task_embedding_in_decoder args \<longrightarrow> task_idx_in_range task_idx)
            \<and> (img_src = None \<or>
                 (\<exists>img loc. img_src = Some img
                    \<and> forward_image T self img img_mask img_pos False task_idx
                         \<lparr> loc_memories = [], loc_pos_embeds = [], loc_masks = [],
                           loc_query_embed = query_embed, loc_tgt = None \<rparr> = Inr loc))
          \<longrightarrow> MTTransformer_forward T self img_src img_mask img_pos (Some text_src) text_mask
                text_pos query_embed task_type dataset_name task_idx
              = Inl NotImplementedError)"
proof (intro conjI allI impI)
  from init have p: "\<not> self_pass_pos_and_query self"
    by (auto elim: MTTransformer_init_Inr)
  fix r
  show "MTTransformer_forward T self img_src img_mask img_pos (Some text_src) text_mask
          text_pos query_embed task_type dataset_name task_idx \<noteq> Inr r"
    by (rule forward_text_without_pass [OF p])
next
  from init have a: "self_args self = args" and p: "\<not> self_pass_pos_and_query self"
    and wb: "well_built self de dd"
    by (auto elim: MTTransformer_init_Inr)
  assume h: "shape text_src = [bs, Lt, c]
            \<and> (\<exists>tp Lp cp. text_pos = Some tp \<and> shape tp = [Lp, cp])
            \<and> (\<exists>qe Q. query_embed = Some qe \<and> shape qe = [Q, dd])
            \<and> (use_task_embedding_in_decoder args \<longrightarrow> task_idx_in_range task_idx)
            \<and> (img_src = None \<or>
                 (\<exists>img loc. img_src = Some img
                    \<and> forward_image T self img img_mask img_pos False task_idx
                         \<lparr> loc_memories = [], loc_pos_embeds = [], loc_masks = [],
                           loc_query_embed = query_embed, loc_tgt = None \<rparr> = Inr loc))"
  then obtain tp Lp cp qe Q where tp: "text_pos = Some tp" "shape tp = [Lp, cp]"
    and qe: "query_embed = Some qe" "shape qe = [Q, dd]"
    by blast
  from h a have idx: "use_task_embedding_in_decoder (self_args self) \<longrightarrow> task_idx_in_range task_idx"
    by simp
  from h have tx: "shape text_src = [bs, Lt, c]" by simp
  from h qe have img: "img_src = None \<or>
       (\<exists>img loc. img_src = Some img
          \<and> forward_image T self img img_mask img_pos False task_idx
               \<lparr> loc_memories = [], loc_pos_embeds = [], loc_masks = [],
                 loc_query_embed = Some qe, loc_tgt = None \<rparr> = Inr loc)"
    by simp
  from forward_streams_not_implemented [OF wb idx p tx tp(2) qe(2) img]
  have "forward_streams T self img_src img_mask img_pos (Some text_src) text_mask (Some tp)
          (Some qe) task_idx = Inl NotImplementedError" .
  with tp qe show "MTTransformer_forward T self img_src img_mask img_pos (Some text_src) text_mask
                text_pos query_embed task_type dataset_name task_idx = Inl NotImplementedError"
    by (simp add: MTTransformer_forward_def MTTransformer_forward_fuse_def)
qed

section \<open>Shared decoders\<close>

text \<open>
  Claim C5.  In a model constructed with \<^verbatim>\<open>share_decoders\<close> set, every registered pair
  is looked up to the one decoder \<^verbatim>\<open>self.decoder\<close>, and two forward calls that differ
  in nothing but the registered pair they name have the same result.
\<close>

theorem shared_decoders_same_output:
  fixes T :: "'a::{zero,plus,times} torch"
  assumes init: "MTTransformer_init T args de dd nh Ne Nd dff dr act nb ri pass True = Inr self"
    and r1: "registered args task1 dataset1"
    and r2: "registered args task2 dataset2"
  shows "self_decoder self \<noteq> None
       \<and> lookup_decoder self (Some task1) (Some dataset1) = Inr (self_decoder self)
       \<and> lookup_decoder self (Some task2) (Some dataset2) = Inr (self_decoder self)
       \<and> MTTransformer_forward T self img_src img_mask img_pos text_src text_mask text_pos
            query_embed (Some task1) (Some dataset1) task_idx
          = MTTransformer_forward T self img_src img_mask img_pos text_src text_mask text_pos
              query_embed (Some task2) (Some dataset2) task_idx"
proof -
  from lookup_decoder_built [OF init, of task1 dataset1] r1
  have l1: "lookup_decoder self (Some task1) (Some dataset1) = Inr (self_decoder self)"
    and ne: "self_decoder self \<noteq> None"
    by auto
  from lookup_decoder_built [OF init, of task2 dataset2] r2
  have l2: "lookup_decoder self (Some task2) (Some dataset2) = Inr (self_decoder self)"
    by auto
  have "MTTransformer_forward_fuse T self img_src img_mask img_pos text_src text_mask text_pos
            query_embed (Some task1) (Some dataset1) task_idx
      = MTTransformer_forward_fuse T self img_src img_mask img_pos text_src text_mask text_pos
            query_embed (Some task2) (Some dataset2) task_idx"
    by (simp only: MTTransformer_forward_fuse_def l1 l2)
  then have "MTTransformer_forward T self img_src img_mask img_pos text_src text_mask text_pos
            query_embed (Some task1) (Some dataset1) task_idx
          = MTTransformer_forward T self img_src img_mask img_pos text_src text_mask text_pos
              query_embed (Some task2) (Some dataset2) task_idx"
    by (simp only: MTTransformer_forward_def)
  with l1 l2 ne show ?thesis by simp
qed

theorem shared_decoders_same_output_witness:
  "MTTransformer_forward torch0 mt_multi (Some (ones [1, 8, 2, 2])) (Some (Tensor [1, 2, 2] (\<lambda>idx. False)))
       (Some (ones [1, 8, 2, 2])) None None None (Some (ones [5, 8]))
       (Some ''detection'') (Some ''visual_genome'') (Some 3)
   = MTTransformer_forward torch0 mt_multi (Some (ones [1, 8, 2, 2])) (Some (Tensor [1, 2, 2] (\<lambda>idx. False)))
       (Some (ones [1, 8, 2, 2])) None None None (Some (ones [5, 8]))
       (Some ''vqa'') (Some ''vqa2'') (Some 3)"
proof -
  have "registered args_multi ''detection'' ''visual_genome''"
    and "registered args_multi ''vqa'' ''vqa2''"
    by (simp_all add: registered_def args_multi_def args_scenario_def)
  from shared_decoders_same_output [OF fixture_inits(2) this]
  show ?thesis by blast
qed

section \<open>Shapes and contents through the forward call\<close>

lemma broadcast_index_inside:
  "l < L \<Longrightarrow> n < bs \<Longrightarrow> k < c \<Longrightarrow> broadcast_index [L, bs, c] [l, n, k] = [l, n, k]"
  by (auto simp: broadcast_index_def)

lemma flatten_permute_image:
  assumes "shape x = [bs, c, h, w]"
  shows "\<exists>y. and_then (t_flatten 2 x) (t_permute [2, 0, 1]) = Inr y \<and> shape y = [h * w, bs, c]
           \<and> (\<forall>l n k. elem y [l, n, k] = elem x [n, k, l div w, l mod w])"
  using assms by (simp add: t_flatten_2 t_permute_201)

lemma flatten_mask:
  assumes "shape mk = [bs, h, w]"
  shows "\<exists>y. t_flatten 1 mk = Inr y \<and> shape y = [bs, h * w]
           \<and> (\<forall>n l. elem y [n, l] = elem mk [n, l div w, l mod w])"
  using assms by (simp add: t_flatten_1)

lemma forward_image_inputs_shapes:
  fixes T :: "'a::{zero,plus,times} torch"
  assumes wb: "well_built m c d"
    and idx: "use_task_embedding_in_encoder (self_args m) \<longrightarrow> task_idx_in_range task_idx"
    and x: "shape x = [bs, c, h, w]"
    and p: "shape p = [bs, c, h, w]"
    and mk: "shape mk = [bs, h, w]"
    and pos: "0 < h * w"
    and q: "text_absent \<longrightarrow> self_pass_pos_and_query m
              \<and> (use_task_embedding_in_decoder (self_args m) \<longrightarrow> task_idx_in_range task_idx)
              \<and> loc_query_embed loc = Some qe \<and> shape qe = [Q, d]"
  shows "\<exists>x' mk' p' tgt qe'.
           forward_image_inputs T m x (Some mk) (Some p) text_absent task_idx loc
             = Inr (x', mk', Some p', tgt, qe')
         \<and> shape x' = [h * w + enc_prefix m, bs, c]
         \<and> shape mk' = [bs, h * w + enc_prefix m]
         \<and> shape p' = [h * w + enc_prefix m, bs, c]
         \<and> (\<forall>n l. elem mk' [n, l + enc_prefix m] = elem mk [n, l div w, l mod w])
         \<and> (\<forall>l n k. elem x' [l + enc_prefix m, n, k] = elem x [n, k, l div w, l mod w])
         \<and> (use_task_embedding_in_encoder (self_args m) \<longrightarrow>
               task_row (self_task_embeddings_enc m) task_idx c x'
             \<and> (\<forall>n. \<not> elem mk' [n, 0]))
         \<and> (text_absent \<longrightarrow>
               (\<exists>q'. qe' = Some q' \<and> tgt = Some (torch_zeros_like q')
                  \<and> shape q' = [Q + dec_prefix m, bs, d]
                  \<and> (\<forall>j n k. j < Q \<and> k < d \<longrightarrow>
                        elem q' [j + dec_prefix m, n, k] = elem qe [j, k])
                  \<and> (use_task_embedding_in_decoder (self_args m) \<longrightarrow>
                        task_row (self_task_embeddings_dec m) task_idx d q')))
         \<and> (\<not> text_absent \<longrightarrow> qe' = loc_query_embed loc \<and> tgt = loc_tgt loc)"
proof -
  from flatten_permute_image [OF x]
  obtain x1 where x1: "and_then (t_flatten 2 x) (t_permute [2, 0, 1]) = Inr x1"
    "shape x1 = [h * w, bs, c]"
    "\<forall>l n k. elem x1 [l, n, k] = elem x [n, k, l div w, l mod w]" by blast
  from flatten_permute_image [OF p]
  obtain p1 where p1: "and_then (t_flatten 2 p) (t_permute [2, 0, 1]) = Inr p1"
    "shape p1 = [h * w, bs, c]" by blast
  from flatten_mask [OF mk]
  obtain mk1 where mk1: "t_flatten 1 mk = Inr mk1" "shape mk1 = [bs, h * w]"
    "\<forall>n l. elem mk1 [n, l] = elem mk [n, l div w, l mod w]" by blast
  from prefix_encoder_shape [OF wb idx x1(2) mk1(2) p1(2) pos]
  obtain x' mk' p' where pre:
    "prefix_task_embedding_to_encoder_inputs m x1 mk1 (Some p1) task_idx = Inr (x', mk', Some p')"
    "shape x' = [h * w + enc_prefix m, bs, c]"
    "shape mk' = [bs, h * w + enc_prefix m]"
    "shape p' = [h * w + enc_prefix m, bs, c]"
    "\<forall>n l. elem mk' [n, l + enc_prefix m] = elem mk1 [n, l]"
    "\<forall>l n k. elem x' [l + enc_prefix m, n, k] = elem x1 [l, n, k]"
    "use_task_embedding_in_encoder (self_args m) \<longrightarrow>
       task_row (self_task_embeddings_enc m) task_idx c x' \<and> (\<forall>n. \<not> elem mk' [n, 0])"
    by blast
  show ?thesis
  proof (cases text_absent)
    case False
    with x x1 p1 mk1 pre show ?thesis
      by (simp add: forward_image_inputs_def unpack4_shape need_def)
  next
    case True
    with q have pass: "self_pass_pos_and_query m"
      and idx_d: "use_task_embedding_in_decoder (self_args m) \<longrightarrow> task_idx_in_range task_idx"
      and qe: "loc_query_embed loc = Some qe" "shape qe = [Q, d]"
      by simp_all
    from unsqueeze_repeat [OF qe(2), of bs]
    obtain q1 where q1: "and_then (t_unsqueeze (Suc 0) qe) (t_repeat [Suc 0, bs, Suc 0]) = Inr q1"
      "shape q1 = [Q, bs, d]"
      "\<forall>j i k. j < Q \<and> k < d \<longrightarrow> elem q1 [j, i, k] = elem qe [j, k]" by blast
    from prefix_query_shape [OF wb idx_d q1(2)]
    obtain q2 where q2: "prefix_task_embedding_to_query_embed m q1 task_idx = Inr q2"
      "shape q2 = [Q + dec_prefix m, bs, d]"
      "\<forall>j n k. elem q2 [j + dec_prefix m, n, k] = elem q1 [j, n, k]"
      "use_task_embedding_in_decoder (self_args m) \<longrightarrow>
         task_row (self_task_embeddings_dec m) task_idx d q2" by blast
    from True pass x x1 p1 mk1 pre qe q1 q2 show ?thesis
      by (simp add: forward_image_inputs_def unpack4_shape need_def)
  qed
qed

lemma forward_image_memory_shapes:
  fixes m :: "'a::{zero,plus,times} MTTransformer"
  assumes wb: "well_built m c d"
    and x: "shape x' = [L + enc_prefix m, bs, c]"
    and mk: "shape mk' = [bs, L + enc_prefix m]"
    and p: "shape p' = [L + enc_prefix m, bs, c]"
    and mem: "shape memory = [L + enc_prefix m, bs, c]"
    and proj1: "maps_shape (proj_forward (self_enc2dec_proj m)) [L, bs, c] [L, bs, d]"
    and proj2: "maps_shape (proj_forward (self_pos_embed_proj m)) [L, bs, c] [L, bs, d]"
  shows "\<exists>mem pe fm m0. forward_image_memory m x' mk' (Some p') memory = Inr (mem, Some pe, fm)
           \<and> shape mem = [L, bs, d] \<and> shape pe = [L, bs, d] \<and> shape fm = [bs, L]
           \<and> (\<forall>n l. elem fm [n, l] = elem mk' [n, l + enc_prefix m])
           \<and> proj_forward (self_enc2dec_proj m) m0 = Inr mem
           \<and> shape m0 = [L, bs, c]
           \<and> (\<forall>l n k. l < L \<and> n < bs \<and> k < c \<longrightarrow>
                 elem m0 [l, n, k]
                   = (if residual_in_encoder (self_args m)
                      then elem x' [l + enc_prefix m, n, k] + elem memory [l + enc_prefix m, n, k]
                      else elem memory [l + enc_prefix m, n, k]))"
proof -
  let ?k = "self_mem_out_begin_idx m"
  have "\<exists>xs ps ms mems.
      (if ?k \<noteq> 0
        then
          and_then (t_slice 1 0 ?k None x') (\<lambda>img_src.
          and_then (subscript_opt (t_slice 1 0 ?k None) (Some p'))
            (\<lambda>img_pos.
          and_then (t_slice 2 1 ?k None mk') (\<lambda>img_mask.
          and_then (t_slice 1 0 ?k None memory) (\<lambda>memory.
          Inr (img_src, Some img_pos, img_mask, memory)))))
        else Inr (x', Some p', mk', memory)) = Inr (xs, Some ps, ms, mems)
      \<and> shape xs = [L, bs, c] \<and> shape ps = [L, bs, c] \<and> shape ms = [bs, L]
      \<and> shape mems = [L, bs, c]
      \<and> (\<forall>n l. elem ms [n, l] = elem mk' [n, l + enc_prefix m])
      \<and> (\<forall>l n k. elem xs [l, n, k] = elem x' [l + enc_prefix m, n, k])
      \<and> (\<forall>l n k. elem mems [l, n, k] = elem memory [l + enc_prefix m, n, k])"
  proof (cases "use_task_embedding_in_encoder (self_args m)")
    case True
    with wb have k: "?k = 1" by (simp add: well_built_def)
    from True x mk p mem show ?thesis
      by (simp add: k enc_prefix_def subscript_opt_def t_slice_rows t_slice_cols)
  next
    case False
    with wb have k: "?k = 0" by (simp add: well_built_def)
    from False x mk p mem show ?thesis
      by (simp add: k enc_prefix_def)
  qed
  then obtain xs ps ms mems where strip:
      "(if ?k \<noteq> 0
        then
          and_then (t_slice 1 0 ?k None x') (\<lambda>img_src.
          and_then (subscript_opt (t_slice 1 0 ?k None) (Some p'))
            (\<lambda>img_pos.
          and_then (t_slice 2 1 ?k None mk') (\<lambda>img_mask.
          and_then (t_slice 1 0 ?k None memory) (\<lambda>memory.
          Inr (img_src, Some img_pos, img_mask, memory)))))
        else Inr (x', Some p', mk', memory)) = Inr (xs, Some ps, ms, mems)"
    and sh: "shape xs = [L, bs, c]" "shape ps = [L, bs, c]" "shape ms = [bs, L]"
      "shape mems = [L, bs, c]"
    and el: "\<forall>n l. elem ms [n, l] = elem mk' [n, l + enc_prefix m]"
    and ex: "\<forall>l n k. elem xs [l, n, k] = elem x' [l + enc_prefix m, n, k]"
    and em: "\<forall>l n k. elem mems [l, n, k] = elem memory [l + enc_prefix m, n, k]"
    by blast
  have "\<exists>mem1. (if residual_in_encoder (self_args m) then t_add xs mems else Inr mems) = Inr mem1
      \<and> shape mem1 = [L, bs, c]
      \<and> (\<forall>l n k. l < L \<and> n < bs \<and> k < c \<longrightarrow>
            elem mem1 [l, n, k]
              = (if residual_in_encoder (self_args m)
                 then elem xs [l, n, k] + elem mems [l, n, k]
                 else elem mems [l, n, k]))"
    using sh by (simp add: t_add_same broadcast_index_inside)
  then obtain mem1 where res:
    "(if residual_in_encoder (self_args m) then t_add xs mems else Inr mems) = Inr mem1"
    and mem1: "shape mem1 = [L, bs, c]"
    and e1: "\<forall>l n k. l < L \<and> n < bs \<and> k < c \<longrightarrow>
            elem mem1 [l, n, k]
              = (if residual_in_encoder (self_args m)
                 then elem xs [l, n, k] + elem mems [l, n, k]
                 else elem mems [l, n, k])"
    by blast
  from proj1 mem1 obtain mem2 where mem2: "proj_forward (self_enc2dec_proj m) mem1 = Inr mem2"
    "shape mem2 = [L, bs, d]"
    by (auto simp: maps_shape_def)
  from proj2 sh(2) obtain pe where pe: "proj_forward (self_pos_embed_proj m) ps = Inr pe"
    "shape pe = [L, bs, d]"
    by (auto simp: maps_shape_def)
  have fim: "forward_image_memory m x' mk' (Some p') memory = Inr (mem2, Some pe, ms)"
    unfolding forward_image_memory_def strip
    by (simp add: res mem2 pe)
  from e1 ex em have e2: "\<forall>l n k. l < L \<and> n < bs \<and> k < c \<longrightarrow>
                 elem mem1 [l, n, k]
                   = (if residual_in_encoder (self_args m)
                      then elem x' [l + enc_prefix m, n, k] + elem memory [l + enc_prefix m, n, k]
                      else elem memory [l + enc_prefix m, n, k])"
    by simp
  from fim mem2 pe sh(3) el mem1 e2 show ?thesis by blast
qed

text \<open>
  The image branch, with what it computes on the way: the sequence \<open>x'\<close> given to the
  encoder, the encoder's output \<open>eo\<close>, and the tensor \<open>m0\<close> given to the projection, whose
  result is the branch's memory.
\<close>

lemma forward_image_parts:
  fixes T :: "'a::{zero,plus,times} torch"
  assumes wb: "well_built m c d"
    and idx: "use_task_embedding_in_encoder (self_args m) \<longrightarrow> task_idx_in_range task_idx"
    and x: "shape x = [bs, c, h, w]"
    and p: "shape p = [bs, c, h, w]"
    and mk: "shape mk = [bs, h, w]"
    and pos: "0 < h * w"
    and q: "text_absent \<longrightarrow> self_pass_pos_and_query m
              \<and> (use_task_embedding_in_decoder (self_args m) \<longrightarrow> task_idx_in_range task_idx)
              \<and> loc_query_embed loc = Some qe \<and> shape qe = [Q, d]"
    and enc: "encoder_keeps_shape (self_encoder m) (h * w + enc_prefix m) bs c"
    and proj1: "maps_shape (proj_forward (self_enc2dec_proj m)) [h * w, bs, c] [h * w, bs, d]"
    and proj2: "maps_shape (proj_forward (self_pos_embed_proj m)) [h * w, bs, c] [h * w, bs, d]"
  shows "\<exists>x' mk' p' eo m0 mem pe fm tgt qe'.
           forward_image_inputs T m x (Some mk) (Some p) text_absent task_idx loc
             = Inr (x', mk', Some p', tgt, qe')
         \<and> shape x' = [h * w + enc_prefix m, bs, c]
         \<and> shape mk' = [bs, h * w + enc_prefix m]
         \<and> (\<forall>l n k. elem x' [l + enc_prefix m, n, k] = elem x [n, k, l div w, l mod w])
         \<and> (use_task_embedding_in_encoder (self_args m) \<longrightarrow>
               task_row (self_task_embeddings_enc m) task_idx c x'
             \<and> (\<forall>n. \<not> elem mk' [n, 0]))
         \<and> TransformerEncoder_forward (self_encoder m) x' None (Some mk') (Some p') = Inr eo
         \<and> shape eo = [h * w + enc_prefix m, bs, c]
         \<and> shape m0 = [h * w, bs, c]
         \<and> (\<forall>l n k. l < h * w \<and> n < bs \<and> k < c \<longrightarrow>
               elem m0 [l, n, k]
                 = (if residual_in_encoder (self_args m)
                    then elem x' [l + enc_prefix m, n, k] + elem eo [l + enc_prefix m, n, k]
                    else elem eo [l + enc_prefix m, n, k]))
         \<and> proj_forward (self_enc2dec_proj m) m0 = Inr mem
         \<and> forward_image T m x (Some mk) (Some p) text_absent task_idx loc
             = Inr \<lparr> loc_memories = loc_memories loc @ [mem],
                     loc_pos_embeds = loc_pos_embeds loc @ [Some pe],
                     loc_masks = loc_masks loc @ [Some fm],
                     loc_query_embed = qe',
                     loc_tgt = tgt \<rparr>
         \<and> shape mem = [h * w, bs, d] \<and> shape pe = [h * w, bs, d] \<and> shape fm = [bs, h * w]
         \<and> (\<forall>n l. elem fm [n, l] = elem mk [n, l div w, l mod w])
         \<and> (text_absent \<longrightarrow>
               (\<exists>q'. qe' = Some q' \<and> tgt = Some (torch_zeros_like q')
                  \<and> shape q' = [Q + dec_prefix m, bs, d]
                  \<and> (\<forall>j n k. j < Q \<and> k < d \<longrightarrow>
                        elem q' [j + dec_prefix m, n, k] = elem qe [j, k])
                  \<and> (use_task_embedding_in_decoder (self_args m) \<longrightarrow>
                        task_row (self_task_embeddings_dec m) task_idx d q')))
         \<and> (\<not> text_absent \<longrightarrow> qe' = loc_query_embed loc \<and> tgt = loc_tgt loc)"
proof -
  from forward_image_inputs_shapes [OF wb idx x p mk pos q, of T]
  obtain x' mk' p' tgt qe' where inp:
    "forward_image_inputs T m x (Some mk) (Some p) text_absent task_idx loc
       = Inr (x', mk', Some p', tgt, qe')"
    and sh: "shape x' = [h * w + enc_prefix m, bs, c]"
      "shape mk' = [bs, h * w + enc_prefix m]"
      "shape p' = [h * w + enc_prefix m, bs, c]"
    and el: "\<forall>n l. elem mk' [n, l + enc_prefix m] = elem mk [n, l div w, l mod w]"
    and ex: "\<forall>l n k. elem x' [l + enc_prefix m, n, k] = elem x [n, k, l div w, l mod w]"
    and row: "use_task_embedding_in_encoder (self_args m) \<longrightarrow>
               task_row (self_task_embeddings_enc m) task_idx c x'
             \<and> (\<forall>n. \<not> elem mk' [n, 0])"
    and qq: "text_absent \<longrightarrow>
               (\<exists>q'. qe' = Some q' \<and> tgt = Some (torch_zeros_like q')
                  \<and> shape q' = [Q + dec_prefix m, bs, d]
                  \<and> (\<forall>j n k. j < Q \<and> k < d \<longrightarrow>
                        elem q' [j + dec_prefix m, n, k] = elem qe [j, k])
                  \<and> (use_task_embedding_in_decoder (self_args m) \<longrightarrow>
                        task_row (self_task_embeddings_dec m) task_idx d q'))"
      "\<not> text_absent \<longrightarrow> qe' = loc_query_embed loc \<and> tgt = loc_tgt loc"
    by blast
  from TransformerEncoder_forward_shape [OF enc sh(1) sh(2) sh(3)]
  obtain eo where eo:
    "TransformerEncoder_forward (self_encoder m) x' None (Some mk') (Some p') = Inr eo"
    "shape eo = [h * w + enc_prefix m, bs, c]"
    by blast
  from forward_image_memory_shapes [OF wb sh(1) sh(2) sh(3) eo(2) proj1 proj2]
  obtain mem pe fm m0 where post:
    "forward_image_memory m x' mk' (Some p') eo = Inr (mem, Some pe, fm)"
    and sh2: "shape mem = [h * w, bs, d]" "shape pe = [h * w, bs, d]" "shape fm = [bs, h * w]"
    and el2: "\<forall>n l. elem fm [n, l] = elem mk' [n, l + enc_prefix m]"
    and m0: "proj_forward (self_enc2dec_proj m) m0 = Inr mem" "shape m0 = [h * w, bs, c]"
      "\<forall>l n k. l < h * w \<and> n < bs \<and> k < c \<longrightarrow>
                 elem m0 [l, n, k]
                   = (if residual_in_encoder (self_args m)
                      then elem x' [l + enc_prefix m, n, k] + elem eo [l + enc_prefix m, n, k]
                      else elem eo [l + enc_prefix m, n, k])"
    by blast
  have fi: "forward_image T m x (Some mk) (Some p) text_absent task_idx loc
             = Inr \<lparr> loc_memories = loc_memories loc @ [mem],
                     loc_pos_embeds = loc_pos_embeds loc @ [Some pe],
                     loc_masks = loc_masks loc @ [Some fm],
                     loc_query_embed = qe',
                     loc_tgt = tgt \<rparr>"
    by (simp add: forward_image_def inp eo post)
  from el el2 have el3: "\<forall>n l. elem fm [n, l] = elem mk [n, l div w, l mod w]"
    by simp
  from inp sh(1,2) ex row eo m0(2,3,1) fi sh2 el3 qq show ?thesis
    by blast
qed

lemma forward_image_shapes:
  fixes T :: "'a::{zero,plus,times} torch"
  assumes wb: "well_built m c d"
    and idx: "use_task_embedding_in_encoder (self_args m) \<longrightarrow> task_idx_in_range task_idx"
    and x: "shape x = [bs, c, h, w]"
    and p: "shape p = [bs, c, h, w]"
    and mk: "shape mk = [bs, h, w]"
    and pos: "0 < h * w"
    and q: "text_absent \<longrightarrow> self_pass_pos_and_query m
              \<and> (use_task_embedding_in_decoder (self_args m) \<longrightarrow> task_idx_in_range task_idx)
              \<and> loc_query_embed loc = Some qe \<and> shape qe = [Q, d]"
    and enc: "encoder_keeps_shape (self_encoder m) (h * w + enc_prefix m) bs c"
    and proj1: "maps_shape (proj_forward (self_enc2dec_proj m)) [h * w, bs, c] [h * w, bs, d]"
    and proj2: "maps_shape (proj_forward (self_pos_embed_proj m)) [h * w, bs, c] [h * w, bs, d]"
  shows "\<exists>mem pe fm tgt qe'.
           forward_image T m x (Some mk) (Some p) text_absent task_idx loc
             = Inr \<lparr> loc_memories = loc_memories loc @ [mem],
                     loc_pos_embeds = loc_pos_embeds loc @ [Some pe],
                     loc_masks = loc_masks loc @ [Some fm],
                     loc_query_embed = qe',
                     loc_tgt = tgt \<rparr>
         \<and> shape mem = [h * w, bs, d] \<and> shape pe = [h * w, bs, d] \<and> shape fm = [bs, h * w]
         \<and> (\<forall>n l. elem fm [n, l] = elem mk [n, l div w, l mod w])
         \<and> (text_absent \<longrightarrow>
               (\<exists>q'. qe' = Some q' \<and> tgt = Some (torch_zeros_like q')
                  \<and> shape q' = [Q + dec_prefix m, bs, d]
                  \<and> (\<forall>j n k. j < Q \<and> k < d \<longrightarrow>
                        elem q' [j + dec_prefix m, n, k] = elem qe [j, k])
                  \<and> (use_task_embedding_in_decoder (self_args m) \<longrightarrow>
                        task_row (self_task_embeddings_dec m) task_idx d q')))
         \<and> (\<not> text_absent \<longrightarrow> qe' = loc_query_embed loc \<and> tgt = loc_tgt loc)"
  using forward_image_parts [OF wb idx x p mk pos q enc proj1 proj2, of T]
  by blast

text \<open>
  From the decoder's arguments to the result: the decoder's stack \<open>ds\<close> is transposed and
  loses its first \<open>dec_prefix\<close> queries, the fused memory is permuted.
\<close>

lemma forward_from_fuse:
  fixes T :: "'a::{zero,plus,times} torch"
  assumes fuse: "MTTransformer_forward_fuse T m img_src img_mask img_pos text_src text_mask
        text_pos query_embed task_type dataset_name task_idx = Inr f"
    and wb: "well_built m c d"
    and dec: "fused_decoder f = Some dec"
      "decoder_keeps_shape dec (Q + dec_prefix m) Lm bs d"
      "decoder_norm dec \<noteq> None" "return_intermediate dec" "decoder_layers dec \<noteq> []"
    and tgt: "fused_tgt f = Some tgt" "shape tgt = [Q + dec_prefix m, bs, d]"
    and qe: "fused_query_embed f = Some q" "shape q = [Q + dec_prefix m, bs, d]"
    and mem: "shape (fused_memories f) = [Lm, bs, d]"
    and pe: "shape (fused_pos_embeds f) = [Lm, bs, d]"
    and msk: "shape (fused_masks f) = [bs, Lm]"
  shows "\<exists>ds hs mem.
             call_decoder (Some dec) tgt (fused_memories f) (Some (fused_masks f))
               (Some (fused_pos_embeds f)) (Some q) = Inr ds
           \<and> shape ds = [length (decoder_layers dec), Q + dec_prefix m, bs, d]
           \<and> MTTransformer_forward T m img_src img_mask img_pos text_src text_mask
               text_pos query_embed task_type dataset_name task_idx = Inr (hs, mem)
           \<and> shape hs = [length (decoder_layers dec), bs, Q, d]
           \<and> (\<forall>i n j k. elem hs [i, n, j, k] = elem ds [i, j + dec_prefix m, n, k])
           \<and> shape mem = [bs, d, Lm]
           \<and> (\<forall>n c l. elem mem [n, c, l] = elem (fused_memories f) [l, n, c])"
proof -
  from TransformerDecoder_forward_shape [OF dec(2-5) tgt(2) mem msk pe qe(2)]
  obtain hs0 where hs0: "TransformerDecoder_forward dec tgt (fused_memories f) None None None
      (Some (fused_masks f)) (Some (fused_pos_embeds f)) (Some q) = Inr hs0"
    "shape hs0 = [length (decoder_layers dec), Q + dec_prefix m, bs, d]"
    by auto
  from wb have k: "self_hs_out_begin_idx m = dec_prefix m"
    by (simp add: well_built_def dec_prefix_def)
  let ?N = "length (decoder_layers dec)"
  let ?hs1 = "Tensor [?N, bs, Q + dec_prefix m, d]
      (\<lambda>idx. elem hs0 (idx[1 := idx ! 2, 2 := idx ! 1]))"
  let ?hs = "Tensor [?N, bs, Q, d] (\<lambda>idx. elem ?hs1 (idx[2 := idx ! 2 + dec_prefix m]))"
  have hs1: "t_transpose 1 2 hs0 = Inr ?hs1"
    using hs0(2) by (simp add: t_transpose_12)
  have hs2: "t_slice 4 2 (self_hs_out_begin_idx m) None ?hs1 = Inr ?hs"
    by (simp add: k t_slice_queries dec_prefix_def)
  have hs3: "\<forall>i n j k. elem ?hs [i, n, j, k] = elem hs0 [i, j + dec_prefix m, n, k]"
    by (simp add: numeral_2_eq_2)
  obtain hs where hs: "t_transpose 1 2 hs0 = Inr ?hs1"
    "t_slice 4 2 (self_hs_out_begin_idx m) None ?hs1 = Inr hs"
    "shape hs = [length (decoder_layers dec), bs, Q, d]"
    "\<forall>i n j k. elem hs [i, n, j, k] = elem hs0 [i, j + dec_prefix m, n, k]"
    using hs1 hs2 hs3 by simp
  have "\<exists>y. t_permute [1, 2, 0] (fused_memories f) = Inr y \<and> shape y = [bs, d, Lm]
      \<and> (\<forall>n c l. elem y [n, c, l] = elem (fused_memories f) [l, n, c])"
    using mem by (simp add: t_permute_120)
  then obtain y where y: "t_permute [1, 2, 0] (fused_memories f) = Inr y" "shape y = [bs, d, Lm]"
    "\<forall>n c l. elem y [n, c, l] = elem (fused_memories f) [l, n, c]"
    by blast
  have cd: "call_decoder (Some dec) tgt (fused_memories f) (Some (fused_masks f))
               (Some (fused_pos_embeds f)) (Some q) = Inr hs0"
    using hs0(1) by (simp add: call_decoder_def)
  have "MTTransformer_forward T m img_src img_mask img_pos text_src text_mask
             text_pos query_embed task_type dataset_name task_idx = Inr (hs, y)"
    using fuse tgt(1) qe(1) dec(1) hs0(1) hs(1,2) y(1)
    by (simp add: MTTransformer_forward_def call_decoder_def)
  with cd hs0(2) hs(3,4) y(2,3) show ?thesis by blast
qed

lemma fuse_from_streams:
  fixes T :: "'a::{zero,plus,times} torch"
  assumes "forward_streams T m img_src img_mask img_pos text_src text_mask text_pos query_embed
        task_idx = Inr loc"
    and "lookup_decoder m task_type dataset_name = Inr decoder"
    and "torch_cat (loc_memories loc) 0 = Inr memories"
    and "torch_cat_opt (loc_masks loc) (- 1) = Inr masks"
    and "torch_cat_opt (loc_pos_embeds loc) 0 = Inr pos_embeds"
  shows "MTTransformer_forward_fuse T m img_src img_mask img_pos text_src text_mask
        text_pos query_embed task_type dataset_name task_idx
      = Inr \<lparr> fused_decoder = decoder, fused_tgt = loc_tgt loc, fused_memories = memories,
              fused_masks = masks, fused_pos_embeds = pos_embeds,
              fused_query_embed = loc_query_embed loc \<rparr>"
  using assms by (simp add: MTTransformer_forward_fuse_def)

lemma fuse_image_only:
  fixes T :: "'a::{zero,plus,times} torch"
  assumes wb: "well_built m c d"
    and idx: "task_idx_ok m task_idx"
    and pass: "self_pass_pos_and_query m"
    and x: "shape x = [bs, c, h, w]"
    and p: "shape p = [bs, c, h, w]"
    and mk: "shape mk = [bs, h, w]"
    and pos: "0 < h * w"
    and qe: "shape qe = [Q, d]"
    and enc: "encoder_keeps_shape (self_encoder m) (h * w + enc_prefix m) bs c"
    and proj1: "maps_shape (proj_forward (self_enc2dec_proj m)) [h * w, bs, c] [h * w, bs, d]"
    and proj2: "maps_shape (proj_forward (self_pos_embed_proj m)) [h * w, bs, c] [h * w, bs, d]"
    and look: "lookup_decoder m task_type dataset_name = Inr decoder"
  shows "\<exists>f q loc mi. MTTransformer_forward_fuse T m (Some x) (Some mk) (Some p) None text_mask
             text_pos (Some qe) task_type dataset_name task_idx = Inr f
           \<and> fused_decoder f = decoder
           \<and> fused_tgt f = Some (torch_zeros_like q) \<and> fused_query_embed f = Some q
           \<and> shape q = [Q + dec_prefix m, bs, d]
           \<and> (\<forall>j n k. j < Q \<and> k < d \<longrightarrow> elem q [j + dec_prefix m, n, k] = elem qe [j, k])
           \<and> (use_task_embedding_in_decoder (self_args m) \<longrightarrow>
                 task_row (self_task_embeddings_dec m) task_idx d q)
           \<and> shape (fused_memories f) = [h * w, bs, d]
           \<and> shape (fused_pos_embeds f) = [h * w, bs, d]
           \<and> shape (fused_masks f) = [bs, h * w]
           \<and> forward_image T m x (Some mk) (Some p) True task_idx
                \<lparr> loc_memories = [], loc_pos_embeds = [], loc_masks = [],
                  loc_query_embed = Some qe, loc_tgt = None \<rparr> = Inr loc
           \<and> loc_memories loc = [mi] \<and> shape mi = [h * w, bs, d]
           \<and> (\<forall>l n k. elem (fused_memories f) [l, n, k] = elem mi [l, n, k])
           \<and> (\<forall>n l. elem (fused_masks f) [n, l] = elem mk [n, l div w, l mod w])"
proof -
  let ?loc0 = "\<lparr> loc_memories = [], loc_pos_embeds = [], loc_masks = [],
                 loc_query_embed = Some qe, loc_tgt = None \<rparr> :: 'a locals"
  from idx have ie: "use_task_embedding_in_encoder (self_args m) \<longrightarrow> task_idx_in_range task_idx"
    and id: "use_task_embedding_in_decoder (self_args m) \<longrightarrow> task_idx_in_range task_idx"
    by (simp_all add: task_idx_ok_def)
  have q: "True \<longrightarrow> self_pass_pos_and_query m
              \<and> (use_task_embedding_in_decoder (self_args m) \<longrightarrow> task_idx_in_range task_idx)
              \<and> loc_query_embed ?loc0 = Some qe \<and> shape qe = [Q, d]"
    using pass id qe by simp
  from forward_image_shapes [OF wb ie x p mk pos q enc proj1 proj2, of T]
  obtain mem pe fm q' where img:
    "forward_image T m x (Some mk) (Some p) True task_idx ?loc0
       = Inr \<lparr> loc_memories = [mem], loc_pos_embeds = [Some pe], loc_masks = [Some fm],
               loc_query_embed = Some q', loc_tgt = Some (torch_zeros_like q') \<rparr>"
    and sh: "shape mem = [h * w, bs, d]" "shape pe = [h * w, bs, d]" "shape fm = [bs, h * w]"
      "shape q' = [Q + dec_prefix m, bs, d]"
    and el: "\<forall>n l. elem fm [n, l] = elem mk [n, l div w, l mod w]"
    and qc: "\<forall>j n k. j < Q \<and> k < d \<longrightarrow> elem q' [j + dec_prefix m, n, k] = elem qe [j, k]"
      "use_task_embedding_in_decoder (self_args m) \<longrightarrow>
         task_row (self_task_embeddings_dec m) task_idx d q'"
    by auto
  let ?loc = "\<lparr> loc_memories = [mem], loc_pos_embeds = [Some pe], loc_masks = [Some fm],
               loc_query_embed = Some q', loc_tgt = Some (torch_zeros_like q') \<rparr>"
  have st: "forward_streams T m (Some x) (Some mk) (Some p) None text_mask text_pos (Some qe)
        task_idx = Inr ?loc"
    by (simp add: forward_streams_def img)
  have c1: "torch_cat (loc_memories ?loc) 0 = Inr (Tensor [h * w, bs, d] (elem mem))"
    using sh by (simp add: torch_cat_1_dim0)
  have c2: "torch_cat_opt (loc_masks ?loc) (- 1) = Inr (Tensor [bs, h * w] (elem fm))"
    using sh by (simp add: torch_cat_opt_def torch_cat_1_last)
  have c3: "torch_cat_opt (loc_pos_embeds ?loc) 0 = Inr (Tensor [h * w, bs, d] (elem pe))"
    using sh by (simp add: torch_cat_opt_def torch_cat_1_dim0)
  from fuse_from_streams [OF st look c1 c2 c3] img sh el qc show ?thesis
    by simp
qed

lemma fuse_text_only:
  fixes T :: "'a::{zero,plus,times} torch"
  assumes wb: "well_built m c d"
    and idx: "task_idx_ok m task_idx"
    and pass: "self_pass_pos_and_query m"
    and tx: "shape tx = [bs, Lt, d]"
    and tp: "shape tp = [Lt, d]"
    and tm: "shape tm = [bs, Lt]"
    and qe: "shape qe = [Q, d]"
    and look: "lookup_decoder m task_type dataset_name = Inr decoder"
  shows "\<exists>f q. MTTransformer_forward_fuse T m None img_mask img_pos (Some tx) (Some tm)
             (Some tp) (Some qe) task_type dataset_name task_idx = Inr f
           \<and> fused_decoder f = decoder
           \<and> fused_tgt f = Some (torch_zeros_like q) \<and> fused_query_embed f = Some q
           \<and> shape q = [Q + dec_prefix m, bs, d]
           \<and> (\<forall>j n k. j < Q \<and> k < d \<longrightarrow> elem q [j + dec_prefix m, n, k] = elem qe [j, k])
           \<and> (use_task_embedding_in_decoder (self_args m) \<longrightarrow>
                 task_row (self_task_embeddings_dec m) task_idx d q)
           \<and> shape (fused_memories f) = [Lt, bs, d]
           \<and> shape (fused_pos_embeds f) = [Lt, bs, d]
           \<and> shape (fused_masks f) = [bs, Lt]
           \<and> (\<forall>l n k. elem (fused_memories f) [l, n, k] = elem tx [n, l, k])
           \<and> (\<forall>n l. elem (fused_masks f) [n, l] = (elem tm [n, l] \<noteq> 1))"
proof -
  let ?loc0 = "\<lparr> loc_memories = [], loc_pos_embeds = [], loc_masks = [],
                 loc_query_embed = Some qe, loc_tgt = None \<rparr> :: 'a locals"
  from idx have id: "use_task_embedding_in_decoder (self_args m) \<longrightarrow> task_idx_in_range task_idx"
    by (simp add: task_idx_ok_def)
  from forward_text_shapes [OF wb id pass tx tp _ qe, of
      "\<lparr> loc_memories = [], loc_pos_embeds = [], loc_masks = [],
         loc_query_embed = Some qe, loc_tgt = None \<rparr> :: 'a locals" "Some tm"]
  obtain tperm tpos q' where tbr:
    "forward_text m tx (Some tm) (Some tp) task_idx ?loc0
       = Inr \<lparr> loc_memories = [tperm], loc_pos_embeds = [Some tpos],
               loc_masks = [Some (t_ne tm 1)],
               loc_query_embed = Some q', loc_tgt = Some (torch_zeros_like q') \<rparr>"
    and sh: "shape tperm = [Lt, bs, d]" "shape tpos = [Lt, bs, d]"
      "shape q' = [Q + dec_prefix m, bs, d]"
    and el: "\<forall>l n k. elem tperm [l, n, k] = elem tx [n, l, k]"
    and qc: "\<forall>j n k. j < Q \<and> k < d \<longrightarrow> elem q' [j + dec_prefix m, n, k] = elem qe [j, k]"
      "use_task_embedding_in_decoder (self_args m) \<longrightarrow>
         task_row (self_task_embeddings_dec m) task_idx d q'"
    by auto
  let ?loc = "\<lparr> loc_memories = [tperm], loc_pos_embeds = [Some tpos],
               loc_masks = [Some (t_ne tm 1)],
               loc_query_embed = Some q', loc_tgt = Some (torch_zeros_like q') \<rparr>"
  have st: "forward_streams T m None img_mask img_pos (Some tx) (Some tm) (Some tp) (Some qe)
        task_idx = Inr ?loc"
    by (simp add: forward_streams_def tbr)
  have c1: "torch_cat (loc_memories ?loc) 0 = Inr (Tensor [Lt, bs, d] (elem tperm))"
    using sh by (simp add: torch_cat_1_dim0)
  have c2: "torch_cat_opt (loc_masks ?loc) (- 1) = Inr (Tensor [bs, Lt] (elem (t_ne tm 1)))"
    using tm by (simp add: torch_cat_opt_def torch_cat_1_last t_ne_def)
  have c3: "torch_cat_opt (loc_pos_embeds ?loc) 0 = Inr (Tensor [Lt, bs, d] (elem tpos))"
    using sh by (simp add: torch_cat_opt_def torch_cat_1_dim0)
  from fuse_from_streams [OF st look c1 c2 c3] sh el qc show ?thesis
    by (simp add: t_ne_def)
qed

lemma fuse_image_text:
  fixes T :: "'a::{zero,plus,times} torch"
  assumes wb: "well_built m c d"
    and idx: "task_idx_ok m task_idx"
    and pass: "self_pass_pos_and_query m"
    and x: "shape x = [bs, c, h, w]"
    and p: "shape p = [bs, c, h, w]"
    and mk: "shape mk = [bs, h, w]"
    and pos: "0 < h * w"
    and tx: "shape tx = [bs, Lt, d]"
    and tp: "shape tp = [Lt, d]"
    and tm: "shape tm = [bs, Lt]"
    and qe: "shape qe = [Q, d]"
    and enc: "encoder_keeps_shape (self_encoder m) (h * w + enc_prefix m) bs c"
    and proj1: "maps_shape (proj_forward (self_enc2dec_proj m)) [h * w, bs, c] [h * w, bs, d]"
    and proj2: "maps_shape (proj_forward (self_pos_embed_proj m)) [h * w, bs, c] [h * w, bs, d]"
    and look: "lookup_decoder m task_type dataset_name = Inr decoder"
  shows "\<exists>f q loc mi. MTTransformer_forward_fuse T m (Some x) (Some mk) (Some p) (Some tx)
             (Some tm) (Some tp) (Some qe) task_type dataset_name task_idx = Inr f
           \<and> fused_decoder f = decoder
           \<and> fused_tgt f = Some (torch_zeros_like q) \<and> fused_query_embed f = Some q
           \<and> shape q = [Q + dec_prefix m, bs, d]
           \<and> (\<forall>j n k. j < Q \<and> k < d \<longrightarrow> elem q [j + dec_prefix m, n, k] = elem qe [j, k])
           \<and> (use_task_embedding_in_decoder (self_args m) \<longrightarrow>
                 task_row (self_task_embeddings_dec m) task_idx d q)
           \<and> shape (fused_memories f) = [h * w + Lt, bs, d]
           \<and> shape (fused_pos_embeds f) = [h * w + Lt, bs, d]
           \<and> shape (fused_masks f) = [bs, h * w + Lt]
           \<and> forward_image T m x (Some mk) (Some p) False task_idx
                \<lparr> loc_memories = [], loc_pos_embeds = [], loc_masks = [],
                  loc_query_embed = Some qe, loc_tgt = None \<rparr> = Inr loc
           \<and> loc_memories loc = [mi] \<and> shape mi = [h * w, bs, d]
           \<and> (\<forall>l n k. l < h * w \<longrightarrow> elem (fused_memories f) [l, n, k] = elem mi [l, n, k])
           \<and> (\<forall>l n k. elem (fused_memories f) [h * w + l, n, k] = elem tx [n, l, k])
           \<and> (\<forall>n l. l < h * w \<longrightarrow>
                 elem (fused_masks f) [n, l] = elem mk [n, l div w, l mod w])
           \<and> (\<forall>n l. elem (fused_masks f) [n, h * w + l] = (elem tm [n, l] \<noteq> 1))"
proof -
  let ?loc0 = "\<lparr> loc_memories = [], loc_pos_embeds = [], loc_masks = [],
                 loc_query_embed = Some qe, loc_tgt = None \<rparr> :: 'a locals"
  from idx have ie: "use_task_embedding_in_encoder (self_args m) \<longrightarrow> task_idx_in_range task_idx"
    and id: "use_task_embedding_in_decoder (self_args m) \<longrightarrow> task_idx_in_range task_idx"
    by (simp_all add: task_idx_ok_def)
  have q: "False \<longrightarrow> self_pass_pos_and_query m
              \<and> (use_task_embedding_in_decoder (self_args m) \<longrightarrow> task_idx_in_range task_idx)
              \<and> loc_query_embed ?loc0 = Some qe \<and> shape qe = [Q, d]"
    by simp
  from forward_image_shapes [OF wb ie x p mk pos q enc proj1 proj2, of T]
  obtain mem pe fm where img:
    "forward_image T m x (Some mk) (Some p) False task_idx ?loc0
       = Inr \<lparr> loc_memories = [mem], loc_pos_embeds = [Some pe], loc_masks = [Some fm],
               loc_query_embed = Some qe, loc_tgt = None \<rparr>"
    and sh: "shape mem = [h * w, bs, d]" "shape pe = [h * w, bs, d]" "shape fm = [bs, h * w]"
    and el: "\<forall>n l. elem fm [n, l] = elem mk [n, l div w, l mod w]"
    by auto
  let ?loc1 = "\<lparr> loc_memories = [mem], loc_pos_embeds = [Some pe], loc_masks = [Some fm],
               loc_query_embed = Some qe, loc_tgt = None \<rparr>"
  from forward_text_shapes [OF wb id pass tx tp _ qe, of
      "\<lparr> loc_memories = [mem], loc_pos_embeds = [Some pe], loc_masks = [Some fm],
         loc_query_embed = Some qe, loc_tgt = None \<rparr>" "Some tm"]
  obtain tperm tpos q' where tbr:
    "forward_text m tx (Some tm) (Some tp) task_idx ?loc1
       = Inr \<lparr> loc_memories = [mem, tperm], loc_pos_embeds = [Some pe, Some tpos],
               loc_masks = [Some fm, Some (t_ne tm 1)],
               loc_query_embed = Some q', loc_tgt = Some (torch_zeros_like q') \<rparr>"
    and sh2: "shape tperm = [Lt, bs, d]" "shape tpos = [Lt, bs, d]"
      "shape q' = [Q + dec_prefix m, bs, d]"
    and el2: "\<forall>l n k. elem tperm [l, n, k] = elem tx [n, l, k]"
    and qc: "\<forall>j n k. j < Q \<and> k < d \<longrightarrow> elem q' [j + dec_prefix m, n, k] = elem qe [j, k]"
      "use_task_embedding_in_decoder (self_args m) \<longrightarrow>
         task_row (self_task_embeddings_dec m) task_idx d q'"
    by auto
  let ?loc = "\<lparr> loc_memories = [mem, tperm], loc_pos_embeds = [Some pe, Some tpos],
               loc_masks = [Some fm, Some (t_ne tm 1)],
               loc_query_embed = Some q', loc_tgt = Some (torch_zeros_like q') \<rparr>"
  have st: "forward_streams T m (Some x) (Some mk) (Some p) (Some tx) (Some tm) (Some tp)
        (Some qe) task_idx = Inr ?loc"
    by (simp add: forward_streams_def img tbr)
  have c1: "torch_cat (loc_memories ?loc) 0
      = Inr (Tensor [h * w + Lt, bs, d] (cat_elem 0 mem [tperm]))"
    using sh sh2 by (simp add: torch_cat_2_dim0)
  have c2: "torch_cat_opt (loc_masks ?loc) (- 1)
      = Inr (Tensor [bs, h * w + Lt] (cat_elem 1 fm [t_ne tm 1]))"
    using sh tm by (simp add: torch_cat_opt_def torch_cat_2_last t_ne_def)
  have c3: "torch_cat_opt (loc_pos_embeds ?loc) 0
      = Inr (Tensor [h * w + Lt, bs, d] (cat_elem 0 pe [tpos]))"
    using sh sh2 by (simp add: torch_cat_opt_def torch_cat_2_dim0)
  note f = fuse_from_streams [OF st look c1 c2 c3]
  have m1: "\<forall>l n k. l < h * w \<longrightarrow> cat_elem 0 mem [tperm] [l, n, k] = elem mem [l, n, k]"
    using sh by simp
  have m2: "\<forall>l n k. cat_elem 0 mem [tperm] [h * w + l, n, k] = elem tx [n, l, k]"
    using sh el2 by simp
  have k1: "\<forall>n l. l < h * w \<longrightarrow>
      cat_elem 1 fm [t_ne tm 1] [n, l] = elem mk [n, l div w, l mod w]"
    using sh el by simp
  have k2: "\<forall>n l. cat_elem 1 fm [t_ne tm 1] [n, h * w + l] = (elem tm [n, l] \<noteq> 1)"
    using sh by (simp add: t_ne_def)
  from f img sh sh2 m1 m2 k1 k2 qc show ?thesis
    by simp
qed

section \<open>The concrete instances\<close>

lemma encoder_layer0_built:
  "TransformerEncoderLayer_init torch0 p d_model nhead dim_feedforward dropout ''relu'' False
     = Inr encoder_layer0"
  by (simp add: TransformerEncoderLayer_init_def get_activation_fn_def torch0_def
      encoder_layer0_def)

lemma decoder_layer0_built:
  "TransformerDecoderLayer_init torch0 p d_model nhead dim_feedforward dropout ''relu'' False
     = Inr decoder_layer0"
  by (simp add: TransformerDecoderLayer_init_def get_activation_fn_def torch0_def
      decoder_layer0_def)

lemma encoder_layer0_shape:
  assumes "shape x = s" and "shape p = s"
  shows "\<exists>y. TransformerEncoderLayer_forward encoder_layer0 x sm kpm (Some p) = Inr y
       \<and> shape y = s"
  using assms
  by (simp add: TransformerEncoderLayer_forward_def TransformerEncoderLayer_forward_post_def
      encoder_layer0_def with_pos_embed_def attention0_def t_add_same)

lemma encoder0_keeps_shape:
  "encoder_keeps_shape (TransformerEncoder_init encoder_layer0 n None) L bs c"
  using encoder_layer0_shape
  by (simp add: encoder_keeps_shape_def TransformerEncoder_init_def get_clones_def)

lemma decoder0_keeps_shape: "decoder_keeps_shape decoder0 Q S bs c"
  using decoder_layer0_shape
  by (simp add: decoder_keeps_shape_def decoder0_fields keeps_shape_def)

lemma identity_maps_shape: "maps_shape (proj_forward Identity) s s"
  by (simp add: maps_shape_def)

lemma fixture_parts:
  assumes "MTTransformer_init torch0 args 8 8 2 2 2 16 0 ''relu'' False True pass True = Inr m"
  shows "self_args m = args" "self_pass_pos_and_query m = pass" "well_built m 8 8"
    "self_encoder m = TransformerEncoder_init encoder_layer0 2 None"
    "self_enc2dec_proj m = Identity" "self_pos_embed_proj m = Identity"
    "self_decoder m = Some decoder0"
proof -
  from assms obtain el dl dec decoders where
    el: "TransformerEncoderLayer_init torch0 [''encoder'', ''layers''] 8 2 16 0 ''relu'' False = Inr el"
    and dl: "TransformerDecoderLayer_init torch0 [''decoder'', ''layers''] 8 2 16 0 ''relu'' False = Inr dl"
    and b: "build_decoders (\<lambda>p. build_decoder_layer torch0 p 8 2 2 16 0 ''relu'' False True) True
       (num_queries args)
       (Some (TransformerDecoder_init dl 2 (Some (nn_LayerNorm torch0 [''decoder'', ''norm''] 8)) True))
       Map.empty = Inr (dec, decoders)"
    and f: "self_args m = args" "self_pass_pos_and_query m = pass"
      "self_encoder m = TransformerEncoder_init el 2
         (if False then Some (nn_LayerNorm torch0 [''encoder'', ''norm''] 8) else None)"
      "self_enc2dec_proj m
         = (if (8::nat) \<noteq> 8 then Linear (nn_Linear torch0 [''enc2dec_proj''] 8 8) else Identity)"
      "self_pos_embed_proj m
         = (if (8::nat) \<noteq> 8 then Linear (nn_Linear torch0 [''pos_embed_proj''] 8 8) else Identity)"
      "self_decoder m = dec"
      "well_built m 8 8"
    by (rule MTTransformer_init_Inr)
  from el have el0: "el = encoder_layer0" by (simp add: encoder_layer0_built)
  from dl have dl0: "dl = decoder_layer0" by (simp add: decoder_layer0_built)
  have ln: "nn_LayerNorm torch0 [''decoder'', ''norm''] 8 = Inr" by (simp add: torch0_def)
  from b have "dec = Some decoder0"
    by (simp add: build_decoders_shared dl0 ln decoder0_def)
  with f el0 show "self_args m = args" "self_pass_pos_and_query m = pass" "well_built m 8 8"
    "self_encoder m = TransformerEncoder_init encoder_layer0 2 None"
    "self_enc2dec_proj m = Identity" "self_pos_embed_proj m = Identity"
    "self_decoder m = Some decoder0"
    by simp_all
qed

text \<open>
  The second library: its attention refuses a key-padding mask of another shape than one
  row per batch entry and one column per key, and the modules built from it keep the
  contracts nonetheless.
\<close>

lemma attention1_refuses:
  "shape q = [L, bs, c] \<Longrightarrow> shape k = [S, bs, c] \<Longrightarrow> shape v = [S, bs, c] \<Longrightarrow>
     shape msk \<noteq> [bs, S] \<Longrightarrow>
     attention1 q k v None (Some msk)
       = Inl (RuntimeError ''attention: the shapes of the arguments do not agree'')"
  by (simp add: attention1_def)

lemma encoder_layer1_built:
  "TransformerEncoderLayer_init torch1 p d_model nhead dim_feedforward dropout ''relu'' False
     = Inr encoder_layer1"
  by (simp add: TransformerEncoderLayer_init_def get_activation_fn_def torch1_def torch0_def
      encoder_layer1_def encoder_layer0_def)

lemma decoder_layer1_built:
  "TransformerDecoderLayer_init torch1 p d_model nhead dim_feedforward dropout ''relu'' False
     = Inr decoder_layer1"
  by (simp add: TransformerDecoderLayer_init_def get_activation_fn_def torch1_def torch0_def
      decoder_layer1_def decoder_layer0_def)

lemma encoder_layer1_shape:
  assumes "shape x = [L, bs, c]" and "shape k = [bs, L]" and "shape p = [L, bs, c]"
  shows "\<exists>y. TransformerEncoderLayer_forward encoder_layer1 x None (Some k) (Some p) = Inr y
       \<and> shape y = [L, bs, c]"
  using assms
  by (simp add: TransformerEncoderLayer_forward_def TransformerEncoderLayer_forward_post_def
      encoder_layer1_def encoder_layer0_def with_pos_embed_def attention1_def t_add_same)

lemma decoder_layer1_shape:
  assumes "shape x = [Q, bs, c]" and "shape mem = [S, bs, c]" and "shape k = [bs, S]"
    and "shape p = [S, bs, c]" and "shape qp = [Q, bs, c]"
  shows "\<exists>y. TransformerDecoderLayer_forward decoder_layer1 x mem None None None (Some k)
             (Some p) (Some qp) = Inr y
       \<and> shape y = [Q, bs, c]"
  using assms
  by (simp add: TransformerDecoderLayer_forward_def TransformerDecoderLayer_forward_post_def
      decoder_layer1_def decoder_layer0_def with_pos_embed_def attention1_def t_add_same)

lemma decoder1_fields:
  "decoder_norm decoder1 = Some Inr" "return_intermediate decoder1"
  "decoder_layers decoder1 = [decoder_layer1, decoder_layer1]"
  by (simp_all add: decoder1_def TransformerDecoder_init_def get_clones_def numeral_2_eq_2)

lemma encoder1_keeps_shape:
  "encoder_keeps_shape (TransformerEncoder_init encoder_layer1 n None) L bs c"
  using encoder_layer1_shape
  by (simp add: encoder_keeps_shape_def TransformerEncoder_init_def get_clones_def)

lemma decoder1_keeps_shape: "decoder_keeps_shape decoder1 Q S bs c"
  using decoder_layer1_shape
  by (simp add: decoder_keeps_shape_def decoder1_fields keeps_shape_def)

lemma built_fixtures1:
  "build_transformer torch1 args_scenario = Inr mt_scenario1"
  "build_transformer torch1 args_multi = Inr mt_multi1"
  using build_transformer_Inr [of torch1 args_scenario]
    build_transformer_Inr [of torch1 args_multi]
  by (auto simp: mt_scenario1_def mt_multi1_def)

lemma fixture_inits1:
  "MTTransformer_init torch1 args_scenario 8 8 2 2 2 16 0 ''relu'' False True True True
     = Inr mt_scenario1"
  "MTTransformer_init torch1 args_multi 8 8 2 2 2 16 0 ''relu'' False True True True
     = Inr mt_multi1"
  using built_fixtures1
  by (simp_all add: build_transformer_def args_scenario_def args_multi_def)

lemma built_task_embeddings:
  assumes "MTTransformer_init T args de dd nh Ne Nd dff dr act nb ri pass share = Inr m"
  shows "self_task_embeddings_enc m
           = (if use_task_embedding_in_encoder args
              then Some (nn_Embedding T [''task_embeddings_enc''] MAX_TASK_NUM de) else None)"
    and "self_task_embeddings_dec m
           = (if use_task_embedding_in_decoder args
              then Some (nn_Embedding T [''task_embeddings_dec''] MAX_TASK_NUM dd) else None)"
  using assms
  by (auto simp: MTTransformer_init_def Transformer_init_def and_then_eq_Inr)

lemma fixture_parts1:
  assumes "MTTransformer_init torch1 args 8 8 2 2 2 16 0 ''relu'' False True pass True = Inr m"
  shows "self_args m = args" "self_pass_pos_and_query m = pass" "well_built m 8 8"
    "self_encoder m = TransformerEncoder_init encoder_layer1 2 None"
    "self_enc2dec_proj m = Identity" "self_pos_embed_proj m = Identity"
    "self_decoder m = Some decoder1"
proof -
  from assms obtain el dl dec decoders where
    el: "TransformerEncoderLayer_init torch1 [''encoder'', ''layers''] 8 2 16 0 ''relu'' False = Inr el"
    and dl: "TransformerDecoderLayer_init torch1 [''decoder'', ''layers''] 8 2 16 0 ''relu'' False = Inr dl"
    and b: "build_decoders (\<lambda>p. build_decoder_layer torch1 p 8 2 2 16 0 ''relu'' False True) True
       (num_queries args)
       (Some (TransformerDecoder_init dl 2 (Some (nn_LayerNorm torch1 [''decoder'', ''norm''] 8)) True))
       Map.empty = Inr (dec, decoders)"
    and f: "self_args m = args" "self_pass_pos_and_query m = pass"
      "self_encoder m = TransformerEncoder_init el 2
         (if False then Some (nn_LayerNorm torch1 [''encoder'', ''norm''] 8) else None)"
      "self_enc2dec_proj m
         = (if (8::nat) \<noteq> 8 then Linear (nn_Linear torch1 [''enc2dec_proj''] 8 8) else Identity)"
      "self_pos_embed_proj m
         = (if (8::nat) \<noteq> 8 then Linear (nn_Linear torch1 [''pos_embed_proj''] 8 8) else Identity)"
      "self_decoder m = dec"
      "well_built m 8 8"
    by (rule MTTransformer_init_Inr)
  from el have el0: "el = encoder_layer1" by (simp add: encoder_layer1_built)
  from dl have dl0: "dl = decoder_layer1" by (simp add: decoder_layer1_built)
  have ln: "nn_LayerNorm torch1 [''decoder'', ''norm''] 8 = Inr"
    by (simp add: torch1_def torch0_def)
  from b have "dec = Some decoder1"
    by (simp add: build_decoders_shared dl0 ln decoder1_def)
  with f el0 show "self_args m = args" "self_pass_pos_and_query m = pass" "well_built m 8 8"
    "self_encoder m = TransformerEncoder_init encoder_layer1 2 None"
    "self_enc2dec_proj m = Identity" "self_pos_embed_proj m = Identity"
    "self_decoder m = Some decoder1"
    by simp_all
qed

lemma fixture_lookup:
  assumes "MTTransformer_init torch0 args 8 8 2 2 2 16 0 ''relu'' False True pass True = Inr m"
    and "registered args t d"
  shows "lookup_decoder m (Some t) (Some d) = Inr (Some decoder0)"
  using lookup_decoder_built [OF assms(1), of t d] assms(2) fixture_parts(7) [OF assms(1)]
  by auto

lemma fixture_kernels:
  assumes "MTTransformer_init torch0 args 8 8 2 2 2 16 0 ''relu'' False True pass True = Inr m"
  shows "image_kernels_ok m L bs 8 8"
  using fixture_parts [OF assms]
  by (simp add: image_kernels_ok_def encoder0_keeps_shape identity_maps_shape)

lemma fixture_lookup1:
  assumes "MTTransformer_init torch1 args 8 8 2 2 2 16 0 ''relu'' False True pass True = Inr m"
    and "registered args t d"
  shows "lookup_decoder m (Some t) (Some d) = Inr (Some decoder1)"
  using lookup_decoder_built [OF assms(1), of t d] assms(2) fixture_parts1(7) [OF assms(1)]
  by auto

lemma fixture_kernels1:
  assumes "MTTransformer_init torch1 args 8 8 2 2 2 16 0 ''relu'' False True pass True = Inr m"
  shows "image_kernels_ok m L bs 8 8"
  using fixture_parts1 [OF assms]
  by (simp add: image_kernels_ok_def encoder1_keeps_shape identity_maps_shape)

section \<open>The forward call as a whole\<close>

lemma built_model_facts:
  assumes init: "MTTransformer_init T args de dd nh Ne Nd dff dr act nb ri pass share = Inr m"
  shows "self_args m = args" "self_pass_pos_and_query m = pass" "well_built m de dd"
    "enc_prefix m = (if use_task_embedding_in_encoder args then 1 else 0)"
    "dec_prefix m = (if use_task_embedding_in_decoder args then 1 else 0)"
proof -
  from init show a: "self_args m = args" and "self_pass_pos_and_query m = pass"
    and "well_built m de dd"
    by (auto elim: MTTransformer_init_Inr)
  then show "enc_prefix m = (if use_task_embedding_in_encoder args then 1 else 0)"
    "dec_prefix m = (if use_task_embedding_in_decoder args then 1 else 0)"
    by (simp_all add: enc_prefix_def dec_prefix_def)
qed

lemma flat_position:
  fixes i j h w :: nat
  assumes "i < h" and "j < w"
  shows "i * w + j < h * w" and "(i * w + j) div w = i" and "(i * w + j) mod w = j"
proof -
  from assms(1) have "Suc i * w \<le> h * w"
    by (simp only: mult_le_mono1 Suc_leI)
  with assms(2) show "i * w + j < h * w" by simp
  from assms(2) show "(i * w + j) div w = i" and "(i * w + j) mod w = j"
    by simp_all
qed

text \<open>
  The arguments of the decoder's call, for the streams that are present: the query
  embedding has the task embedding before the caller's queries when the decoder side uses
  one, and the memory begins with the memory of the image branch.
\<close>

lemma fuse_shapes:
  fixes T :: "'a::{zero,plus,times} torch"
  assumes wb: "well_built m c d"
    and idx: "task_idx_ok m task_idx"
    and pass: "self_pass_pos_and_query m"
    and img: "img_src = None \<and> Li = 0 \<or> image_stream img_src img_mask img_pos bs c h w \<and> Li = h * w"
    and ker: "img_src \<noteq> None \<longrightarrow> image_kernels_ok m (h * w) bs c d"
    and tstr: "text_src = None \<and> Lt = 0 \<or> text_stream text_src text_mask text_pos bs Lt d"
    and some: "img_src \<noteq> None \<or> text_src \<noteq> None"
    and qe: "shape qe = [Q, d]"
    and look: "lookup_decoder m task_type dataset_name = Inr decoder"
  shows "\<exists>f q. MTTransformer_forward_fuse T m img_src img_mask img_pos text_src text_mask
             text_pos (Some qe) task_type dataset_name task_idx = Inr f
           \<and> fused_decoder f = decoder
           \<and> fused_tgt f = Some (torch_zeros_like q) \<and> fused_query_embed f = Some q
           \<and> shape q = [Q + dec_prefix m, bs, d]
           \<and> (\<forall>j n k. j < Q \<and> k < d \<longrightarrow> elem q [j + dec_prefix m, n, k] = elem qe [j, k])
           \<and> (use_task_embedding_in_decoder (self_args m) \<longrightarrow>
                 task_row (self_task_embeddings_dec m) task_idx d q)
           \<and> shape (fused_memories f) = [Li + Lt, bs, d]
           \<and> shape (fused_pos_embeds f) = [Li + Lt, bs, d]
           \<and> shape (fused_masks f) = [bs, Li + Lt]
           \<and> (\<forall>x mk p. img_src = Some x \<and> img_mask = Some mk \<and> img_pos = Some p \<longrightarrow>
                 (\<exists>loc mi.
                    forward_image T m x (Some mk) (Some p) (text_src = None) task_idx
                      \<lparr> loc_memories = [], loc_pos_embeds = [], loc_masks = [],
                        loc_query_embed = Some qe, loc_tgt = None \<rparr> = Inr loc
                  \<and> loc_memories loc = [mi]
                  \<and> (\<forall>l n k. l < h * w \<longrightarrow>
                        elem (fused_memories f) [l, n, k] = elem mi [l, n, k])))"
proof (cases img_src)
  case None
  with img some have Li: "Li = 0" and tn: "text_src \<noteq> None"
    by (auto simp: image_stream_def)
  with tstr obtain tx tm tp where t: "text_src = Some tx" "text_mask = Some tm"
    "text_pos = Some tp" "shape tx = [bs, Lt, d]" "shape tm = [bs, Lt]" "shape tp = [Lt, d]"
    by (auto simp: text_stream_def)
  from fuse_text_only [OF wb idx pass t(4) t(6) t(5) qe look, of T img_mask img_pos]
  obtain f q where f: "MTTransformer_forward_fuse T m None img_mask img_pos (Some tx) (Some tm)
             (Some tp) (Some qe) task_type dataset_name task_idx = Inr f"
    "fused_decoder f = decoder"
    "fused_tgt f = Some (torch_zeros_like q)" "fused_query_embed f = Some q"
    "shape q = [Q + dec_prefix m, bs, d]"
    "\<forall>j n k. j < Q \<and> k < d \<longrightarrow> elem q [j + dec_prefix m, n, k] = elem qe [j, k]"
    "use_task_embedding_in_decoder (self_args m) \<longrightarrow>
       task_row (self_task_embeddings_dec m) task_idx d q"
    "shape (fused_memories f) = [Lt, bs, d]"
    "shape (fused_pos_embeds f) = [Lt, bs, d]"
    "shape (fused_masks f) = [bs, Lt]"
    by blast
  with None t Li show ?thesis by auto
next
  case (Some x0)
  with img obtain x mk p where i: "img_src = Some x" "img_mask = Some mk" "img_pos = Some p"
    "shape x = [bs, c, h, w]" "shape mk = [bs, h, w]" "shape p = [bs, c, h, w]" "0 < h * w"
    and Li: "Li = h * w"
    by (auto simp: image_stream_def)
  from ker i(1) have enc: "encoder_keeps_shape (self_encoder m) (h * w + enc_prefix m) bs c"
    and proj1: "maps_shape (proj_forward (self_enc2dec_proj m)) [h * w, bs, c] [h * w, bs, d]"
    and proj2: "maps_shape (proj_forward (self_pos_embed_proj m)) [h * w, bs, c] [h * w, bs, d]"
    by (simp_all add: image_kernels_ok_def)
  show ?thesis
  proof (cases text_src)
    case None
    with tstr have Lt: "Lt = 0" by (auto simp: text_stream_def)
    from fuse_image_only [OF wb idx pass i(4) i(6) i(5) i(7) qe enc proj1 proj2 look,
        of T text_mask text_pos]
    obtain f q loc mi where f: "MTTransformer_forward_fuse T m (Some x) (Some mk) (Some p) None
             text_mask text_pos (Some qe) task_type dataset_name task_idx = Inr f"
      "fused_decoder f = decoder"
      "fused_tgt f = Some (torch_zeros_like q)" "fused_query_embed f = Some q"
      "shape q = [Q + dec_prefix m, bs, d]"
      "\<forall>j n k. j < Q \<and> k < d \<longrightarrow> elem q [j + dec_prefix m, n, k] = elem qe [j, k]"
      "use_task_embedding_in_decoder (self_args m) \<longrightarrow>
         task_row (self_task_embeddings_dec m) task_idx d q"
      "shape (fused_memories f) = [h * w, bs, d]"
      "shape (fused_pos_embeds f) = [h * w, bs, d]"
      "shape (fused_masks f) = [bs, h * w]"
      and g: "forward_image T m x (Some mk) (Some p) True task_idx
                \<lparr> loc_memories = [], loc_pos_embeds = [], loc_masks = [],
                  loc_query_embed = Some qe, loc_tgt = None \<rparr> = Inr loc"
      "loc_memories loc = [mi]"
      "\<forall>l n k. elem (fused_memories f) [l, n, k] = elem mi [l, n, k]"
      by blast
    from f g None i Li Lt show ?thesis by auto
  next
    case (Some tx0)
    with tstr obtain tx tm tp where t: "text_src = Some tx" "text_mask = Some tm"
      "text_pos = Some tp" "shape tx = [bs, Lt, d]" "shape tm = [bs, Lt]" "shape tp = [Lt, d]"
      by (auto simp: text_stream_def)
    from fuse_image_text [OF wb idx pass i(4) i(6) i(5) i(7) t(4) t(6) t(5) qe enc proj1 proj2
        look, of T]
    obtain f q loc mi where f: "MTTransformer_forward_fuse T m (Some x) (Some mk) (Some p)
             (Some tx) (Some tm) (Some tp) (Some qe) task_type dataset_name task_idx = Inr f"
      "fused_decoder f = decoder"
      "fused_tgt f = Some (torch_zeros_like q)" "fused_query_embed f = Some q"
      "shape q = [Q + dec_prefix m, bs, d]"
      "\<forall>j n k. j < Q \<and> k < d \<longrightarrow> elem q [j + dec_prefix m, n, k] = elem qe [j, k]"
      "use_task_embedding_in_decoder (self_args m) \<longrightarrow>
         task_row (self_task_embeddings_dec m) task_idx d q"
      "shape (fused_memories f) = [h * w + Lt, bs, d]"
      "shape (fused_pos_embeds f) = [h * w + Lt, bs, d]"
      "shape (fused_masks f) = [bs, h * w + Lt]"
      and g: "forward_image T m x (Some mk) (Some p) False task_idx
                \<lparr> loc_memories = [], loc_pos_embeds = [], loc_masks = [],
                  loc_query_embed = Some qe, loc_tgt = None \<rparr> = Inr loc"
      "loc_memories loc = [mi]"
      "\<forall>l n k. l < h * w \<longrightarrow> elem (fused_memories f) [l, n, k] = elem mi [l, n, k]"
      by blast
    from f g i t Li show ?thesis by auto
  qed
qed

text \<open>
  A forward call with \<^verbatim>\<open>pass_pos_and_query\<close> set, well-formed streams and kernels that
  keep their contracts returns; the hidden states have one entry per layer and the
  caller's number of queries, and the memory has the length of the streams together.
\<close>

lemma forward_shapes:
  fixes T :: "'a::{zero,plus,times} torch"
  assumes wb: "well_built m c d"
    and idx: "task_idx_ok m task_idx"
    and pass: "self_pass_pos_and_query m"
    and img: "img_src = None \<and> Li = 0 \<or> image_stream img_src img_mask img_pos bs c h w \<and> Li = h * w"
    and ker: "img_src \<noteq> None \<longrightarrow> image_kernels_ok m (h * w) bs c d"
    and tstr: "text_src = None \<and> Lt = 0 \<or> text_stream text_src text_mask text_pos bs Lt d"
    and some: "img_src \<noteq> None \<or> text_src \<noteq> None"
    and qe: "shape qe = [Q, d]"
    and look: "lookup_decoder m task_type dataset_name = Inr (Some dec)"
    and dec: "decoder_keeps_shape dec (Q + dec_prefix m) (Li + Lt) bs d"
      "decoder_norm dec \<noteq> None" "return_intermediate dec" "decoder_layers dec \<noteq> []"
  shows "\<exists>hs mem. MTTransformer_forward T m img_src img_mask img_pos text_src text_mask
             text_pos (Some qe) task_type dataset_name task_idx = Inr (hs, mem)
           \<and> shape hs = [length (decoder_layers dec), bs, Q, d]
           \<and> shape mem = [bs, d, Li + Lt]"
proof (cases img_src)
  case None
  with img some have Li: "Li = 0" and tn: "text_src \<noteq> None"
    by (auto simp: image_stream_def)
  with tstr obtain tx tm tp where t: "text_src = Some tx" "text_mask = Some tm"
    "text_pos = Some tp" "shape tx = [bs, Lt, d]" "shape tm = [bs, Lt]" "shape tp = [Lt, d]"
    by (auto simp: text_stream_def)
  from fuse_text_only [OF wb idx pass t(4) t(6) t(5) qe look, of T img_mask img_pos]
  obtain f q where f: "MTTransformer_forward_fuse T m None img_mask img_pos (Some tx) (Some tm)
             (Some tp) (Some qe) task_type dataset_name task_idx = Inr f"
    "fused_decoder f = Some dec"
    "fused_tgt f = Some (torch_zeros_like q)" "fused_query_embed f = Some q"
    "shape q = [Q + dec_prefix m, bs, d]"
    "shape (fused_memories f) = [Lt, bs, d]"
    "shape (fused_pos_embeds f) = [Lt, bs, d]"
    "shape (fused_masks f) = [bs, Lt]"
    by blast
  have z: "shape (torch_zeros_like q) = [Q + dec_prefix m, bs, d]"
    by (simp add: torch_zeros_like_def f(5))
  from dec(1) Li have d1: "decoder_keeps_shape dec (Q + dec_prefix m) Lt bs d"
    by simp
  from forward_from_fuse [OF f(1) wb f(2) d1 dec(2-4) f(3) z f(4,5,6,7,8)] None t Li
  show ?thesis by auto
next
  case (Some x0)
  with img obtain x mk p where i: "img_src = Some x" "img_mask = Some mk" "img_pos = Some p"
    "shape x = [bs, c, h, w]" "shape mk = [bs, h, w]" "shape p = [bs, c, h, w]" "0 < h * w"
    and Li: "Li = h * w"
    by (auto simp: image_stream_def)
  from ker i(1) have enc: "encoder_keeps_shape (self_encoder m) (h * w + enc_prefix m) bs c"
    and proj1: "maps_shape (proj_forward (self_enc2dec_proj m)) [h * w, bs, c] [h * w, bs, d]"
    and proj2: "maps_shape (proj_forward (self_pos_embed_proj m)) [h * w, bs, c] [h * w, bs, d]"
    by (simp_all add: image_kernels_ok_def)
  show ?thesis
  proof (cases text_src)
    case None
    with tstr have Lt: "Lt = 0" by (auto simp: text_stream_def)
    from fuse_image_only [OF wb idx pass i(4) i(6) i(5) i(7) qe enc proj1 proj2 look,
        of T text_mask text_pos]
    obtain f q where f: "MTTransformer_forward_fuse T m (Some x) (Some mk) (Some p) None text_mask
             text_pos (Some qe) task_type dataset_name task_idx = Inr f"
      "fused_decoder f = Some dec"
      "fused_tgt f = Some (torch_zeros_like q)" "fused_query_embed f = Some q"
      "shape q = [Q + dec_prefix m, bs, d]"
      "shape (fused_memories f) = [h * w, bs, d]"
      "shape (fused_pos_embeds f) = [h * w, bs, d]"
      "shape (fused_masks f) = [bs, h * w]"
      by blast
    have z: "shape (torch_zeros_like q) = [Q + dec_prefix m, bs, d]"
      by (simp add: torch_zeros_like_def f(5))
    from dec(1) Li Lt have d1: "decoder_keeps_shape dec (Q + dec_prefix m) (h * w) bs d"
      by simp
    from forward_from_fuse [OF f(1) wb f(2) d1 dec(2-4) f(3) z f(4,5,6,7,8)] None i Li Lt
    show ?thesis by auto
  next
    case (Some tx0)
    with tstr obtain tx tm tp where t: "text_src = Some tx" "text_mask = Some tm"
      "text_pos = Some tp" "shape tx = [bs, Lt, d]" "shape tm = [bs, Lt]" "shape tp = [Lt, d]"
      by (auto simp: text_stream_def)
    from fuse_image_text [OF wb idx pass i(4) i(6) i(5) i(7) t(4) t(6) t(5) qe enc proj1 proj2
        look, of T]
    obtain f q where f: "MTTransformer_forward_fuse T m (Some x) (Some mk) (Some p) (Some tx)
             (Some tm) (Some tp) (Some qe) task_type dataset_name task_idx = Inr f"
      "fused_decoder f = Some dec"
      "fused_tgt f = Some (torch_zeros_like q)" "fused_query_embed f = Some q"
      "shape q = [Q + dec_prefix m, bs, d]"
      "shape (fused_memories f) = [h * w + Lt, bs, d]"
      "shape (fused_pos_embeds f) = [h * w + Lt, bs, d]"
      "shape (fused_masks f) = [bs, h * w + Lt]"
      by blast
    have z: "shape (torch_zeros_like q) = [Q + dec_prefix m, bs, d]"
      by (simp add: torch_zeros_like_def f(5))
    from dec(1) Li have d1: "decoder_keeps_shape dec (Q + dec_prefix m) (h * w + Lt) bs d"
      by simp
    from forward_from_fuse [OF f(1) wb f(2) d1 dec(2-4) f(3) z f(4,5,6,7,8)] i t Li
    show ?thesis by auto
  qed
qed

section \<open>The task embedding, the fused memory and the scenario\<close>

text \<open>
  Claim C2.  Take a model constructed with \<^verbatim>\<open>pass_pos_and_query\<close> and the return of
  intermediate layers set and at least one decoder layer, a forward call whose streams are
  well formed (at least one is present), a usable task index, and kernels that keep
  their contracts on arguments of the shapes that belong together.  The call returns.

  On the decoder side, the query embedding \<open>q\<close> given to the decoder has the caller's \<open>Q\<close>
  queries after \<open>dec_prefix\<close> positions (one or none), and position 0 is the task
  embedding if there is one.  The decoder returns a stack \<open>ds\<close> of \<open>Q + dec_prefix\<close>
  queries per layer, and the hidden states \<open>hs\<close> the caller receives have \<open>Q\<close> queries
  per layer: query \<open>j\<close> of \<open>hs\<close> is query \<open>j + dec_prefix\<close> of \<open>ds\<close>, so it is position 0,
  the task embedding's, that is left out.

  On the encoder side, when an image is present, the sequence \<open>x'\<close> given to the encoder
  has the image's \<open>h * w\<close> positions after \<open>enc_prefix\<close> positions, and position 0 is the
  task embedding if there is one, not masked as padding.  The encoder's output \<open>eo\<close> has
  the same length.  The tensor \<open>m0\<close> that goes through the projection into the memory
  \<open>mi\<close> of the image has \<open>h * w\<close> positions: position \<open>l\<close> of \<open>m0\<close> is position
  \<open>l + enc_prefix\<close> of \<open>eo\<close> (with the encoder's input added when the residual is in use),
  which is the position of the image's \<open>l\<close>.  The memory the caller receives is the fused
  memory, permuted, which begins with \<open>mi\<close>.
\<close>

theorem task_embedding_prefix_stripped:
  fixes T :: "'a::{zero,plus,times} torch"
  assumes init: "MTTransformer_init T args de dd nh Ne Nd dff dr act nb True True share = Inr self"
    and Nd: "0 < Nd"
    and idx: "use_task_embedding_in_encoder args \<or> use_task_embedding_in_decoder args
                \<longrightarrow> task_idx_in_range task_idx"
    and img: "img_src = None \<and> Li = 0
                \<or> image_stream img_src img_mask img_pos bs de h w \<and> Li = h * w"
    and ker: "img_src \<noteq> None \<longrightarrow> image_kernels_ok self (h * w) bs de dd"
    and tstr: "text_src = None \<and> Lt = 0 \<or> text_stream text_src text_mask text_pos bs Lt dd"
    and some: "img_src \<noteq> None \<or> text_src \<noteq> None"
    and qe: "shape qe = [Q, dd]"
    and look: "lookup_decoder self task_type dataset_name = Inr (Some dec)"
    and dec: "decoder_keeps_shape dec (Q + dec_prefix self) (Li + Lt) bs dd"
  shows "\<exists>f q ds hs mem.
           MTTransformer_forward_fuse T self img_src img_mask img_pos text_src text_mask
             text_pos (Some qe) task_type dataset_name task_idx = Inr f
         \<and> fused_decoder f = Some dec
         \<and> fused_tgt f = Some (torch_zeros_like q)
         \<and> fused_query_embed f = Some q
         \<and> shape q = [Q + dec_prefix self, bs, dd]
         \<and> (use_task_embedding_in_decoder args \<longrightarrow>
               task_row (self_task_embeddings_dec self) task_idx dd q)
         \<and> (\<forall>j n k. j < Q \<and> k < dd \<longrightarrow> elem q [j + dec_prefix self, n, k] = elem qe [j, k])
         \<and> call_decoder (fused_decoder f) (torch_zeros_like q) (fused_memories f)
               (Some (fused_masks f)) (Some (fused_pos_embeds f)) (fused_query_embed f) = Inr ds
         \<and> shape ds = [Nd, Q + dec_prefix self, bs, dd]
         \<and> MTTransformer_forward T self img_src img_mask img_pos text_src text_mask
               text_pos (Some qe) task_type dataset_name task_idx = Inr (hs, mem)
         \<and> shape hs = [Nd, bs, Q, dd]
         \<and> (\<forall>i n j k. elem hs [i, n, j, k] = elem ds [i, j + dec_prefix self, n, k])
         \<and> shape mem = [bs, dd, Li + Lt]
         \<and> (\<forall>n k l. elem mem [n, k, l] = elem (fused_memories f) [l, n, k])
         \<and> (\<forall>x mk p. img_src = Some x \<and> img_mask = Some mk \<and> img_pos = Some p \<longrightarrow>
               (\<exists>x' mk' p' tgt0 qe0 eo m0 mi.
                  forward_image_inputs T self x (Some mk) (Some p) (text_src = None) task_idx
                    \<lparr> loc_memories = [], loc_pos_embeds = [], loc_masks = [],
                      loc_query_embed = Some qe, loc_tgt = None \<rparr>
                    = Inr (x', mk', Some p', tgt0, qe0)
                \<and> shape x' = [h * w + enc_prefix self, bs, de]
                \<and> shape mk' = [bs, h * w + enc_prefix self]
                \<and> (use_task_embedding_in_encoder args \<longrightarrow>
                      task_row (self_task_embeddings_enc self) task_idx de x'
                    \<and> (\<forall>n. \<not> elem mk' [n, 0]))
                \<and> (\<forall>l n k. elem x' [l + enc_prefix self, n, k] = elem x [n, k, l div w, l mod w])
                \<and> TransformerEncoder_forward (self_encoder self) x' None (Some mk') (Some p')
                    = Inr eo
                \<and> shape eo = [h * w + enc_prefix self, bs, de]
                \<and> shape m0 = [h * w, bs, de]
                \<and> (\<forall>l n k. l < h * w \<and> n < bs \<and> k < de \<longrightarrow>
                      elem m0 [l, n, k]
                        = (if residual_in_encoder args
                           then elem x' [l + enc_prefix self, n, k]
                                  + elem eo [l + enc_prefix self, n, k]
                           else elem eo [l + enc_prefix self, n, k]))
                \<and> proj_forward (self_enc2dec_proj self) m0 = Inr mi
                \<and> shape mi = [h * w, bs, dd]
                \<and> (\<forall>l n k. l < h * w \<longrightarrow>
                      elem (fused_memories f) [l, n, k] = elem mi [l, n, k])))"
proof -
  note m = built_model_facts [OF init]
  let ?loc0 = "\<lparr> loc_memories = [], loc_pos_embeds = [], loc_masks = [],
                 loc_query_embed = Some qe, loc_tgt = None \<rparr> :: 'a locals"
  from idx m(1) have ok: "task_idx_ok self task_idx"
    by (simp add: task_idx_ok_def)
  from lookup_decoder_props [OF init look] Nd
  have d: "decoder_norm dec \<noteq> None" "return_intermediate dec" "decoder_layers dec \<noteq> []"
    and len: "length (decoder_layers dec) = Nd"
    by auto
  from m(2) have pass: "self_pass_pos_and_query self" by simp
  from fuse_shapes [OF m(3) ok pass img ker tstr some qe look, of T]
  obtain f q where f:
    "MTTransformer_forward_fuse T self img_src img_mask img_pos text_src text_mask
       text_pos (Some qe) task_type dataset_name task_idx = Inr f"
    "fused_decoder f = Some dec"
    "fused_tgt f = Some (torch_zeros_like q)" "fused_query_embed f = Some q"
    "shape q = [Q + dec_prefix self, bs, dd]"
    "\<forall>j n k. j < Q \<and> k < dd \<longrightarrow> elem q [j + dec_prefix self, n, k] = elem qe [j, k]"
    "use_task_embedding_in_decoder (self_args self) \<longrightarrow>
       task_row (self_task_embeddings_dec self) task_idx dd q"
    "shape (fused_memories f) = [Li + Lt, bs, dd]"
    "shape (fused_pos_embeds f) = [Li + Lt, bs, dd]"
    "shape (fused_masks f) = [bs, Li + Lt]"
    and im: "\<forall>x mk p. img_src = Some x \<and> img_mask = Some mk \<and> img_pos = Some p \<longrightarrow>
                 (\<exists>loc mi.
                    forward_image T self x (Some mk) (Some p) (text_src = None) task_idx ?loc0
                      = Inr loc
                  \<and> loc_memories loc = [mi]
                  \<and> (\<forall>l n k. l < h * w \<longrightarrow>
                        elem (fused_memories f) [l, n, k] = elem mi [l, n, k]))"
    by blast
  have z: "shape (torch_zeros_like q) = [Q + dec_prefix self, bs, dd]"
    by (simp add: torch_zeros_like_def f(5))
  from forward_from_fuse [OF f(1) m(3) f(2) dec d f(3) z f(4,5) f(8,9,10)]
  obtain ds hs mem where r:
    "call_decoder (Some dec) (torch_zeros_like q) (fused_memories f) (Some (fused_masks f))
       (Some (fused_pos_embeds f)) (Some q) = Inr ds"
    "shape ds = [length (decoder_layers dec), Q + dec_prefix self, bs, dd]"
    "MTTransformer_forward T self img_src img_mask img_pos text_src text_mask
       text_pos (Some qe) task_type dataset_name task_idx = Inr (hs, mem)"
    "shape hs = [length (decoder_layers dec), bs, Q, dd]"
    "\<forall>i n j k. elem hs [i, n, j, k] = elem ds [i, j + dec_prefix self, n, k]"
    "shape mem = [bs, dd, Li + Lt]"
    "\<forall>n k l. elem mem [n, k, l] = elem (fused_memories f) [l, n, k]"
    by blast
  have image: "\<forall>x mk p. img_src = Some x \<and> img_mask = Some mk \<and> img_pos = Some p \<longrightarrow>
               (\<exists>x' mk' p' tgt0 qe0 eo m0 mi.
                  forward_image_inputs T self x (Some mk) (Some p) (text_src = None) task_idx
                    ?loc0 = Inr (x', mk', Some p', tgt0, qe0)
                \<and> shape x' = [h * w + enc_prefix self, bs, de]
                \<and> shape mk' = [bs, h * w + enc_prefix self]
                \<and> (use_task_embedding_in_encoder args \<longrightarrow>
                      task_row (self_task_embeddings_enc self) task_idx de x'
                    \<and> (\<forall>n. \<not> elem mk' [n, 0]))
                \<and> (\<forall>l n k. elem x' [l + enc_prefix self, n, k] = elem x [n, k, l div w, l mod w])
                \<and> TransformerEncoder_forward (self_encoder self) x' None (Some mk') (Some p')
                    = Inr eo
                \<and> shape eo = [h * w + enc_prefix self, bs, de]
                \<and> shape m0 = [h * w, bs, de]
                \<and> (\<forall>l n k. l < h * w \<and> n < bs \<and> k < de \<longrightarrow>
                      elem m0 [l, n, k]
                        = (if residual_in_encoder args
                           then elem x' [l + enc_prefix self, n, k]
                                  + elem eo [l + enc_prefix self, n, k]
                           else elem eo [l + enc_prefix self, n, k]))
                \<and> proj_forward (self_enc2dec_proj self) m0 = Inr mi
                \<and> shape mi = [h * w, bs, dd]
                \<and> (\<forall>l n k. l < h * w \<longrightarrow>
                      elem (fused_memories f) [l, n, k] = elem mi [l, n, k]))"
  proof (intro allI impI)
    fix x mk p
    assume s: "img_src = Some x \<and> img_mask = Some mk \<and> img_pos = Some p"
    with img have sh: "shape x = [bs, de, h, w]" "shape mk = [bs, h, w]"
      "shape p = [bs, de, h, w]" "0 < h * w"
      by (auto simp: image_stream_def)
    from ker s have enc: "encoder_keeps_shape (self_encoder self) (h * w + enc_prefix self) bs de"
      and proj1: "maps_shape (proj_forward (self_enc2dec_proj self)) [h * w, bs, de] [h * w, bs, dd]"
      and proj2: "maps_shape (proj_forward (self_pos_embed_proj self)) [h * w, bs, de] [h * w, bs, dd]"
      by (simp_all add: image_kernels_ok_def)
    from idx m(1)
    have ie: "use_task_embedding_in_encoder (self_args self) \<longrightarrow> task_idx_in_range task_idx"
      by simp
    have qh: "text_src = None \<longrightarrow> self_pass_pos_and_query self
              \<and> (use_task_embedding_in_decoder (self_args self) \<longrightarrow> task_idx_in_range task_idx)
              \<and> loc_query_embed ?loc0 = Some qe \<and> shape qe = [Q, dd]"
      using idx m(1,2) qe by simp
    from forward_image_parts [OF m(3) ie sh(1) sh(3) sh(2) sh(4) qh enc proj1 proj2, of T]
    obtain x' mk' p' eo m0 mem1 pe fm tgt0 qe0 where parts:
      "forward_image_inputs T self x (Some mk) (Some p) (text_src = None) task_idx ?loc0
         = Inr (x', mk', Some p', tgt0, qe0)"
      "shape x' = [h * w + enc_prefix self, bs, de]"
      "shape mk' = [bs, h * w + enc_prefix self]"
      "\<forall>l n k. elem x' [l + enc_prefix self, n, k] = elem x [n, k, l div w, l mod w]"
      "use_task_embedding_in_encoder (self_args self) \<longrightarrow>
         task_row (self_task_embeddings_enc self) task_idx de x' \<and> (\<forall>n. \<not> elem mk' [n, 0])"
      "TransformerEncoder_forward (self_encoder self) x' None (Some mk') (Some p') = Inr eo"
      "shape eo = [h * w + enc_prefix self, bs, de]"
      "shape m0 = [h * w, bs, de]"
      "\<forall>l n k. l < h * w \<and> n < bs \<and> k < de \<longrightarrow>
         elem m0 [l, n, k]
           = (if residual_in_encoder (self_args self)
              then elem x' [l + enc_prefix self, n, k] + elem eo [l + enc_prefix self, n, k]
              else elem eo [l + enc_prefix self, n, k])"
      "proj_forward (self_enc2dec_proj self) m0 = Inr mem1"
      and fi: "forward_image T self x (Some mk) (Some p) (text_src = None) task_idx ?loc0
         = Inr \<lparr> loc_memories = loc_memories ?loc0 @ [mem1],
                 loc_pos_embeds = loc_pos_embeds ?loc0 @ [Some pe],
                 loc_masks = loc_masks ?loc0 @ [Some fm],
                 loc_query_embed = qe0, loc_tgt = tgt0 \<rparr>"
      and shm: "shape mem1 = [h * w, bs, dd]"
      by (elim exE conjE) (rule that, assumption+)
    from im s obtain loc mi where l:
      "forward_image T self x (Some mk) (Some p) (text_src = None) task_idx ?loc0 = Inr loc"
      "loc_memories loc = [mi]"
      "\<forall>l n k. l < h * w \<longrightarrow> elem (fused_memories f) [l, n, k] = elem mi [l, n, k]"
      by blast
    from fi l(1,2) have "mi = mem1" by auto
    with l(3) have fm: "\<forall>l n k. l < h * w \<longrightarrow>
        elem (fused_memories f) [l, n, k] = elem mem1 [l, n, k]"
      by simp
    from parts(5,9) m(1)
    have p5: "use_task_embedding_in_encoder args \<longrightarrow>
         task_row (self_task_embeddings_enc self) task_idx de x' \<and> (\<forall>n. \<not> elem mk' [n, 0])"
      and p9: "\<forall>l n k. l < h * w \<and> n < bs \<and> k < de \<longrightarrow>
         elem m0 [l, n, k]
           = (if residual_in_encoder args
              then elem x' [l + enc_prefix self, n, k] + elem eo [l + enc_prefix self, n, k]
              else elem eo [l + enc_prefix self, n, k])"
      by simp_all
    from parts(1,2,3) p5 parts(4,6,7,8) p9 parts(10) shm fm
    show "\<exists>x' mk' p' tgt0 qe0 eo m0 mi.
                  forward_image_inputs T self x (Some mk) (Some p) (text_src = None) task_idx
                    ?loc0 = Inr (x', mk', Some p', tgt0, qe0)
                \<and> shape x' = [h * w + enc_prefix self, bs, de]
                \<and> shape mk' = [bs, h * w + enc_prefix self]
                \<and> (use_task_embedding_in_encoder args \<longrightarrow>
                      task_row (self_task_embeddings_enc self) task_idx de x'
                    \<and> (\<forall>n. \<not> elem mk' [n, 0]))
                \<and> (\<forall>l n k. elem x' [l + enc_prefix self, n, k] = elem x [n, k, l div w, l mod w])
                \<and> TransformerEncoder_forward (self_encoder self) x' None (Some mk') (Some p')
                    = Inr eo
                \<and> shape eo = [h * w + enc_prefix self, bs, de]
                \<and> shape m0 = [h * w, bs, de]
                \<and> (\<forall>l n k. l < h * w \<and> n < bs \<and> k < de \<longrightarrow>
                      elem m0 [l, n, k]
                        = (if residual_in_encoder args
                           then elem x' [l + enc_prefix self, n, k]
                                  + elem eo [l + enc_prefix self, n, k]
                           else elem eo [l + enc_prefix self, n, k]))
                \<and> proj_forward (self_enc2dec_proj self) m0 = Inr mi
                \<and> shape mi = [h * w, bs, dd]
                \<and> (\<forall>l n k. l < h * w \<longrightarrow>
                      elem (fused_memories f) [l, n, k] = elem mi [l, n, k])"
      by blast
  qed
  from f(7) m(1) have row: "use_task_embedding_in_decoder args \<longrightarrow>
      task_row (self_task_embeddings_dec self) task_idx dd q"
    by simp
  from r(1) f(2,4) have cd: "call_decoder (fused_decoder f) (torch_zeros_like q)
      (fused_memories f) (Some (fused_masks f)) (Some (fused_pos_embeds f))
      (fused_query_embed f) = Inr ds"
    by simp
  from r(2,4) len have shp: "shape ds = [Nd, Q + dec_prefix self, bs, dd]"
    "shape hs = [Nd, bs, Q, dd]"
    by simp_all
  from f(1,2,3,4,5) row f(6) cd shp(1) r(3) shp(2) r(5,6,7) image
  show ?thesis by blast
qed

theorem task_embedding_prefix_stripped_witness:
  "\<exists>f q ds hs mem x' mk' p' tgt0 qe0 eo.
      MTTransformer_forward_fuse torch1 mt_multi1 (Some (ones [1, 8, 2, 2]))
        (Some (no_padding [1, 2, 2])) (Some (ones [1, 8, 2, 2]))
        (Some (ones [1, 3, 8])) (Some (ones [1, 3])) (Some (ones [3, 8])) (Some (ones [5, 8]))
        (Some ''vqa'') (Some ''vqa2'') (Some 3) = Inr f
    \<and> fused_query_embed f = Some q \<and> shape q = [6, 1, 8]
    \<and> elem q [0, 0, 0] = 7 \<and> elem q [1, 0, 0] = 1
    \<and> call_decoder (fused_decoder f) (torch_zeros_like q) (fused_memories f)
         (Some (fused_masks f)) (Some (fused_pos_embeds f)) (fused_query_embed f) = Inr ds
    \<and> shape ds = [2, 6, 1, 8]
    \<and> MTTransformer_forward torch1 mt_multi1 (Some (ones [1, 8, 2, 2]))
        (Some (no_padding [1, 2, 2])) (Some (ones [1, 8, 2, 2]))
        (Some (ones [1, 3, 8])) (Some (ones [1, 3])) (Some (ones [3, 8])) (Some (ones [5, 8]))
        (Some ''vqa'') (Some ''vqa2'') (Some 3) = Inr (hs, mem)
    \<and> shape hs = [2, 1, 5, 8]
    \<and> (\<forall>i n j k. elem hs [i, n, j, k] = elem ds [i, j + 1, n, k])
    \<and> shape mem = [1, 8, 7]
    \<and> forward_image_inputs torch1 mt_multi1 (ones [1, 8, 2, 2]) (Some (no_padding [1, 2, 2]))
        (Some (ones [1, 8, 2, 2])) False (Some 3)
        \<lparr> loc_memories = [], loc_pos_embeds = [], loc_masks = [],
          loc_query_embed = Some (ones [5, 8]), loc_tgt = None \<rparr>
        = Inr (x', mk', Some p', tgt0, qe0)
    \<and> shape x' = [5, 1, 8] \<and> elem x' [0, 0, 0] = 7 \<and> elem x' [1, 0, 0] = 1
    \<and> \<not> elem mk' [0, 0]
    \<and> TransformerEncoder_forward (self_encoder mt_multi1) x' None (Some mk') (Some p') = Inr eo
    \<and> shape eo = [5, 1, 8]"
proof -
  let ?loc0 = "\<lparr> loc_memories = [], loc_pos_embeds = [], loc_masks = [],
                 loc_query_embed = Some (ones [5, 8]), loc_tgt = None \<rparr> :: int locals"
  note m = built_model_facts [OF fixture_inits1(2)]
  have flags: "use_task_embedding_in_encoder args_multi" "use_task_embedding_in_decoder args_multi"
    by (simp_all add: args_multi_def)
  from m(4,5) flags have pre: "enc_prefix mt_multi1 = 1" "dec_prefix mt_multi1 = 1"
    by simp_all
  from built_task_embeddings [OF fixture_inits1(2)] flags
  have tables: "self_task_embeddings_enc mt_multi1
        = Some (nn_Embedding torch1 [''task_embeddings_enc''] MAX_TASK_NUM 8)"
    "self_task_embeddings_dec mt_multi1
        = Some (nn_Embedding torch1 [''task_embeddings_dec''] MAX_TASK_NUM 8)"
    by simp_all
  have seven: "\<And>p n d idx. elem (nn_Embedding torch1 p n d) idx = 7"
    by (simp add: nn_Embedding_def torch1_def torch0_def)
  have Nd: "(0::nat) < 2" by simp
  have idx: "use_task_embedding_in_encoder args_multi \<or> use_task_embedding_in_decoder args_multi
      \<longrightarrow> task_idx_in_range (Some 3)"
    by (simp add: task_idx_in_range_def MAX_TASK_NUM_def)
  have img: "Some (ones [1, 8, 2, 2]) = None \<and> (4::nat) = 0
      \<or> image_stream (Some (ones [1, 8, 2, 2])) (Some (no_padding [1, 2, 2]))
           (Some (ones [1, 8, 2, 2])) 1 8 2 2 \<and> (4::nat) = 2 * 2"
    by (simp add: image_stream_def ones_def no_padding_def)
  have ker: "Some (ones [1, 8, 2, 2]) \<noteq> None \<longrightarrow> image_kernels_ok mt_multi1 (2 * 2) 1 8 8"
    using fixture_kernels1 [OF fixture_inits1(2)] by simp
  have tstr: "Some (ones [1, 3, 8]) = None \<and> (3::nat) = 0
      \<or> text_stream (Some (ones [1, 3, 8])) (Some (ones [1, 3])) (Some (ones [3, 8])) 1 3 8"
    by (simp add: text_stream_def ones_def)
  have some: "Some (ones [1, 8, 2, 2]) \<noteq> None \<or> Some (ones [1, 3, 8]) \<noteq> None"
    by simp
  have qe: "shape (ones [5, 8]) = [5, 8]" by (simp add: ones_def)
  have look: "lookup_decoder mt_multi1 (Some ''vqa'') (Some ''vqa2'') = Inr (Some decoder1)"
    by (rule fixture_lookup1 [OF fixture_inits1(2)])
       (simp add: registered_def args_multi_def args_scenario_def)
  from task_embedding_prefix_stripped [OF fixture_inits1(2) Nd idx img ker tstr some qe look
      decoder1_keeps_shape]
  obtain f :: "int fused" and q ds hs mem where r:
    "MTTransformer_forward_fuse torch1 mt_multi1 (Some (ones [1, 8, 2, 2]))
        (Some (no_padding [1, 2, 2])) (Some (ones [1, 8, 2, 2]))
        (Some (ones [1, 3, 8])) (Some (ones [1, 3])) (Some (ones [3, 8])) (Some (ones [5, 8]))
        (Some ''vqa'') (Some ''vqa2'') (Some 3) = Inr f"
    "fused_query_embed f = Some q"
    "shape q = [5 + dec_prefix mt_multi1, 1, 8]"
    "use_task_embedding_in_decoder args_multi \<longrightarrow>
       task_row (self_task_embeddings_dec mt_multi1) (Some 3) 8 q"
    "\<forall>j n k. j < 5 \<and> k < 8 \<longrightarrow>
       elem q [j + dec_prefix mt_multi1, n, k] = elem (ones [5, 8]) [j, k]"
    "call_decoder (fused_decoder f) (torch_zeros_like q) (fused_memories f)
         (Some (fused_masks f)) (Some (fused_pos_embeds f)) (fused_query_embed f) = Inr ds"
    "shape ds = [2, 5 + dec_prefix mt_multi1, 1, 8]"
    "MTTransformer_forward torch1 mt_multi1 (Some (ones [1, 8, 2, 2]))
        (Some (no_padding [1, 2, 2])) (Some (ones [1, 8, 2, 2]))
        (Some (ones [1, 3, 8])) (Some (ones [1, 3])) (Some (ones [3, 8])) (Some (ones [5, 8]))
        (Some ''vqa'') (Some ''vqa2'') (Some 3) = Inr (hs, mem)"
    "shape hs = [2, 1, 5, 8]"
    "\<forall>i n j k. elem hs [i, n, j, k] = elem ds [i, j + dec_prefix mt_multi1, n, k]"
    "shape mem = [1, 8, 4 + 3]"
    and im: "\<forall>x mk p. Some (ones [1, 8, 2, 2]) = Some x \<and> Some (no_padding [1, 2, 2]) = Some mk
          \<and> Some (ones [1, 8, 2, 2]) = Some p \<longrightarrow>
               (\<exists>x' mk' p' tgt0 qe0 eo m0 mi.
                  forward_image_inputs torch1 mt_multi1 x (Some mk) (Some p)
                    (Some (ones [1, 3, 8]) = None) (Some 3) ?loc0
                    = Inr (x', mk', Some p', tgt0, qe0)
                \<and> shape x' = [2 * 2 + enc_prefix mt_multi1, 1, 8]
                \<and> shape mk' = [1, 2 * 2 + enc_prefix mt_multi1]
                \<and> (use_task_embedding_in_encoder args_multi \<longrightarrow>
                      task_row (self_task_embeddings_enc mt_multi1) (Some 3) 8 x'
                    \<and> (\<forall>n. \<not> elem mk' [n, 0]))
                \<and> (\<forall>l n k. elem x' [l + enc_prefix mt_multi1, n, k]
                      = elem x [n, k, l div 2, l mod 2])
                \<and> TransformerEncoder_forward (self_encoder mt_multi1) x' None (Some mk')
                    (Some p') = Inr eo
                \<and> shape eo = [2 * 2 + enc_prefix mt_multi1, 1, 8]
                \<and> shape m0 = [2 * 2, 1, 8]
                \<and> (\<forall>l n k. l < 2 * 2 \<and> n < 1 \<and> k < 8 \<longrightarrow>
                      elem m0 [l, n, k]
                        = (if residual_in_encoder args_multi
                           then elem x' [l + enc_prefix mt_multi1, n, k]
                                  + elem eo [l + enc_prefix mt_multi1, n, k]
                           else elem eo [l + enc_prefix mt_multi1, n, k]))
                \<and> proj_forward (self_enc2dec_proj mt_multi1) m0 = Inr mi
                \<and> shape mi = [2 * 2, 1, 8]
                \<and> (\<forall>l n k. l < 2 * 2 \<longrightarrow>
                      elem (fused_memories f) [l, n, k] = elem mi [l, n, k]))"
    by (elim exE conjE) (rule that, assumption+)
  from im obtain x' mk' p' tgt0 qe0 eo where i:
    "forward_image_inputs torch1 mt_multi1 (ones [1, 8, 2, 2]) (Some (no_padding [1, 2, 2]))
        (Some (ones [1, 8, 2, 2])) False (Some 3) ?loc0 = Inr (x', mk', Some p', tgt0, qe0)"
    "shape x' = [2 * 2 + enc_prefix mt_multi1, 1, 8]"
    "use_task_embedding_in_encoder args_multi \<longrightarrow>
       task_row (self_task_embeddings_enc mt_multi1) (Some 3) 8 x' \<and> (\<forall>n. \<not> elem mk' [n, 0])"
    "\<forall>l n k. elem x' [l + enc_prefix mt_multi1, n, k]
       = elem (ones [1, 8, 2, 2]) [n, k, l div 2, l mod 2]"
    "TransformerEncoder_forward (self_encoder mt_multi1) x' None (Some mk') (Some p') = Inr eo"
    "shape eo = [2 * 2 + enc_prefix mt_multi1, 1, 8]"
    by auto
  from r(4) flags tables seven have q0: "elem q [0, 0, 0] = 7"
    by (auto simp: task_row_def)
  from r(5) [rule_format, of 0 0 0] pre have q1: "elem q [1, 0, 0] = 1"
    by (simp add: ones_def)
  from i(3) flags tables seven have x0: "elem x' [0, 0, 0] = 7" and k0: "\<not> elem mk' [0, 0]"
    by (auto simp: task_row_def)
  from i(4) [rule_format, of 0 0 0] pre have x1: "elem x' [1, 0, 0] = 1"
    by (simp add: ones_def)
  from r(3,7,10,11) i(2,6) pre
  have s: "shape q = [6, 1, 8]" "shape ds = [2, 6, 1, 8]"
    "\<forall>i n j k. elem hs [i, n, j, k] = elem ds [i, j + 1, n, k]"
    "shape mem = [1, 8, 7]" "shape x' = [5, 1, 8]" "shape eo = [5, 1, 8]"
    by simp_all
  from r(1,2) s(1) q0 q1 r(6) s(2) r(8,9) s(3,4) i(1) s(5) x0 x1 k0 i(5) s(6)
  show ?thesis by blast
qed

text \<open>
  Claim C3.  Take a model constructed with \<^verbatim>\<open>pass_pos_and_query\<close> and the return of
  intermediate layers set and at least one decoder layer, a forward call with a well-formed
  image and a well-formed text, a usable task index, and kernels that keep their contracts
  on arguments of the shapes that belong together.
  The call returns, and the memory it returns and gives to the decoder has length
  \<open>h * w + Lt\<close>: its first \<open>h * w\<close> positions are the image branch's memory \<open>mi\<close>, the
  next \<open>Lt\<close> are the text.  The mask given to the decoder has the same length: at the
  flattened position of \<open>(i, j)\<close> it is the image mask at \<open>(i, j)\<close>, and at offset \<open>h * w + l\<close>
  it marks padding exactly where the text mask at \<open>l\<close> is not 1, which is how the text
  stream marks padding.
\<close>

theorem fused_memory_image_then_text:
  fixes T :: "'a::{zero,plus,times} torch"
  assumes init: "MTTransformer_init T args de dd nh Ne Nd dff dr act nb True True share = Inr self"
    and Nd: "0 < Nd"
    and idx: "use_task_embedding_in_encoder args \<or> use_task_embedding_in_decoder args
                \<longrightarrow> task_idx_in_range task_idx"
    and x: "shape x = [bs, de, h, w]"
    and p: "shape p = [bs, de, h, w]"
    and mk: "shape mk = [bs, h, w]"
    and pos: "0 < h * w"
    and tx: "shape tx = [bs, Lt, dd]"
    and tp: "shape tp = [Lt, dd]"
    and tm: "shape tm = [bs, Lt]"
    and qe: "shape qe = [Q, dd]"
    and ker: "image_kernels_ok self (h * w) bs de dd"
    and look: "lookup_decoder self task_type dataset_name = Inr (Some dec)"
    and dec: "decoder_keeps_shape dec (Q + dec_prefix self) (h * w + Lt) bs dd"
  shows "\<exists>f hs mem loc mi.
           MTTransformer_forward_fuse T self (Some x) (Some mk) (Some p) (Some tx) (Some tm)
             (Some tp) (Some qe) task_type dataset_name task_idx = Inr f
         \<and> MTTransformer_forward T self (Some x) (Some mk) (Some p) (Some tx) (Some tm)
             (Some tp) (Some qe) task_type dataset_name task_idx = Inr (hs, mem)
         \<and> forward_image T self x (Some mk) (Some p) False task_idx
             \<lparr> loc_memories = [], loc_pos_embeds = [], loc_masks = [],
               loc_query_embed = Some qe, loc_tgt = None \<rparr> = Inr loc
         \<and> loc_memories loc = [mi] \<and> shape mi = [h * w, bs, dd]
         \<and> shape mem = [bs, dd, h * w + Lt]
         \<and> shape (fused_memories f) = [h * w + Lt, bs, dd]
         \<and> shape (fused_masks f) = [bs, h * w + Lt]
         \<and> (\<forall>n k l. elem mem [n, k, l] = elem (fused_memories f) [l, n, k])
         \<and> (\<forall>l n k. l < h * w \<longrightarrow> elem (fused_memories f) [l, n, k] = elem mi [l, n, k])
         \<and> (\<forall>l n k. elem (fused_memories f) [h * w + l, n, k] = elem tx [n, l, k])
         \<and> (\<forall>n i j. i < h \<and> j < w \<longrightarrow> elem (fused_masks f) [n, i * w + j] = elem mk [n, i, j])
         \<and> (\<forall>n l. elem (fused_masks f) [n, h * w + l] = (elem tm [n, l] \<noteq> 1))"
proof -
  note m = built_model_facts [OF init]
  from idx m(1) have ok: "task_idx_ok self task_idx"
    by (simp add: task_idx_ok_def)
  from lookup_decoder_props [OF init look] Nd
  have d: "decoder_norm dec \<noteq> None" "return_intermediate dec" "decoder_layers dec \<noteq> []"
    by auto
  from m(2) have pass: "self_pass_pos_and_query self" by simp
  from ker have enc: "encoder_keeps_shape (self_encoder self) (h * w + enc_prefix self) bs de"
    and proj1: "maps_shape (proj_forward (self_enc2dec_proj self)) [h * w, bs, de] [h * w, bs, dd]"
    and proj2: "maps_shape (proj_forward (self_pos_embed_proj self)) [h * w, bs, de] [h * w, bs, dd]"
    by (simp_all add: image_kernels_ok_def)
  from fuse_image_text [OF m(3) ok pass x p mk pos tx tp tm qe enc proj1 proj2 look, of T]
  obtain f q loc mi where f:
    "MTTransformer_forward_fuse T self (Some x) (Some mk) (Some p) (Some tx)
             (Some tm) (Some tp) (Some qe) task_type dataset_name task_idx = Inr f"
    "fused_decoder f = Some dec"
    "fused_tgt f = Some (torch_zeros_like q)" "fused_query_embed f = Some q"
    "shape q = [Q + dec_prefix self, bs, dd]"
    "shape (fused_memories f) = [h * w + Lt, bs, dd]"
    "shape (fused_pos_embeds f) = [h * w + Lt, bs, dd]"
    and g: "shape (fused_masks f) = [bs, h * w + Lt]"
    "forward_image T self x (Some mk) (Some p) False task_idx
                \<lparr> loc_memories = [], loc_pos_embeds = [], loc_masks = [],
                  loc_query_embed = Some qe, loc_tgt = None \<rparr> = Inr loc"
    "loc_memories loc = [mi]" "shape mi = [h * w, bs, dd]"
    and e: "\<forall>l n k. l < h * w \<longrightarrow> elem (fused_memories f) [l, n, k] = elem mi [l, n, k]"
    "\<forall>l n k. elem (fused_memories f) [h * w + l, n, k] = elem tx [n, l, k]"
    "\<forall>n l. l < h * w \<longrightarrow> elem (fused_masks f) [n, l] = elem mk [n, l div w, l mod w]"
    "\<forall>n l. elem (fused_masks f) [n, h * w + l] = (elem tm [n, l] \<noteq> 1)"
    by blast
  have z: "shape (torch_zeros_like q) = [Q + dec_prefix self, bs, dd]"
    by (simp add: torch_zeros_like_def f(5))
  from forward_from_fuse [OF f(1) m(3) f(2) dec d f(3) z f(4,5,6,7) g(1)]
  obtain hs mem where r:
    "MTTransformer_forward T self (Some x) (Some mk) (Some p) (Some tx) (Some tm)
             (Some tp) (Some qe) task_type dataset_name task_idx = Inr (hs, mem)"
    "shape mem = [bs, dd, h * w + Lt]"
    "\<forall>n k l. elem mem [n, k, l] = elem (fused_memories f) [l, n, k]"
    by blast
  have k: "\<forall>n i j. i < h \<and> j < w \<longrightarrow> elem (fused_masks f) [n, i * w + j] = elem mk [n, i, j]"
    using e(3) flat_position by simp
  from f(1,6) g e(1,2,4) r k show ?thesis by blast
qed

theorem fused_memory_image_then_text_witness:
  "\<exists>hs mem. MTTransformer_forward torch1 mt_multi1 (Some (ones [1, 8, 2, 2]))
       (Some (no_padding [1, 2, 2])) (Some (ones [1, 8, 2, 2]))
       (Some (ones [1, 3, 8])) (Some (ones [1, 3])) (Some (ones [3, 8])) (Some (ones [5, 8]))
       (Some ''detection'') (Some ''coco'') (Some 0) = Inr (hs, mem)
     \<and> shape mem = [1, 8, 7]
     \<and> elem mem [0, 0, 4] = 1"
proof -
  have idx: "use_task_embedding_in_encoder args_multi \<or> use_task_embedding_in_decoder args_multi
      \<longrightarrow> task_idx_in_range (Some 0)"
    by (simp add: task_idx_in_range_def MAX_TASK_NUM_def)
  have look: "lookup_decoder mt_multi1 (Some ''detection'') (Some ''coco'') = Inr (Some decoder1)"
    by (rule fixture_lookup1 [OF fixture_inits1(2)])
       (simp add: registered_def args_multi_def args_scenario_def)
  have sh: "shape (ones [1, 8, 2, 2]) = [1, 8, 2, 2]" "shape (no_padding [1, 2, 2]) = [1, 2, 2]"
    "shape (ones [1, 3, 8]) = [1, 3, 8]" "shape (ones [3, 8]) = [3, 8]"
    "shape (ones [1, 3]) = [1, 3]" "shape (ones [5, 8]) = [5, 8]"
    by (simp_all add: ones_def no_padding_def)
  have pos: "(0::nat) < 2 * 2" by simp
  have Nd: "(0::nat) < 2" by simp
  from fused_memory_image_then_text [OF fixture_inits1(2) Nd idx sh(1) sh(1) sh(2) pos sh(3) sh(4)
      sh(5) sh(6) fixture_kernels1 [OF fixture_inits1(2)] look decoder1_keeps_shape]
  obtain f :: "int fused" and hs mem where r:
    "MTTransformer_forward torch1 mt_multi1 (Some (ones [1, 8, 2, 2]))
       (Some (no_padding [1, 2, 2])) (Some (ones [1, 8, 2, 2]))
       (Some (ones [1, 3, 8])) (Some (ones [1, 3])) (Some (ones [3, 8])) (Some (ones [5, 8]))
       (Some ''detection'') (Some ''coco'') (Some 0) = Inr (hs, mem)"
    "shape mem = [1, 8, 2 * 2 + 3]"
    "\<forall>n k l. elem mem [n, k, l] = elem (fused_memories f) [l, n, k]"
    "\<forall>l n k. elem (fused_memories f) [2 * 2 + l, n, k] = elem (ones [1, 3, 8]) [n, l, k]"
    by blast
  from r(3) have "elem mem [0, 0, 4] = elem (fused_memories f) [2 * 2 + 0, 0, 0]" by simp
  also from r(4) have "\<dots> = elem (ones [1, 3, 8]) [0, 0, 0]" by blast
  finally have "elem mem [0, 0, 4] = 1" by (simp add: ones_def)
  moreover from r(2) have "shape mem = [1, 8, 7]" by simp
  ultimately show ?thesis using r(1) by simp
qed

text \<open>
  Claim C4, amended.  In the scenario (one task and one dataset, decoders shared, two
  encoder and two decoder layers, width 8, two heads), constructed with
  \<^verbatim>\<open>pass_pos_and_query\<close> and the return of intermediate layers set, a forward call with
  a well-formed image and no text returns hidden states of shape
  \<open>2 \<times> bs \<times> Q \<times> 8\<close> and a memory of shape \<open>bs \<times> 8 \<times> (h * w)\<close>: the two spatial
  dimensions stay flattened into one.  The kernels are asked to keep their contracts on
  arguments of the shapes that belong together.
\<close>

theorem scenario_output_shapes:
  fixes T :: "'a::{zero,plus,times} torch"
  assumes init: "MTTransformer_init T args 8 8 2 2 2 dff dr act nb True True True = Inr self"
    and nq: "num_queries args = [(task, [(dataset, n)])]"
    and idx: "use_task_embedding_in_encoder args \<or> use_task_embedding_in_decoder args
                \<longrightarrow> task_idx_in_range task_idx"
    and x: "shape x = [bs, 8, h, w]"
    and p: "shape p = [bs, 8, h, w]"
    and mk: "shape mk = [bs, h, w]"
    and pos: "0 < h * w"
    and qe: "shape qe = [Q, 8]"
    and enc: "encoder_keeps_shape (self_encoder self) (h * w + enc_prefix self) bs 8"
    and dec: "\<forall>d. self_decoder self = Some d \<longrightarrow>
                decoder_keeps_shape d (Q + dec_prefix self) (h * w) bs 8"
  shows "\<exists>hs mem. MTTransformer_forward T self (Some x) (Some mk) (Some p) None text_mask
             text_pos (Some qe) (Some task) (Some dataset) task_idx = Inr (hs, mem)
           \<and> shape hs = [2, bs, Q, 8]
           \<and> shape mem = [bs, 8, h * w]"
proof -
  note m = built_model_facts [OF init]
  from idx m(1) have ok: "task_idx_ok self task_idx"
    by (simp add: task_idx_ok_def)
  from nq have "registered args task dataset"
    by (simp add: registered_def)
  with lookup_decoder_built [OF init, of task dataset]
  obtain d where look: "lookup_decoder self (Some task) (Some dataset) = Inr (Some d)"
    and sd: "self_decoder self = Some d"
    by auto
  from dec sd have dk: "decoder_keeps_shape d (Q + dec_prefix self) (h * w + 0) bs 8"
    by simp
  from lookup_decoder_props [OF init look]
  have dp: "decoder_norm d \<noteq> None" "return_intermediate d" "decoder_layers d \<noteq> []"
    and len: "length (decoder_layers d) = 2"
    by auto
  from init have "self_enc2dec_proj self = Identity" "self_pos_embed_proj self = Identity"
    by (auto elim: MTTransformer_init_Inr)
  with enc have ker: "Some x \<noteq> None \<longrightarrow> image_kernels_ok self (h * w) bs 8 8"
    by (simp add: image_kernels_ok_def identity_maps_shape)
  have img: "Some x = None \<and> h * w = 0
      \<or> image_stream (Some x) (Some mk) (Some p) bs 8 h w \<and> h * w = h * w"
    using x p mk pos by (simp add: image_stream_def)
  have tstr: "(None :: 'a tensor option) = None \<and> (0::nat) = 0
      \<or> text_stream None text_mask text_pos bs 0 8"
    by simp
  from m(2) have pass: "self_pass_pos_and_query self" by simp
  from forward_shapes [OF m(3) ok pass img ker tstr _ qe look dk dp, of T] len
  show ?thesis by simp
qed

theorem scenario_output_shapes_witness:
  "\<exists>hs mem. MTTransformer_forward torch1 mt_scenario1 (Some (ones [1, 8, 2, 2]))
       (Some (no_padding [1, 2, 2])) (Some (ones [1, 8, 2, 2])) None None None
       (Some (ones [5, 8])) (Some ''detection'') (Some ''coco'') None = Inr (hs, mem)
     \<and> shape hs = [2, 1, 5, 8] \<and> shape mem = [1, 8, 4]"
proof -
  note parts = fixture_parts1 [OF fixture_inits1(1)]
  have nq: "num_queries args_scenario = [(''detection'', [(''coco'', 100)])]"
    by (simp add: args_scenario_def)
  have idx: "use_task_embedding_in_encoder args_scenario
      \<or> use_task_embedding_in_decoder args_scenario \<longrightarrow> task_idx_in_range None"
    by (simp add: args_scenario_def)
  have sh: "shape (ones [1, 8, 2, 2]) = [1, 8, 2, 2]" "shape (no_padding [1, 2, 2]) = [1, 2, 2]"
    "shape (ones [5, 8]) = [5, 8]"
    by (simp_all add: ones_def no_padding_def)
  have pos: "(0::nat) < 2 * 2" by simp
  have enc: "encoder_keeps_shape (self_encoder mt_scenario1) (2 * 2 + enc_prefix mt_scenario1) 1 8"
    by (simp add: parts(4) encoder1_keeps_shape)
  have dec: "\<forall>d. self_decoder mt_scenario1 = Some d \<longrightarrow>
      decoder_keeps_shape d (5 + dec_prefix mt_scenario1) (2 * 2) 1 8"
    by (simp add: parts(7) decoder1_keeps_shape)
  from scenario_output_shapes [OF fixture_inits1(1) nq idx sh(1) sh(1) sh(2) pos sh(3) enc dec,
      of None None]
  show ?thesis by simp
qed

theorem scenario_memory_not_reshaped_counterexample:
  "result_shapes
     (MTTransformer_forward torch0 mt_scenario (Some (ones [1, 8, 2, 2]))
        (Some (no_padding [1, 2, 2])) (Some (ones [1, 8, 2, 2])) None None None
        (Some (ones [5, 8])) (Some ''detection'') (Some ''coco'') None)
   = Inr ([2, 1, 5, 8], [1, 8, 4])"
proof -
  note parts = fixture_parts [OF fixture_inits(1)]
  have ok: "task_idx_ok mt_scenario None"
    by (simp add: task_idx_ok_def parts(1) args_scenario_def)
  have pass: "self_pass_pos_and_query mt_scenario" by (simp add: parts(2))
  have img: "Some (ones [1, 8, 2, 2]) = None \<and> (4::nat) = 0
      \<or> image_stream (Some (ones [1, 8, 2, 2])) (Some (no_padding [1, 2, 2]))
           (Some (ones [1, 8, 2, 2])) 1 8 2 2 \<and> (4::nat) = 2 * 2"
    by (simp add: image_stream_def ones_def no_padding_def)
  have ker: "Some (ones [1, 8, 2, 2]) \<noteq> None \<longrightarrow> image_kernels_ok mt_scenario (2 * 2) 1 8 8"
    using fixture_kernels [OF fixture_inits(1)] by simp
  have tstr: "(None :: int tensor option) = None \<and> (0::nat) = 0
      \<or> text_stream None None None 1 0 8"
    by simp
  have qe: "shape (ones [5, 8]) = [5, 8]" by (simp add: ones_def)
  have look: "lookup_decoder mt_scenario (Some ''detection'') (Some ''coco'') = Inr (Some decoder0)"
    by (rule fixture_lookup [OF fixture_inits(1)])
       (simp add: registered_def args_scenario_def)
  from forward_shapes [OF parts(3) ok pass img ker tstr _ qe look decoder0_keeps_shape,
      of torch0]
  show ?thesis
    by (auto simp: decoder0_fields result_shapes_def)
qed

theorem text_without_pass_not_implemented_witness:
  "MTTransformer_forward torch0 mt_nopass (Some (ones [1, 8, 2, 2]))
     (Some (no_padding [1, 2, 2])) (Some (ones [1, 8, 2, 2]))
     (Some (ones [1, 3, 8])) (Some (ones [1, 3])) (Some (ones [3, 8])) (Some (ones [5, 8]))
     (Some ''detection'') (Some ''coco'') None
   = Inl NotImplementedError"
proof -
  note parts = fixture_parts [OF fixture_inits(3)]
  let ?loc0 = "\<lparr> loc_memories = [], loc_pos_embeds = [], loc_masks = [],
                 loc_query_embed = Some (ones [5, 8]), loc_tgt = None \<rparr> :: int locals"
  have ie: "use_task_embedding_in_encoder (self_args mt_nopass) \<longrightarrow> task_idx_in_range None"
    by (simp add: parts(1) args_nopass_def args_scenario_def)
  have sh: "shape (ones [1, 8, 2, 2]) = [1, 8, 2, 2]" "shape (no_padding [1, 2, 2]) = [1, 2, 2]"
    by (simp_all add: ones_def no_padding_def)
  have pos: "(0::nat) < 2 * 2" by simp
  have q: "False \<longrightarrow> self_pass_pos_and_query mt_nopass
      \<and> (use_task_embedding_in_decoder (self_args mt_nopass) \<longrightarrow> task_idx_in_range None)
      \<and> loc_query_embed ?loc0 = Some (ones [5, 8]) \<and> shape (ones [5, 8]) = [5, 8]"
    by simp
  note k = fixture_kernels [OF fixture_inits(3), of "2 * 2" 1, unfolded image_kernels_ok_def]
  from forward_image_shapes [OF parts(3) ie sh(1) sh(1) sh(2) pos q k [THEN conjunct1]
      k [THEN conjunct2, THEN conjunct1] k [THEN conjunct2, THEN conjunct2], of torch0]
  obtain loc where "forward_image torch0 mt_nopass (ones [1, 8, 2, 2])
      (Some (no_padding [1, 2, 2])) (Some (ones [1, 8, 2, 2])) False None ?loc0 = Inr loc"
    by blast
  then have img: "Some (ones [1, 8, 2, 2]) = None \<or>
      (\<exists>img loc. Some (ones [1, 8, 2, 2]) = Some img
         \<and> forward_image torch0 mt_nopass img (Some (no_padding [1, 2, 2]))
              (Some (ones [1, 8, 2, 2])) False None ?loc0 = Inr loc)"
    by blast
  have "shape (ones [1, 3, 8]) = [1, 3, 8]
      \<and> (\<exists>tp Lp cp. Some (ones [3, 8]) = Some tp \<and> shape tp = [Lp, cp])
      \<and> (\<exists>qe Q. Some (ones [5, 8]) = Some qe \<and> shape qe = [Q, 8])
      \<and> (use_task_embedding_in_decoder args_nopass \<longrightarrow> task_idx_in_range None)"
    by (simp add: ones_def args_nopass_def args_scenario_def)
  with img text_without_pass_not_implemented [where img_src = "Some (ones [1, 8, 2, 2])"
      and img_mask = "Some (no_padding [1, 2, 2])" and img_pos = "Some (ones [1, 8, 2, 2])"
      and text_src = "ones [1, 3, 8]" and text_mask = "Some (ones [1, 3])"
      and text_pos = "Some (ones [3, 8])" and query_embed = "Some (ones [5, 8])"
      and task_type = "Some ''detection''" and dataset_name = "Some ''coco''"
      and task_idx = None and bs = 1 and Lt = 3 and c = 8, OF fixture_inits(3)]
  show ?thesis by blast
qed

end
